theory Spec2Isabelle
  imports Complex_Main "HOL-Library.Log_Nat" "HOL-Library.Word"
begin

unbundle bit_operations_syntax

section \<open>Errors and external handles\<close>

text \<open>
  Every failure of the library is a JavaScript exception. The library itself only ever
  writes \<^verbatim>\<open>throw new Error(message)\<close>; reading a property of \<^verbatim>\<open>undefined\<close> raises a
  \<^verbatim>\<open>TypeError\<close>. An exception is a value of type \<open>error\<close>; a call that may throw returns
  \<open>error + 'a\<close>, with \<open>Inl\<close> for the exception. An \<^verbatim>\<open>async\<close> method that its caller awaits
  is modelled by the sequence of its statements, each \<^verbatim>\<open>await\<close> run to completion; a rejected
  promise is the exception it carries. The one call that is not awaited, that of
  \<^verbatim>\<open>generate\<close> in \<^verbatim>\<open>createTexture\<close>, is cut at its first \<^verbatim>\<open>await\<close>. A method that changes its
  object returns the changed object next to its result.
\<close>

datatype error = Error string | TypeError string

type_synonym GPUTextureFormat = string

text \<open>The shader text is the asset \<^verbatim>\<open>./assets/mipmap.wgsl?raw\<close>; it is named, not read.\<close>

datatype ShaderSource = MipmapWgsl

record GPUShaderModuleDescriptor =
  smd_label :: string
  smd_code :: ShaderSource

datatype GPUShaderModule = GPUShaderModule GPUShaderModuleDescriptor

record GPUProgrammableStage =
  stage_module :: GPUShaderModule
  stage_entryPoint :: string

record GPURenderPipelineDescriptor =
  rpd_label :: string
  rpd_layout :: string
  rpd_vertex :: GPUProgrammableStage
  rpd_fragment :: GPUProgrammableStage
  rpd_targets :: "GPUTextureFormat list"

datatype GPURenderPipeline = GPURenderPipeline GPURenderPipelineDescriptor

datatype GPUSampler = GPUSampler string

text \<open>
  The device is the platform's. What the library reads of it is its label, the limit
  \<^verbatim>\<open>limits.maxTextureDimension2D\<close> and the outcome of \<^verbatim>\<open>createRenderPipeline\<close>, which
  either throws or returns a pipeline. The other \<^verbatim>\<open>create...\<close> calls return a handle.
\<close>

record GPUDevice =
  dev_label :: string
  maxTextureDimension2D :: nat
  createRenderPipeline :: "GPURenderPipelineDescriptor \<Rightarrow> error + GPURenderPipeline"

text \<open>
  \<open>requestDevice\<close> and \<open>requestAdapter\<close> stand for the awaited promises: \<open>Inl e\<close> when the promise
  is rejected with \<open>e\<close>, \<open>Inr None\<close> when it resolves to \<^verbatim>\<open>null\<close>, \<open>Inr (Some x)\<close> when it
  resolves to \<open>x\<close>. \<^verbatim>\<open>navigator.gpu\<close> is \<open>None\<close> where the browser has no WebGPU.
\<close>

record GPUAdapter =
  adapter_name :: string
  requestDevice :: "string \<Rightarrow> error + GPUDevice option"

record NavigatorGPU =
  requestAdapter :: "error + GPUAdapter option"
  getPreferredCanvasFormat :: GPUTextureFormat

record Navigator =
  nav_gpu :: "NavigatorGPU option"

section \<open>Gpu\<close>

record Gpu =
  gpu_label :: string
  priv_adapter :: "GPUAdapter option"
  priv_device :: "GPUDevice option"

definition new_Gpu :: "string \<Rightarrow> Gpu" where
  "new_Gpu label = \<lparr>gpu_label = label, priv_adapter = None, priv_device = None\<rparr>"

definition Gpu_ready :: "Gpu \<Rightarrow> bool" where
  "Gpu_ready g \<longleftrightarrow> priv_adapter g \<noteq> None \<and> priv_device g \<noteq> None"

definition Gpu_adapter :: "Gpu \<Rightarrow> error + GPUAdapter" where
  "Gpu_adapter g =
     (case priv_adapter g of
        None \<Rightarrow> Inl (Error ''Rendering device is not initialized'')
      | Some a \<Rightarrow> Inr a)"

definition Gpu_device :: "Gpu \<Rightarrow> error + GPUDevice" where
  "Gpu_device g =
     (case priv_device g of
        None \<Rightarrow> Inl (Error ''Rendering device is not initialized'')
      | Some d \<Rightarrow> Inr d)"

text \<open>
  \<^verbatim>\<open>Gpu.init\<close>, with each \<^verbatim>\<open>await\<close> run to completion. A rejected \<^verbatim>\<open>await\<close> leaves \<^verbatim>\<open>init\<close>
  before the assignment it stands in. Otherwise the field is assigned before it is tested,
  so the state returned with an exception holds what was assigned until then.
  \<open>navigator_requestAdapter\<close> is \<^verbatim>\<open>(await navigator.gpu?.requestAdapter()) ?? null\<close>.
\<close>

definition navigator_requestAdapter :: "Navigator \<Rightarrow> error + GPUAdapter option" where
  "navigator_requestAdapter nav =
     (case nav_gpu nav of None \<Rightarrow> Inr None | Some ng \<Rightarrow> requestAdapter ng)"

definition Gpu_init :: "Navigator \<Rightarrow> Gpu \<Rightarrow> (error + unit) \<times> Gpu" where
  "Gpu_init nav g =
     (case navigator_requestAdapter nav of
        Inl e \<Rightarrow> (Inl e, g)
      | Inr adapter \<Rightarrow>
          (let g1 = g\<lparr>priv_adapter := adapter\<rparr>
           in case priv_adapter g1 of
                None \<Rightarrow> (Inl (Error ''browser does not support WebGPU''), g1)
              | Some a \<Rightarrow>
                  (case requestDevice a (gpu_label g1 @ '' device'') of
                     Inl e \<Rightarrow> (Inl e, g1)
                   | Inr device \<Rightarrow>
                       (let g2 = g1\<lparr>priv_device := device\<rparr>
                        in case priv_device g2 of
                             None \<Rightarrow> (Inl (Error ''browser does not support WebGPU''), g2)
                           | Some d \<Rightarrow> (Inr (), g2)))))"

text \<open>
  A run of calls of \<^verbatim>\<open>init\<close> on one Gpu, each with the platform of its moment. The result
  says whether one of the calls has returned without an exception.
\<close>

fun Gpu_init_calls :: "Navigator list \<Rightarrow> Gpu \<Rightarrow> bool \<times> Gpu" where
  "Gpu_init_calls [] g = (False, g)"
| "Gpu_init_calls (nav # navs) g =
     (case Gpu_init nav g of
        (Inl e, g1) \<Rightarrow> Gpu_init_calls navs g1
      | (Inr u, g1) \<Rightarrow> (True, snd (Gpu_init_calls navs g1)))"

section \<open>Program\<close>

record Program =
  priv_shaderModule :: "GPUShaderModule option"
  priv_pipeline :: "GPURenderPipeline option"

record ProgramDescriptor =
  shaderDescriptor :: GPUShaderModuleDescriptor
  pipelineDescriptor :: "GPUShaderModule \<Rightarrow> GPURenderPipelineDescriptor"

definition new_Program :: Program where
  "new_Program = \<lparr>priv_shaderModule = None, priv_pipeline = None\<rparr>"

definition Program_ready :: "Program \<Rightarrow> bool" where
  "Program_ready p \<longleftrightarrow> priv_shaderModule p \<noteq> None \<and> priv_pipeline p \<noteq> None"

definition Program_shaderModule :: "Program \<Rightarrow> error + GPUShaderModule" where
  "Program_shaderModule p =
     (case priv_shaderModule p of
        None \<Rightarrow> Inl (Error ''Program is not initialized'')
      | Some m \<Rightarrow> Inr m)"

definition Program_pipeline :: "Program \<Rightarrow> error + GPURenderPipeline" where
  "Program_pipeline p =
     (case priv_pipeline p of
        None \<Rightarrow> Inl (Error ''Program is not initialized'')
      | Some pl \<Rightarrow> Inr pl)"

text \<open>
  The calls made on the device and on its queue are kept in order in a log, so that a
  theorem can say which work a function has issued. Views and bind groups are values.
  \<open>CopyExternalImageToTexture source flipY texture mipLevel width height\<close> is the upload of an
  image; \<open>mipLevel\<close> is the level of the destination.
\<close>

record GPUTexture =
  tex_label :: "string option"
  tex_format :: GPUTextureFormat
  tex_width :: nat
  tex_height :: nat
  tex_mipLevelCount :: int
  tex_usage :: "32 word"

record GPUTextureView =
  view_texture :: GPUTexture
  view_baseMipLevel :: nat
  view_mipLevelCount :: nat

record GPUBindGroup =
  bg_layout :: "GPURenderPipeline \<times> nat"
  bg_sampler :: GPUSampler
  bg_view :: GPUTextureView

record GPURenderPassDescriptor =
  rp_label :: string
  rp_view :: GPUTextureView
  rp_clearValue :: "int list"
  rp_loadOp :: string
  rp_storeOp :: string

text \<open>
  One encoded render pass: \<^verbatim>\<open>beginRenderPass\<close>, \<^verbatim>\<open>setPipeline\<close>, \<^verbatim>\<open>setBindGroup\<close>,
  \<^verbatim>\<open>draw\<close>, \<^verbatim>\<open>end\<close>. The fields \<open>pass_width\<close> and \<open>pass_height\<close> are not sent to the
  device: they hold the values of the loop variables \<^verbatim>\<open>width\<close> and \<^verbatim>\<open>height\<close> of
  \<^verbatim>\<open>generate\<close> at the moment the pass is encoded, that is, the extent the loop computes
  for the level the pass renders into.
\<close>

record RenderPass =
  pass_descriptor :: GPURenderPassDescriptor
  pass_pipeline :: GPURenderPipeline
  pass_bindGroup :: GPUBindGroup
  pass_draw :: nat
  pass_width :: nat
  pass_height :: nat

type_synonym GPUCommandBuffer = "RenderPass list"

datatype gpu_call =
    CreateShaderModule GPUShaderModuleDescriptor
  | CreateRenderPipeline GPURenderPipelineDescriptor
  | CreateSampler string
  | CreateTexture GPUTexture
  | CopyExternalImageToTexture string bool GPUTexture nat nat nat
  | CreateCommandEncoder string
  | Submit "GPUCommandBuffer list"

text \<open>
  \<^verbatim>\<open>Program.init\<close>: the shader module is stored before the pipeline is requested.
\<close>

definition Program_init ::
  "Gpu \<Rightarrow> ProgramDescriptor \<Rightarrow> Program \<times> gpu_call list
     \<Rightarrow> (error + unit) \<times> (Program \<times> gpu_call list)" where
  "Program_init gpu desc = (\<lambda>(p, calls).
     (case Gpu_device gpu of
        Inl e \<Rightarrow> (Inl e, (p, calls))
      | Inr dev \<Rightarrow>
          (let m = GPUShaderModule (shaderDescriptor desc);
               p1 = p\<lparr>priv_shaderModule := Some m\<rparr>;
               calls1 = calls @ [CreateShaderModule (shaderDescriptor desc)]
           in case Gpu_device gpu of
                Inl e \<Rightarrow> (Inl e, (p1, calls1))
              | Inr dev2 \<Rightarrow>
                  (let calls2 = calls1 @ [CreateRenderPipeline (pipelineDescriptor desc m)]
                   in case createRenderPipeline dev2 (pipelineDescriptor desc m) of
                        Inl e \<Rightarrow> (Inl e, (p1, calls2))
                      | Inr pl \<Rightarrow> (Inr (), (p1\<lparr>priv_pipeline := Some pl\<rparr>, calls2))))))"

text \<open>A run of calls of \<^verbatim>\<open>init\<close> on one Program, as for the Gpu.\<close>

fun Program_init_calls ::
  "(Gpu \<times> ProgramDescriptor) list \<Rightarrow> Program \<times> gpu_call list
     \<Rightarrow> bool \<times> (Program \<times> gpu_call list)" where
  "Program_init_calls [] s = (False, s)"
| "Program_init_calls ((gpu, desc) # cs) s =
     (case Program_init gpu desc s of
        (Inl e, s1) \<Rightarrow> Program_init_calls cs s1
      | (Inr u, s1) \<Rightarrow> (True, snd (Program_init_calls cs s1)))"

section \<open>MipGenerator\<close>

text \<open>
  Program objects live in a store (\<open>programs\<close>); a reference to one is its index there.
  The map \<^verbatim>\<open>_programMap\<close> holds references, so that two results of \<^verbatim>\<open>getProgram\<close> can be
  compared for identity.

  An \<^verbatim>\<open>async\<close> function runs in its caller's turn up to its first \<^verbatim>\<open>await\<close>; what follows
  runs later. \<^verbatim>\<open>Program.init\<close> has no \<^verbatim>\<open>await\<close>, so a call of \<^verbatim>\<open>getProgram\<close> runs in its
  caller's turn up to \<^verbatim>\<open>await program.init(...)\<close>, with the whole of \<^verbatim>\<open>init\<close> done, and a call
  of \<^verbatim>\<open>generate\<close> up to \<^verbatim>\<open>await this.getProgram(...)\<close>. \<open>pending_program\<close> is where such a call
  stands at its \<^verbatim>\<open>await\<close>: \<open>Cached r\<close> when the map held the reference \<open>r\<close>, \<open>Awaiting r res\<close>
  when the Program \<open>r\<close> was allocated and \<^verbatim>\<open>init\<close> has ended with \<open>res\<close>. \<open>spawned\<close> holds the
  calls of \<^verbatim>\<open>generate\<close> that were started and not awaited, each at its \<^verbatim>\<open>await\<close>.
\<close>

datatype pending_program = Cached nat | Awaiting nat "error + unit"

record SpawnedGenerate =
  sg_texture :: GPUTexture
  sg_program :: pending_program

record World =
  programs :: "Program list"
  deviceCalls :: "gpu_call list"
  spawned :: "SpawnedGenerate list"

record MipGenerator =
  priv_sampler :: "GPUSampler option"
  priv_programMap :: "GPUTextureFormat \<rightharpoonup> nat"

definition new_MipGenerator :: MipGenerator where
  "new_MipGenerator = \<lparr>priv_sampler = None, priv_programMap = Map.empty\<rparr>"

definition MipGenerator_sampler :: "MipGenerator \<Rightarrow> error + GPUSampler" where
  "MipGenerator_sampler mg =
     (case priv_sampler mg of
        None \<Rightarrow> Inl (Error ''MipGenerator is not initialized'')
      | Some s \<Rightarrow> Inr s)"

definition MipGenerator_init ::
  "Gpu \<Rightarrow> MipGenerator \<times> World \<Rightarrow> (error + unit) \<times> (MipGenerator \<times> World)" where
  "MipGenerator_init gpu = (\<lambda>(mg, w).
     (case Gpu_device gpu of
        Inl e \<Rightarrow> (Inl e, (mg, w))
      | Inr dev \<Rightarrow>
          (Inr (), (mg\<lparr>priv_sampler := Some (GPUSampler ''linear'')\<rparr>,
                    w\<lparr>deviceCalls := deviceCalls w @ [CreateSampler ''linear'']\<rparr>))))"

text \<open>
  A JavaScript number is an IEEE 754 double: a significand of 53 bits and a binary exponent.
  \<open>ulp x\<close> is the distance between two neighbouring doubles at the magnitude of \<open>x\<close>, and
  \<open>to_double x\<close> is the double nearest to the real number \<open>x\<close>, a tie going to the even
  significand. Overflow and subnormal numbers are left out: the numbers rounded here lie
  between 1 and 2048, or are 0.
\<close>

definition round_even :: "real \<Rightarrow> int" where
  "round_even y =
     (let f = \<lfloor>y\<rfloor>
      in if y - of_int f < 1 / 2 then f
         else if 1 / 2 < y - of_int f then f + 1
         else if even f then f else f + 1)"

definition ulp :: "real \<Rightarrow> real" where
  "ulp x = 2 powr (of_int (\<lfloor>log 2 \<bar>x\<bar>\<rfloor> - 52))"

definition to_double :: "real \<Rightarrow> real" where
  "to_double x = (if x = 0 then 0 else of_int (round_even (x / ulp x)) * ulp x)"

text \<open>
  \<^verbatim>\<open>x | 0\<close> is ToInt32: truncate towards zero, reduce modulo \<open>2^32\<close>, read as signed.
  \<^verbatim>\<open>Math.log2\<close> returns a double: it is taken to be the double nearest to the logarithm, and
  \<^verbatim>\<open>1 + ...\<close> is the sum of two doubles, rounded. \<^verbatim>\<open>Math.max()\<close> of no argument is
  \<open>-Infinity\<close>, and \<^verbatim>\<open>Math.log2\<close> of it is \<open>NaN\<close>; \<^verbatim>\<open>Math.log2(0)\<close> is \<open>-Infinity\<close>; ToInt32 of
  both is 0. The sizes are extents of a texture, so they are natural numbers.
\<close>

definition ToInt32 :: "real \<Rightarrow> int" where
  "ToInt32 x =
     (let n = (if x < 0 then \<lceil>x\<rceil> else \<lfloor>x\<rfloor>);
          m = n mod 2 ^ 32
      in if 2 ^ 31 \<le> m then m - 2 ^ 32 else m)"

definition Math_log2 :: "real \<Rightarrow> real" where
  "Math_log2 x = to_double (log 2 x)"

definition countMipLevels :: "nat list \<Rightarrow> int" where
  "countMipLevels sizes =
     (if sizes = [] then 0
      else let maxSize = Max (set sizes)
           in if maxSize = 0 then 0
              else ToInt32 (to_double (1 + Math_log2 (real maxSize))))"

definition mipmapDescriptor :: "GPUTextureFormat \<Rightarrow> ProgramDescriptor" where
  "mipmapDescriptor format =
     \<lparr>shaderDescriptor = \<lparr>smd_label = ''mipmap shader'', smd_code = MipmapWgsl\<rparr>,
      pipelineDescriptor = (\<lambda>module.
        \<lparr>rpd_label = ''mipmap pipeline'',
         rpd_layout = ''auto'',
         rpd_vertex = \<lparr>stage_module = module, stage_entryPoint = ''vs''\<rparr>,
         rpd_fragment = \<lparr>stage_module = module, stage_entryPoint = ''fs''\<rparr>,
         rpd_targets = [format]\<rparr>)\<rparr>"

text \<open>
  \<^verbatim>\<open>getProgram\<close>: a cached reference is returned as it is. Otherwise a Program object is
  allocated and initialised, and it is stored in the map only after \<^verbatim>\<open>init\<close> has returned
  without an exception.
\<close>

definition getProgram ::
  "Gpu \<Rightarrow> GPUTextureFormat \<Rightarrow> MipGenerator \<times> World
     \<Rightarrow> (error + nat) \<times> (MipGenerator \<times> World)" where
  "getProgram gpu format = (\<lambda>(mg, w).
     (case priv_programMap mg format of
        Some program \<Rightarrow> (Inr program, (mg, w))
      | None \<Rightarrow>
          (let program = length (programs w);
               w1 = w\<lparr>programs := programs w @ [new_Program]\<rparr>
           in case Program_init gpu (mipmapDescriptor format)
                     (programs w1 ! program, deviceCalls w1) of
                (Inl e, (p, calls)) \<Rightarrow>
                  (Inl e, (mg, w1\<lparr>programs := (programs w1)[program := p],
                                  deviceCalls := calls\<rparr>))
              | (Inr u, (p, calls)) \<Rightarrow>
                  (Inr program,
                   (mg\<lparr>priv_programMap := (priv_programMap mg)(format \<mapsto> program)\<rparr>,
                    w1\<lparr>programs := (programs w1)[program := p],
                       deviceCalls := calls\<rparr>)))))"

definition createView :: "GPUTexture \<Rightarrow> nat \<Rightarrow> nat \<Rightarrow> GPUTextureView" where
  "createView texture baseMipLevel mipLevelCount =
     \<lparr>view_texture = texture, view_baseMipLevel = baseMipLevel,
      view_mipLevelCount = mipLevelCount\<rparr>"

definition getBindGroup ::
  "MipGenerator \<Rightarrow> Gpu \<Rightarrow> Program \<Rightarrow> GPUTexture \<Rightarrow> nat \<Rightarrow> error + GPUBindGroup" where
  "getBindGroup mg gpu program texture baseMipLevel =
     (case Gpu_device gpu of
        Inl e \<Rightarrow> Inl e
      | Inr dev \<Rightarrow>
          (case Program_pipeline program of
             Inl e \<Rightarrow> Inl e
           | Inr pl \<Rightarrow>
               (case MipGenerator_sampler mg of
                  Inl e \<Rightarrow> Inl e
                | Inr s \<Rightarrow>
                    Inr \<lparr>bg_layout = (pl, 0), bg_sampler = s,
                         bg_view = createView texture baseMipLevel 1\<rparr>)))"

definition getRenderPassDescriptor :: "GPUTexture \<Rightarrow> nat \<Rightarrow> GPURenderPassDescriptor" where
  "getRenderPassDescriptor texture baseMipLevel =
     \<lparr>rp_label = ''mimap renderPass'',
      rp_view = createView texture baseMipLevel 1,
      rp_clearValue = [0, 0, 0, 1],
      rp_loadOp = ''clear'',
      rp_storeOp = ''store''\<rparr>"

text \<open>
  \<^verbatim>\<open>renderMipmap\<close> appends one pass to the encoder. The last two arguments are the loop
  variables recorded in the pass (see \<open>RenderPass\<close>).
\<close>

definition renderMipmap ::
  "RenderPass list \<Rightarrow> Program \<Rightarrow> GPURenderPassDescriptor \<Rightarrow> GPUBindGroup
     \<Rightarrow> nat \<Rightarrow> nat \<Rightarrow> error + RenderPass list" where
  "renderMipmap encoder program renderPassDescriptor bindGroup width height =
     (case Program_pipeline program of
        Inl e \<Rightarrow> Inl e
      | Inr pl \<Rightarrow>
          Inr (encoder @
               [\<lparr>pass_descriptor = renderPassDescriptor, pass_pipeline = pl,
                 pass_bindGroup = bindGroup, pass_draw = 6,
                 pass_width = width, pass_height = height\<rparr>]))"

text \<open>
  The loop of \<^verbatim>\<open>generate\<close>. \<^verbatim>\<open>texture.width\<close> and \<^verbatim>\<open>texture.height\<close> are unsigned 32-bit
  extents, so \<^verbatim>\<open>(width / 2) | 0\<close> is the integer quotient.
\<close>

record LoopState =
  ls_width :: nat
  ls_height :: nat
  ls_baseMipLevel :: nat
  ls_encoder :: "RenderPass list"

definition loop_cond :: "int \<Rightarrow> LoopState \<Rightarrow> bool" where
  "loop_cond mipLevelCount st \<longleftrightarrow>
     (int (ls_baseMipLevel st) < mipLevelCount \<and> ls_width st > 1) \<or> ls_height st > 1"

function generate_loop ::
  "MipGenerator \<Rightarrow> Gpu \<Rightarrow> Program \<Rightarrow> GPUTexture \<Rightarrow> int \<Rightarrow> LoopState \<Rightarrow> error + LoopState"
  where
  "generate_loop mg gpu program texture mipLevelCount st =
     (if loop_cond mipLevelCount st then
        (let width = max 1 (ls_width st div 2);
             height = max 1 (ls_height st div 2)
         in case getBindGroup mg gpu program texture (ls_baseMipLevel st) of
              Inl e \<Rightarrow> Inl e
            | Inr bindGroup \<Rightarrow>
                (case renderMipmap (ls_encoder st) program
                        (getRenderPassDescriptor texture (ls_baseMipLevel st + 1))
                        bindGroup width height of
                   Inl e \<Rightarrow> Inl e
                 | Inr encoder \<Rightarrow>
                     generate_loop mg gpu program texture mipLevelCount
                       \<lparr>ls_width = width, ls_height = height,
                        ls_baseMipLevel = ls_baseMipLevel st + 1,
                        ls_encoder = encoder\<rparr>))
      else Inr st)"
  by pat_completeness auto
termination
  by (relation "measure (\<lambda>(mg, gpu, program, texture, mipLevelCount, st).
        (ls_width st - 1) + (ls_height st - 1))")
     (auto simp: loop_cond_def)

definition generate ::
  "Gpu \<Rightarrow> GPUTexture \<Rightarrow> int option \<Rightarrow> MipGenerator \<times> World
     \<Rightarrow> (error + nat) \<times> (MipGenerator \<times> World)" where
  "generate gpu texture mipLevelCount = (\<lambda>s.
     (case getProgram gpu (tex_format texture) s of
        (Inl e, s1) \<Rightarrow> (Inl e, s1)
      | (Inr program, (mg, w1)) \<Rightarrow>
          (case Gpu_device gpu of
             Inl e \<Rightarrow> (Inl e, (mg, w1))
           | Inr dev \<Rightarrow>
               (let w2 = w1\<lparr>deviceCalls := deviceCalls w1 @ [CreateCommandEncoder ''mip gen encoder'']\<rparr>;
                    width = tex_width texture;
                    height = tex_height texture;
                    count = (case mipLevelCount of
                               Some n \<Rightarrow> n
                             | None \<Rightarrow> countMipLevels [width, height])
                in case generate_loop mg gpu (programs w2 ! program) texture count
                          \<lparr>ls_width = width, ls_height = height,
                           ls_baseMipLevel = 0, ls_encoder = []\<rparr> of
                     Inl e \<Rightarrow> (Inl e, (mg, w2))
                   | Inr st \<Rightarrow>
                       (case Gpu_device gpu of
                          Inl e \<Rightarrow> (Inl e, (mg, w2))
                        | Inr dev2 \<Rightarrow>
                            (Inr (ls_baseMipLevel st),
                             (mg, w2\<lparr>deviceCalls := deviceCalls w2 @
                                       [Submit [ls_encoder st]]\<rparr>)))))))"

text \<open>
  \<open>getProgram\<close> and \<open>generate\<close> above are the calls run to their end, as a caller that awaits
  them sees them. The same two calls cut at their first \<^verbatim>\<open>await\<close>: \<open>getProgram_begin\<close> and
  \<open>generate_begin\<close> are what runs in the caller's turn, the look-up in the map and, when it
  finds nothing, the construction of the Program and the whole of \<^verbatim>\<open>Program.init\<close>;
  \<open>getProgram_resume\<close> and \<open>generate_resume\<close> are what runs later, on the MipGenerator of that
  moment: the entry in the map, then the encoder, the loop and the submission.
\<close>

definition getProgram_begin ::
  "Gpu \<Rightarrow> GPUTextureFormat \<Rightarrow> MipGenerator \<times> World \<Rightarrow> pending_program \<times> World" where
  "getProgram_begin gpu format = (\<lambda>(mg, w).
     (case priv_programMap mg format of
        Some program \<Rightarrow> (Cached program, w)
      | None \<Rightarrow>
          (let program = length (programs w);
               w1 = w\<lparr>programs := programs w @ [new_Program]\<rparr>
           in case Program_init gpu (mipmapDescriptor format)
                     (programs w1 ! program, deviceCalls w1) of
                (res, (p, calls)) \<Rightarrow>
                  (Awaiting program res,
                   w1\<lparr>programs := (programs w1)[program := p], deviceCalls := calls\<rparr>))))"

definition getProgram_resume ::
  "GPUTextureFormat \<Rightarrow> pending_program \<Rightarrow> MipGenerator \<times> World
     \<Rightarrow> (error + nat) \<times> (MipGenerator \<times> World)" where
  "getProgram_resume format pending = (\<lambda>(mg, w).
     (case pending of
        Cached program \<Rightarrow> (Inr program, (mg, w))
      | Awaiting program (Inl e) \<Rightarrow> (Inl e, (mg, w))
      | Awaiting program (Inr u) \<Rightarrow>
          (Inr program,
           (mg\<lparr>priv_programMap := (priv_programMap mg)(format \<mapsto> program)\<rparr>, w))))"

definition generate_begin ::
  "Gpu \<Rightarrow> GPUTexture \<Rightarrow> MipGenerator \<times> World \<Rightarrow> pending_program \<times> World" where
  "generate_begin gpu texture = getProgram_begin gpu (tex_format texture)"

definition generate_resume ::
  "Gpu \<Rightarrow> GPUTexture \<Rightarrow> int option \<Rightarrow> pending_program \<Rightarrow> MipGenerator \<times> World
     \<Rightarrow> (error + nat) \<times> (MipGenerator \<times> World)" where
  "generate_resume gpu texture mipLevelCount pending = (\<lambda>s.
     (case getProgram_resume (tex_format texture) pending s of
        (Inl e, s1) \<Rightarrow> (Inl e, s1)
      | (Inr program, (mg, w1)) \<Rightarrow>
          (case Gpu_device gpu of
             Inl e \<Rightarrow> (Inl e, (mg, w1))
           | Inr dev \<Rightarrow>
               (let w2 = w1\<lparr>deviceCalls := deviceCalls w1 @ [CreateCommandEncoder ''mip gen encoder'']\<rparr>;
                    width = tex_width texture;
                    height = tex_height texture;
                    count = (case mipLevelCount of
                               Some n \<Rightarrow> n
                             | None \<Rightarrow> countMipLevels [width, height])
                in case generate_loop mg gpu (programs w2 ! program) texture count
                          \<lparr>ls_width = width, ls_height = height,
                           ls_baseMipLevel = 0, ls_encoder = []\<rparr> of
                     Inl e \<Rightarrow> (Inl e, (mg, w2))
                   | Inr st \<Rightarrow>
                       (case Gpu_device gpu of
                          Inl e \<Rightarrow> (Inl e, (mg, w2))
                        | Inr dev2 \<Rightarrow>
                            (Inr (ls_baseMipLevel st),
                             (mg, w2\<lparr>deviceCalls := deviceCalls w2 @
                                       [Submit [ls_encoder st]]\<rparr>)))))))"

text \<open>
  A run of calls on one MipGenerator, each awaited, with the Gpu in the state of its moment.
  The result says whether a call of \<^verbatim>\<open>init\<close> has returned without an exception.
\<close>

datatype MipGenerator_call =
    Init Gpu
  | GetProgram Gpu GPUTextureFormat
  | Generate Gpu GPUTexture "int option"

fun MipGenerator_calls ::
  "MipGenerator_call list \<Rightarrow> MipGenerator \<times> World \<Rightarrow> bool \<times> (MipGenerator \<times> World)" where
  "MipGenerator_calls [] s = (False, s)"
| "MipGenerator_calls (Init gpu # cs) s =
     (case MipGenerator_init gpu s of
        (Inl e, s1) \<Rightarrow> MipGenerator_calls cs s1
      | (Inr u, s1) \<Rightarrow> (True, snd (MipGenerator_calls cs s1)))"
| "MipGenerator_calls (GetProgram gpu format # cs) s =
     MipGenerator_calls cs (snd (getProgram gpu format s))"
| "MipGenerator_calls (Generate gpu texture mipLevelCount # cs) s =
     MipGenerator_calls cs (snd (generate gpu texture mipLevelCount s))"

text \<open>
  The descriptor of the pipeline that \<^verbatim>\<open>getProgram\<close> requests for a format, the render passes
  that were submitted to the queue, and the invariant of the cache: a cached reference points
  into the store, to a Program whose pipeline is set, and no two formats share a reference.
\<close>

abbreviation mipmapPipeline :: "GPUTextureFormat \<Rightarrow> GPURenderPipelineDescriptor" where
  "mipmapPipeline format \<equiv>
     pipelineDescriptor (mipmapDescriptor format)
       (GPUShaderModule (shaderDescriptor (mipmapDescriptor format)))"

fun submitted :: "gpu_call list \<Rightarrow> RenderPass list" where
  "submitted [] = []"
| "submitted (Submit bufs # cs) = concat bufs @ submitted cs"
| "submitted (c # cs) = submitted cs"

definition wf_state :: "MipGenerator \<times> World \<Rightarrow> bool" where
  "wf_state s \<longleftrightarrow>
     (\<forall>f r. priv_programMap (fst s) f = Some r \<longrightarrow>
        r < length (programs (snd s)) \<and> priv_pipeline (programs (snd s) ! r) \<noteq> None)
     \<and> (\<forall>f f' r. priv_programMap (fst s) f = Some r \<and> priv_programMap (fst s) f' = Some r
          \<longrightarrow> f = f')"

section \<open>TextureLoader\<close>

definition GPUTextureUsage_COPY_SRC :: "32 word" where
  "GPUTextureUsage_COPY_SRC = 1"

definition GPUTextureUsage_COPY_DST :: "32 word" where
  "GPUTextureUsage_COPY_DST = 2"

definition GPUTextureUsage_TEXTURE_BINDING :: "32 word" where
  "GPUTextureUsage_TEXTURE_BINDING = 4"

definition GPUTextureUsage_STORAGE_BINDING :: "32 word" where
  "GPUTextureUsage_STORAGE_BINDING = 8"

definition GPUTextureUsage_RENDER_ATTACHMENT :: "32 word" where
  "GPUTextureUsage_RENDER_ATTACHMENT = 16"

record TextureLoader =
  priv_mipGenerator :: MipGenerator

definition new_TextureLoader :: TextureLoader where
  "new_TextureLoader = \<lparr>priv_mipGenerator = new_MipGenerator\<rparr>"

definition TextureLoader_init ::
  "Gpu \<Rightarrow> TextureLoader \<times> World \<Rightarrow> (error + unit) \<times> (TextureLoader \<times> World)" where
  "TextureLoader_init gpu = (\<lambda>(tl, w).
     (case MipGenerator_init gpu (priv_mipGenerator tl, w) of
        (r, (mg, w1)) \<Rightarrow> (r, (tl\<lparr>priv_mipGenerator := mg\<rparr>, w1))))"

record CreateTextureOptions =
  opt_gpu :: Gpu
  opt_source :: string
  opt_label :: "string option"
  opt_size :: "nat \<times> nat"
  opt_format :: GPUTextureFormat

text \<open>
  \<^verbatim>\<open>createTexture\<close>. The call of \<^verbatim>\<open>generate\<close> is not awaited: it runs up to its first
  \<^verbatim>\<open>await\<close> (\<open>generate_begin\<close>), the rest is recorded in \<open>spawned\<close>, and its outcome is no part
  of what \<^verbatim>\<open>createTexture\<close> returns. The state returned is the state at the \<^verbatim>\<open>return\<close>
  statement. The test \<^verbatim>\<open>if (texture.mipLevelCount)\<close> is the truthiness of a number: it is
  not zero.
\<close>

definition createTexture ::
  "CreateTextureOptions \<Rightarrow> TextureLoader \<times> World
     \<Rightarrow> (error + GPUTexture) \<times> (TextureLoader \<times> World)" where
  "createTexture opts = (\<lambda>(tl, w).
     (case Gpu_device (opt_gpu opts) of
        Inl e \<Rightarrow> (Inl e, (tl, w))
      | Inr dev \<Rightarrow>
          (let size = opt_size opts;
               texture =
                 \<lparr>tex_label = opt_label opts,
                  tex_format = opt_format opts,
                  tex_width = fst size,
                  tex_height = snd size,
                  tex_mipLevelCount = countMipLevels [fst size, snd size],
                  tex_usage = GPUTextureUsage_TEXTURE_BINDING OR GPUTextureUsage_COPY_DST
                                OR GPUTextureUsage_RENDER_ATTACHMENT\<rparr>;
               w1 = w\<lparr>deviceCalls := deviceCalls w @ [CreateTexture texture]\<rparr>
           in case Gpu_device (opt_gpu opts) of
                Inl e \<Rightarrow> (Inl e, (tl, w1))
              | Inr dev2 \<Rightarrow>
                  (let w2 = w1\<lparr>deviceCalls := deviceCalls w1 @
                              [CopyExternalImageToTexture (opt_source opts) True texture 0
                                 (fst size) (snd size)]\<rparr>;
                       w3 = (if tex_mipLevelCount texture \<noteq> 0
                             then (case generate_begin (opt_gpu opts) texture
                                          (priv_mipGenerator tl, w2) of
                                     (pending, w') \<Rightarrow>
                                       w'\<lparr>spawned := spawned w' @
                                            [\<lparr>sg_texture = texture, sg_program = pending\<rparr>]\<rparr>)
                             else w2)
                   in (Inr texture, (tl, w3))))))"

text \<open>
  The rest of a spawned call of \<^verbatim>\<open>generate\<close> runs later, on the state of that moment, with
  no level count given; nobody reads its outcome (a rejection stays unhandled).
\<close>

definition run_spawned :: "Gpu \<Rightarrow> TextureLoader \<times> World \<Rightarrow> TextureLoader \<times> World" where
  "run_spawned gpu = (\<lambda>(tl, w).
     (case spawned w of
        [] \<Rightarrow> (tl, w)
      | task # rest \<Rightarrow>
          (case generate_resume gpu (sg_texture task) None (sg_program task)
                  (priv_mipGenerator tl, w\<lparr>spawned := rest\<rparr>) of
             (r, (mg, w1)) \<Rightarrow> (tl\<lparr>priv_mipGenerator := mg\<rparr>, w1))))"

section \<open>Surface\<close>

record GPUCanvasConfiguration =
  cfg_device :: GPUDevice
  cfg_format :: GPUTextureFormat
  cfg_alphaMode :: string

record GPUCanvasContext =
  ctx_configuration :: "GPUCanvasConfiguration option"

text \<open>
  \<open>canvas_webgpu\<close> is what \<^verbatim>\<open>canvas.getContext('webgpu')\<close> returns. \<^verbatim>\<open>width\<close> and \<^verbatim>\<open>height\<close> of
  a canvas are attributes of type unsigned long.
\<close>

record HTMLCanvasElement =
  canvas_width :: nat
  canvas_height :: nat
  canvas_offsetWidth :: nat
  canvas_offsetHeight :: nat
  canvas_webgpu :: "GPUCanvasContext option"

text \<open>
  \<open>onResize\<close> says whether the user has set a callback. The callback is the user's code: the
  model keeps the list of the calls made to it, each with the canvas extent at that moment.
\<close>

record Surface =
  canvas :: HTMLCanvasElement
  onResize :: bool
  priv_resizeObserver :: bool
  priv_context :: "GPUCanvasContext option"
  priv_format :: "GPUTextureFormat option"
  onResize_calls :: "(nat \<times> nat) list"

definition new_Surface :: "HTMLCanvasElement \<Rightarrow> Surface" where
  "new_Surface c =
     \<lparr>canvas = c, onResize = False, priv_resizeObserver = False,
      priv_context = None, priv_format = None, onResize_calls = []\<rparr>"

text \<open>A string is falsy when it is empty; an object never is.\<close>

definition Surface_ready :: "Surface \<Rightarrow> bool" where
  "Surface_ready s \<longleftrightarrow>
     priv_context s \<noteq> None \<and> priv_format s \<noteq> None \<and> priv_format s \<noteq> Some []"

definition Surface_context :: "Surface \<Rightarrow> error + GPUCanvasContext" where
  "Surface_context s =
     (case priv_context s of
        None \<Rightarrow> Inl (Error ''Surface is not initialized'')
      | Some c \<Rightarrow> Inr c)"

definition Surface_format :: "Surface \<Rightarrow> error + GPUTextureFormat" where
  "Surface_format s =
     (case priv_format s of
        None \<Rightarrow> Inl (Error ''Surface is not initialized'')
      | Some f \<Rightarrow> if f = [] then Inl (Error ''Surface is not initialized'') else Inr f)"

definition Surface_init :: "Navigator \<Rightarrow> Gpu \<Rightarrow> Surface \<Rightarrow> (error + unit) \<times> Surface" where
  "Surface_init nav gpu s =
     (let s1 = s\<lparr>canvas := (canvas s)\<lparr>canvas_width := canvas_offsetWidth (canvas s),
                                        canvas_height := canvas_offsetHeight (canvas s)\<rparr>\<rparr>;
          s2 = s1\<lparr>priv_context := canvas_webgpu (canvas s1)\<rparr>
      in case priv_context s2 of
           None \<Rightarrow> (Inl (Error ''canvas does not support WebGPU''), s2)
         | Some ctx \<Rightarrow>
             (case nav_gpu nav of
                None \<Rightarrow> (Inl (TypeError ''navigator.gpu is undefined''), s2)
              | Some ng \<Rightarrow>
                  (let format = getPreferredCanvasFormat ng;
                       s3 = s2\<lparr>priv_format := Some format\<rparr>
                   in case Gpu_device gpu of
                        Inl e \<Rightarrow> (Inl e, s3)
                      | Inr dev \<Rightarrow>
                          (Inr (),
                           s3\<lparr>priv_context := Some (ctx\<lparr>ctx_configuration :=
                                   Some \<lparr>cfg_device = dev, cfg_format = format,
                                         cfg_alphaMode = ''premultiplied''\<rparr>\<rparr>),
                              priv_resizeObserver := True\<rparr>))))"

text \<open>
  The callback of the ResizeObserver. \<open>inlineSize\<close> and \<open>blockSize\<close> are those of
  \<^verbatim>\<open>entry.contentBoxSize[0]\<close>, two doubles. Storing a number in \<^verbatim>\<open>canvas.width\<close> converts it
  to unsigned long: truncated towards zero, modulo \<open>2^32\<close>.
\<close>

record ResizeObserverEntry =
  inlineSize :: real
  blockSize :: real

definition to_unsigned_long :: "real \<Rightarrow> nat" where
  "to_unsigned_long x = nat ((if x < 0 then \<lceil>x\<rceil> else \<lfloor>x\<rfloor>) mod 2 ^ 32)"

definition resize_entry :: "Gpu \<Rightarrow> ResizeObserverEntry \<Rightarrow> Surface \<Rightarrow> (error + unit) \<times> Surface" where
  "resize_entry gpu entry s =
     (case Gpu_device gpu of
        Inl e \<Rightarrow> (Inl e, s)
      | Inr dev \<Rightarrow>
          (let width = min (inlineSize entry) (real (maxTextureDimension2D dev))
           in case Gpu_device gpu of
                Inl e \<Rightarrow> (Inl e, s)
              | Inr dev2 \<Rightarrow>
                  (let height = min (blockSize entry) (real (maxTextureDimension2D dev2));
                       s1 = s\<lparr>canvas := (canvas s)\<lparr>canvas_width := to_unsigned_long (max 1 width)\<rparr>\<rparr>;
                       s2 = s1\<lparr>canvas := (canvas s1)\<lparr>canvas_height := to_unsigned_long (max 1 height)\<rparr>\<rparr>
                   in if onResize s2
                      then (Inr (), s2\<lparr>onResize_calls := onResize_calls s2 @
                              [(canvas_width (canvas s2), canvas_height (canvas s2))]\<rparr>)
                      else (Inr (), s2))))"

fun resize_observer :: "Gpu \<Rightarrow> ResizeObserverEntry list \<Rightarrow> Surface \<Rightarrow> (error + unit) \<times> Surface"
  where
  "resize_observer gpu [] s = (Inr (), s)"
| "resize_observer gpu (entry # entries) s =
     (case resize_entry gpu entry s of
        (Inl e, s1) \<Rightarrow> (Inl e, s1)
      | (Inr u, s1) \<Rightarrow> resize_observer gpu entries s1)"

section \<open>Platforms and objects of the examples\<close>

definition ex_device :: "string \<Rightarrow> GPUDevice" where
  "ex_device label =
     \<lparr>dev_label = label, maxTextureDimension2D = 4096,
      createRenderPipeline = (\<lambda>d. Inr (GPURenderPipeline d))\<rparr>"

definition ex_strict_device :: GPUDevice where
  "ex_strict_device =
     \<lparr>dev_label = ''strict device'', maxTextureDimension2D = 8192,
      createRenderPipeline = (\<lambda>d. if rpd_targets d = [''rgba8unorm'']
                                   then Inr (GPURenderPipeline d)
                                   else Inl (TypeError ''unsupported format''))\<rparr>"

definition ex_failing_device :: GPUDevice where
  "ex_failing_device =
     \<lparr>dev_label = ''failing device'', maxTextureDimension2D = 8192,
      createRenderPipeline = (\<lambda>d. Inl (Error ''out of memory''))\<rparr>"

definition ex_adapter :: GPUAdapter where
  "ex_adapter =
     \<lparr>adapter_name = ''adapter'', requestDevice = (\<lambda>label. Inr (Some (ex_device label)))\<rparr>"

definition ex_adapter_no_device :: GPUAdapter where
  "ex_adapter_no_device = \<lparr>adapter_name = ''adapter'', requestDevice = (\<lambda>label. Inr None)\<rparr>"

definition ex_adapter_rejecting :: GPUAdapter where
  "ex_adapter_rejecting =
     \<lparr>adapter_name = ''adapter'',
      requestDevice = (\<lambda>label. Inl (TypeError ''required limit is not supported''))\<rparr>"

definition ex_navigator :: "GPUAdapter option \<Rightarrow> Navigator" where
  "ex_navigator a =
     \<lparr>nav_gpu = Some \<lparr>requestAdapter = Inr a, getPreferredCanvasFormat = ''bgra8unorm''\<rparr>\<rparr>"

definition ex_navigator_rejecting :: Navigator where
  "ex_navigator_rejecting =
     \<lparr>nav_gpu = Some \<lparr>requestAdapter = Inl (TypeError ''invalid power preference''),
                       getPreferredCanvasFormat = ''bgra8unorm''\<rparr>\<rparr>"

definition ex_gpu :: Gpu where
  "ex_gpu = snd (Gpu_init (ex_navigator (Some ex_adapter)) (new_Gpu ''untitled''))"

definition ex_strict_gpu :: Gpu where
  "ex_strict_gpu =
     \<lparr>gpu_label = ''untitled'', priv_adapter = Some ex_adapter,
      priv_device = Some ex_strict_device\<rparr>"

definition ex_failing_gpu :: Gpu where
  "ex_failing_gpu =
     \<lparr>gpu_label = ''untitled'', priv_adapter = Some ex_adapter,
      priv_device = Some ex_failing_device\<rparr>"

definition ex_world :: World where
  "ex_world = \<lparr>programs = [], deviceCalls = [], spawned = []\<rparr>"

definition ex_state :: "MipGenerator \<times> World" where
  "ex_state = snd (MipGenerator_init ex_gpu (new_MipGenerator, ex_world))"

definition ex_texture :: "nat \<Rightarrow> nat \<Rightarrow> GPUTexture" where
  "ex_texture w h =
     \<lparr>tex_label = None, tex_format = ''rgba8unorm'', tex_width = w, tex_height = h,
      tex_mipLevelCount = countMipLevels [w, h],
      tex_usage = GPUTextureUsage_TEXTURE_BINDING OR GPUTextureUsage_COPY_DST
                    OR GPUTextureUsage_RENDER_ATTACHMENT\<rparr>"

definition ex_canvas :: HTMLCanvasElement where
  "ex_canvas =
     \<lparr>canvas_width = 300, canvas_height = 150, canvas_offsetWidth = 640,
      canvas_offsetHeight = 480, canvas_webgpu = Some \<lparr>ctx_configuration = None\<rparr>\<rparr>"

section \<open>The number of mip levels\<close>

text \<open>Rounding to the nearest integer keeps the order and every integer bound.\<close>

lemma round_even_ge: "of_int i \<le> y \<Longrightarrow> i \<le> round_even y"
proof -
  assume "of_int i \<le> y"
  then have "i \<le> \<lfloor>y\<rfloor>" by (simp add: le_floor_iff)
  then show ?thesis by (auto simp: round_even_def Let_def)
qed

lemma round_even_le: "y \<le> of_int i \<Longrightarrow> round_even y \<le> i"
proof -
  assume a: "y \<le> of_int i"
  show ?thesis
  proof (cases "y = of_int i")
    case True
    then show ?thesis by (simp add: round_even_def)
  next
    case False
    then have "y < of_int i" using a by simp
    then have "\<lfloor>y\<rfloor> < i" by (simp add: floor_less_iff)
    then show ?thesis by (auto simp: round_even_def Let_def)
  qed
qed

lemma round_even_int [simp]: "round_even (of_int i) = i"
  by (simp add: round_even_def)

lemma round_even_below_half: "y < of_int i - 1 / 2 \<Longrightarrow> round_even y \<le> i - 1"
proof -
  assume a: "y < of_int i - 1 / 2"
  then have "y < of_int i" by simp
  then have f: "\<lfloor>y\<rfloor> \<le> i - 1" by (simp add: floor_less_iff)
  show ?thesis
  proof (cases "\<lfloor>y\<rfloor> = i - 1")
    case True
    then have "y - of_int \<lfloor>y\<rfloor> < 1 / 2" using a by simp
    then show ?thesis using True by (simp add: round_even_def Let_def)
  next
    case False
    then have "\<lfloor>y\<rfloor> + 1 \<le> i - 1" using f by simp
    then show ?thesis by (auto simp: round_even_def Let_def)
  qed
qed

lemma round_even_above_half: "of_int i - 1 / 2 < y \<Longrightarrow> i \<le> round_even y"
proof -
  assume a: "of_int i - 1 / 2 < y"
  then have "of_int (i - 1) \<le> y" by simp
  then have f: "i - 1 \<le> \<lfloor>y\<rfloor>" by (simp only: le_floor_iff)
  show ?thesis
  proof (cases "\<lfloor>y\<rfloor> = i - 1")
    case True
    then have "1 / 2 < y - of_int \<lfloor>y\<rfloor>" using a by simp
    then show ?thesis using True by (simp add: round_even_def Let_def)
  next
    case False
    then have "i \<le> \<lfloor>y\<rfloor>" using f by simp
    then show ?thesis by (auto simp: round_even_def Let_def)
  qed
qed

lemma round_even_mono: "a \<le> b \<Longrightarrow> round_even a \<le> round_even b"
proof -
  assume ab: "a \<le> b"
  then have fl: "\<lfloor>a\<rfloor> \<le> \<lfloor>b\<rfloor>" by (rule floor_mono)
  show ?thesis
  proof (cases "\<lfloor>a\<rfloor> = \<lfloor>b\<rfloor>")
    case True
    then show ?thesis using ab by (auto simp: round_even_def Let_def)
  next
    case False
    then have "\<lfloor>a\<rfloor> + 1 \<le> \<lfloor>b\<rfloor>" using fl by simp
    moreover have "round_even a \<le> \<lfloor>a\<rfloor> + 1" by (auto simp: round_even_def Let_def)
    moreover have "\<lfloor>b\<rfloor> \<le> round_even b" by (auto simp: round_even_def Let_def)
    ultimately show ?thesis by linarith
  qed
qed

text \<open>
  A positive \<open>x\<close> lies between \<open>2^52\<close> and \<open>2^53\<close> of its units, and so does its double; rounding
  to a double keeps the order and every bound that is itself a multiple of the unit.
\<close>

lemma ulp_pos [simp]: "0 < ulp x"
  by (simp add: ulp_def)

lemma ulp_nonneg [simp]: "0 \<le> ulp x"
  by (simp add: ulp_def)

lemma two_powr_shift: "2 ^ n * 2 powr (r - real n) = (2::real) powr r"
proof -
  have "(2::real) ^ n = 2 powr (real n)" by (simp add: powr_realpow)
  then have "2 ^ n * 2 powr (r - real n) = 2 powr (real n) * 2 powr (r - real n)" by simp
  also have "\<dots> = 2 powr (real n + (r - real n))" by (rule powr_add[symmetric])
  also have "\<dots> = 2 powr r" by simp
  finally show ?thesis .
qed

lemma ulp_bounds:
  assumes "0 < x"
  shows "2 ^ 52 * ulp x \<le> x" "x < 2 ^ 53 * ulp x"
proof -
  let ?e = "\<lfloor>log 2 x\<rfloor>"
  have b: "2 powr (of_int ?e) \<le> x \<and> x < 2 powr (of_int ?e + 1)"
    using floor_log_eq_powr_iff[of x 2 ?e] assms by simp
  have "2 ^ 52 * ulp x = 2 powr (of_int ?e)"
    using assms two_powr_shift[of 52 "of_int ?e"] by (simp add: ulp_def)
  then show "2 ^ 52 * ulp x \<le> x" using b by simp
  have "2 ^ 53 * ulp x = 2 powr (of_int ?e + 1)"
    using assms two_powr_shift[of 53 "of_int ?e + 1"] by (simp add: ulp_def)
  then show "x < 2 ^ 53 * ulp x" using b by simp
qed

lemma to_double_ge:
  assumes "0 < x" "of_int i * ulp x \<le> x"
  shows "of_int i * ulp x \<le> to_double x"
proof -
  have "of_int i \<le> x / ulp x" using assms(2) by (simp add: pos_le_divide_eq)
  then have "i \<le> round_even (x / ulp x)" by (rule round_even_ge)
  then have "of_int i * ulp x \<le> of_int (round_even (x / ulp x)) * ulp x"
    by (simp add: mult_right_mono)
  then show ?thesis using assms(1) by (simp add: to_double_def)
qed

lemma to_double_le:
  assumes "0 < x" "x \<le> of_int i * ulp x"
  shows "to_double x \<le> of_int i * ulp x"
proof -
  have "x / ulp x \<le> of_int i" using assms(2) by (simp add: pos_divide_le_eq)
  then have "round_even (x / ulp x) \<le> i" by (rule round_even_le)
  then have "of_int (round_even (x / ulp x)) * ulp x \<le> of_int i * ulp x"
    by (simp add: mult_right_mono)
  then show ?thesis using assms(1) by (simp add: to_double_def)
qed

lemma to_double_below_half:
  assumes "0 < x" "x < (of_int i - 1 / 2) * ulp x"
  shows "to_double x \<le> of_int (i - 1) * ulp x"
proof -
  have "x / ulp x < of_int i - 1 / 2" using assms(2) by (simp add: pos_divide_less_eq)
  then have "round_even (x / ulp x) \<le> i - 1" by (rule round_even_below_half)
  then have "of_int (round_even (x / ulp x)) * ulp x \<le> of_int (i - 1) * ulp x"
    by (intro mult_right_mono) simp_all
  then show ?thesis using assms(1) by (simp add: to_double_def)
qed

lemma to_double_above_half:
  assumes "0 < x" "(of_int i - 1 / 2) * ulp x < x"
  shows "of_int i * ulp x \<le> to_double x"
proof -
  have "of_int i - 1 / 2 < x / ulp x" using assms(2) by (simp add: pos_less_divide_eq)
  then have "i \<le> round_even (x / ulp x)" by (rule round_even_above_half)
  then have "of_int i * ulp x \<le> of_int (round_even (x / ulp x)) * ulp x"
    by (simp add: mult_right_mono)
  then show ?thesis using assms(1) by (simp add: to_double_def)
qed

lemma to_double_range:
  assumes "0 < x"
  shows "2 ^ 52 * ulp x \<le> to_double x" "to_double x \<le> 2 ^ 53 * ulp x"
proof -
  show "2 ^ 52 * ulp x \<le> to_double x"
    using to_double_ge[OF assms, of "2 ^ 52"] ulp_bounds(1)[OF assms] by simp
  show "to_double x \<le> 2 ^ 53 * ulp x"
    using to_double_le[OF assms, of "2 ^ 53"] ulp_bounds(2)[OF assms] by simp
qed

lemma ulp_mono:
  assumes "0 < x" "x \<le> y"
  shows "ulp x \<le> ulp y"
proof -
  have "log 2 x \<le> log 2 y" using assms by simp
  then have "\<lfloor>log 2 x\<rfloor> \<le> \<lfloor>log 2 y\<rfloor>" by (rule floor_mono)
  then show ?thesis using assms by (simp add: ulp_def)
qed

lemma to_double_mono:
  assumes "0 < x" "x \<le> y"
  shows "to_double x \<le> to_double y"
proof (cases "\<lfloor>log 2 x\<rfloor> = \<lfloor>log 2 y\<rfloor>")
  case True
  then have u: "ulp y = ulp x" using assms by (simp add: ulp_def)
  have "x / ulp x \<le> y / ulp x" using assms(2) by (simp add: divide_right_mono)
  then have "round_even (x / ulp x) \<le> round_even (y / ulp x)" by (rule round_even_mono)
  then have "of_int (round_even (x / ulp x)) * ulp x \<le> of_int (round_even (y / ulp x)) * ulp x"
    by (simp add: mult_right_mono)
  then show ?thesis using assms u by (simp add: to_double_def)
next
  case False
  have y: "0 < y" using assms by simp
  have "log 2 x \<le> log 2 y" using assms by simp
  then have "\<lfloor>log 2 x\<rfloor> \<le> \<lfloor>log 2 y\<rfloor>" by (rule floor_mono)
  then have lt: "\<lfloor>log 2 x\<rfloor> + 1 \<le> \<lfloor>log 2 y\<rfloor>" using False by simp
  have "2 * ulp x = 2 powr (of_int (\<lfloor>log 2 x\<rfloor> + 1 - 52))"
    using assms(1) two_powr_shift[of 1 "of_int (\<lfloor>log 2 x\<rfloor> + 1 - 52)"] by (simp add: ulp_def)
  also have "\<dots> \<le> ulp y"
    using lt y by (simp add: ulp_def)
  finally have "2 * ulp x \<le> ulp y" .
  then have "2 ^ 53 * ulp x \<le> 2 ^ 52 * ulp y" by simp
  then show ?thesis
    using to_double_range(2)[OF assms(1)] to_double_range(1)[OF y] by linarith
qed

lemma ulp_binade:
  fixes x :: real
  assumes "2 ^ j \<le> x" "x < 2 ^ Suc j" "j \<le> 52"
  shows "2 ^ (52 - j) * ulp x = 1"
proof -
  have pos: "0 < x" using assms(1) by (meson less_le_trans zero_less_numeral zero_less_power)
  have "2 powr (of_int (int j)) \<le> x \<and> x < 2 powr (of_int (int j) + 1)"
    using assms(1,2) by (simp add: powr_realpow powr_add)
  then have e: "\<lfloor>log 2 x\<rfloor> = int j"
    using floor_log_eq_powr_iff[of x 2 "int j"] pos by simp
  have u: "ulp x = 2 powr (0 - real (52 - j))"
    using pos e assms(3) by (simp add: ulp_def of_nat_diff)
  show ?thesis unfolding u using two_powr_shift[of "52 - j" 0] by simp
qed

lemma binade_exists:
  fixes x :: real
  assumes "1 \<le> x" "x < 2 ^ N"
  shows "\<exists>j<N. 2 ^ j \<le> x \<and> x < 2 ^ Suc j"
proof -
  let ?j = "nat \<lfloor>log 2 x\<rfloor>"
  have pos: "0 < x" using assms(1) by simp
  have "0 \<le> log 2 x" using assms(1) by simp
  then have nn: "0 \<le> \<lfloor>log 2 x\<rfloor>" by simp
  have b: "2 powr (of_int \<lfloor>log 2 x\<rfloor>) \<le> x \<and> x < 2 powr (of_int \<lfloor>log 2 x\<rfloor> + 1)"
    using floor_log_eq_powr_iff[of x 2 "\<lfloor>log 2 x\<rfloor>"] pos by simp
  have r: "of_int \<lfloor>log 2 x\<rfloor> = real ?j" using nn by simp
  have b2: "2 ^ ?j \<le> x \<and> x < 2 ^ Suc ?j"
    using b unfolding r by (simp add: powr_realpow powr_add)
  have "(2::real) ^ ?j < 2 ^ N" using b2 assms(2) by linarith
  then have "?j < N" by simp
  then show ?thesis using b2 by blast
qed

text \<open>Below \<open>2^21\<close> every multiple of \<open>2^-32\<close> is a double.\<close>

lemma to_double_between:
  assumes x: "1 \<le> x" "x < 2 ^ 21"
    and lo: "of_int a / 2 ^ 32 \<le> x" and hi: "x \<le> of_int b / 2 ^ 32"
  shows "of_int a / 2 ^ 32 \<le> to_double x \<and> to_double x \<le> of_int b / 2 ^ 32"
proof -
  from binade_exists[OF x] obtain j where j: "j < 21" "2 ^ j \<le> x" "x < 2 ^ Suc j" by blast
  have pos: "0 < x" using x(1) by simp
  have "2 ^ (52 - j) * ulp x = 1" using ulp_binade[OF j(2,3)] j(1) by simp
  moreover have "(2::real) ^ (52 - j) = 2 ^ 32 * 2 ^ (20 - j)"
  proof -
    have "52 - j = 32 + (20 - j)" using j(1) by simp
    then show ?thesis by (simp only: power_add)
  qed
  ultimately have m: "2 ^ (20 - j) * ulp x = 1 / 2 ^ 32"
    by (simp add: field_simps)
  have mult: "of_int c / 2 ^ 32 = of_int (c * 2 ^ (20 - j)) * ulp x" for c
  proof -
    have "of_int (c * 2 ^ (20 - j)) * ulp x = of_int c * (2 ^ (20 - j) * ulp x)" by simp
    then show ?thesis unfolding m by simp
  qed
  show ?thesis
    using to_double_ge[OF pos, of "a * 2 ^ (20 - j)"] to_double_le[OF pos, of "b * 2 ^ (20 - j)"]
      lo hi unfolding mult[symmetric] by simp
qed

text \<open>Bounds of the logarithm just below a power of two.\<close>

lemma two_powr_neg_ge: "0 \<le> d \<Longrightarrow> 1 - d \<le> 2 powr (- d)" for d :: real
proof -
  assume d: "0 \<le> d"
  have "1 + (- d * ln 2) \<le> exp (- d * ln 2)" by (rule exp_ge_add_one_self)
  moreover have "d * ln 2 \<le> d" using d ln_2_less_1 by (simp add: mult_left_le)
  ultimately show ?thesis by (simp add: powr_def mult.commute)
qed

lemma pow_powr: "2 ^ K * 2 powr (- d) = (2::real) powr (real K - d)"
proof -
  have "(2::real) ^ K = 2 powr (real K)" by (simp add: powr_realpow)
  then have "2 ^ K * 2 powr (- d) = 2 powr (real K) * 2 powr (- d)" by simp
  also have "\<dots> = 2 powr (real K + (- d))" by (rule powr_add[symmetric])
  finally show ?thesis by simp
qed

lemma log2_upper_32:
  assumes "0 < n" "n < 2 ^ K" "K \<le> 32"
  shows "log 2 (real n) \<le> real K - 1 / 2 ^ 32"
proof -
  have n1: "real n \<le> 2 ^ K - 1"
  proof -
    have "n + 1 \<le> 2 ^ K" using assms(2) by simp
    then have "real (n + 1) \<le> real (2 ^ K)" by (simp only: of_nat_le_iff)
    then show ?thesis by simp
  qed
  have "(2::real) ^ K \<le> 2 ^ 32" using assms(3) by (intro power_increasing) simp_all
  then have "(2::real) ^ K * (1 / 2 ^ 32) \<le> 1" by simp
  then have "2 ^ K - 1 \<le> (2::real) ^ K * (1 - 1 / 2 ^ 32)" by (simp add: algebra_simps)
  also have "\<dots> \<le> 2 ^ K * 2 powr (- (1 / 2 ^ 32))"
    by (intro mult_left_mono two_powr_neg_ge) simp_all
  also have "\<dots> = 2 powr (real K - 1 / 2 ^ 32)"
    by (rule pow_powr)
  finally have "real n \<le> 2 powr (real K - 1 / 2 ^ 32)" using n1 by linarith
  then show ?thesis using assms(1) by (simp add: log_le_iff)
qed

lemma log2_lower: "2 ^ k \<le> n \<Longrightarrow> real k \<le> log 2 (real n)"
  by (rule le_log2_of_power)

lemma ToInt32_floor: "0 \<le> x \<Longrightarrow> x < 2 ^ 31 \<Longrightarrow> ToInt32 x = \<lfloor>x\<rfloor>"
proof -
  assume a: "0 \<le> x" "x < 2 ^ 31"
  have 1: "0 \<le> \<lfloor>x\<rfloor>" using a by simp
  have 2: "\<lfloor>x\<rfloor> < 2 ^ 31" using a by (simp add: floor_less_iff)
  have 3: "\<lfloor>x\<rfloor> mod 2 ^ 32 = \<lfloor>x\<rfloor>" using 1 2 by simp
  show ?thesis using a 1 2 3 by (simp add: ToInt32_def Let_def)
qed

lemma to_double_one: "to_double 1 = 1"
proof -
  have u: "2 ^ 52 * ulp 1 = 1" using ulp_binade[of 0 1] by simp
  have "of_int (2 ^ 52) * ulp 1 \<le> to_double 1"
    by (rule to_double_ge) (use u in simp_all)
  moreover have "to_double 1 \<le> of_int (2 ^ 52) * ulp 1"
    by (rule to_double_le) (use u in simp_all)
  ultimately show ?thesis using u by simp
qed

text \<open>The level count of a size \<open>n\<close> with \<open>2^k \<le> n < 2^(k+1)\<close>, first for \<open>k < 32\<close>.\<close>

lemma levels_small:
  assumes k: "2 ^ k \<le> n" "n < 2 ^ Suc k" and small: "Suc k \<le> 32"
  shows "ToInt32 (to_double (1 + Math_log2 (real n))) = int (Suc k)"
proof (cases "k = 0")
  case True
  then have "n = 1" using k by simp
  then have "Math_log2 (real n) = 0" by (simp add: Math_log2_def to_double_def)
  then have "to_double (1 + Math_log2 (real n)) = 1" by (simp add: to_double_one)
  then show ?thesis using True by (simp add: ToInt32_floor)
next
  case False
  have npos: "0 < n" using k(1) by (metis gr0I not_less zero_less_numeral zero_less_power)
  let ?L = "log 2 (real n)"
  have lo: "real k \<le> ?L" using k(1) by (rule le_log2_of_power)
  have hi: "?L \<le> real (Suc k) - 1 / 2 ^ 32" using log2_upper_32[OF npos k(2) small] .
  have L1: "1 \<le> ?L" using lo False by simp
  have L21: "?L < 2 ^ 21" using hi small by simp
  have "of_int (int k * 2 ^ 32) / 2 ^ 32 \<le> ?L" using lo by simp
  moreover have "?L \<le> of_int (int (Suc k) * 2 ^ 32 - 1) / 2 ^ 32"
    using hi by (simp add: field_simps)
  ultimately have r1: "of_int (int k * 2 ^ 32) / 2 ^ 32 \<le> to_double ?L
      \<and> to_double ?L \<le> of_int (int (Suc k) * 2 ^ 32 - 1) / 2 ^ 32"
    by (rule to_double_between[OF L1 L21])
  let ?y = "1 + to_double ?L"
  have ylo: "of_int (int (Suc k) * 2 ^ 32) / 2 ^ 32 \<le> ?y" using r1 by (simp add: field_simps)
  have yhi: "?y \<le> of_int (int (Suc (Suc k)) * 2 ^ 32 - 1) / 2 ^ 32"
    using r1 by (simp add: field_simps)
  have y1: "1 \<le> ?y" using ylo by (simp add: field_simps)
  have y21: "?y < 2 ^ 21" using yhi small by (simp add: field_simps)
  from to_double_between[OF y1 y21 ylo yhi]
  have r2: "real (Suc k) \<le> to_double ?y" "to_double ?y \<le> real (Suc (Suc k)) - 1 / 2 ^ 32"
    by (simp_all add: field_simps)
  have fl: "\<lfloor>to_double ?y\<rfloor> = int (Suc k)"
    using r2 by (intro floor_unique) simp_all
  have "ToInt32 (to_double ?y) = \<lfloor>to_double ?y\<rfloor>"
    using r2 small by (intro ToInt32_floor) simp_all
  then show ?thesis using fl by (simp add: Math_log2_def)
qed

lemma log2_one_minus:
  fixes t :: real
  assumes "0 < t" "t < 1"
  shows "log 2 (1 - t) < - t"
proof -
  have l2: "0 < ln (2::real)" by simp
  have "ln (1 - t) \<le> - t" using assms by (intro ln_one_minus_pos_upper_bound) simp_all
  then have "ln (1 - t) / ln 2 \<le> (- t) / ln 2" using l2 by (intro divide_right_mono) simp_all
  moreover have "t < t / ln 2" using assms(1) l2 ln_2_less_1 by (simp add: field_simps)
  ultimately show ?thesis by (simp add: log_def)
qed

lemma log2_upper_48:
  assumes "0 < n" "real n \<le> 2 ^ K * (1 - 1 / 2 ^ 48)"
  shows "log 2 (real n) < real K - 1 / 2 ^ 48"
proof -
  have pos: "0 < (2::real) ^ K * (1 - 1 / 2 ^ 48)" by simp
  have "log 2 (real n) \<le> log 2 (2 ^ K * (1 - 1 / 2 ^ 48))"
    using assms pos by (subst log_le_cancel_iff) simp_all
  also have "\<dots> = real K + log 2 (1 - 1 / 2 ^ 48)"
    by (subst log_mult) simp_all
  also have "\<dots> < real K - 1 / 2 ^ 48"
    using log2_one_minus[of "1 / 2 ^ 48"] by simp
  finally show ?thesis .
qed

lemma to_double_exact:
  assumes "0 < x" "x = of_int i * ulp x"
  shows "to_double x = x"
proof -
  have "of_int i * ulp x \<le> to_double x" by (rule to_double_ge) (use assms in simp_all)
  moreover have "to_double x \<le> of_int i * ulp x" by (rule to_double_le) (use assms in simp_all)
  ultimately show ?thesis using assms(2) by simp
qed

lemma ulp_32_64:
  fixes x :: real
  assumes "32 \<le> x" "x < 64"
  shows "ulp x = 1 / 2 ^ 47"
proof -
  have "2 ^ (52 - 5) * ulp x = 1" by (rule ulp_binade) (use assms in simp_all)
  then show ?thesis by (simp add: field_simps)
qed

text \<open>Then for \<open>32 \<le> k \<le> 48\<close>, as long as the size is below \<open>2^49 - 1\<close>.\<close>

lemma levels_large:
  assumes k: "2 ^ k \<le> n" "n < 2 ^ Suc k" and rng: "32 \<le> k" "k \<le> 48"
    and top: "n < 2 ^ 49 - 1"
  shows "ToInt32 (to_double (1 + Math_log2 (real n))) = int (Suc k)"
proof -
  have npos: "0 < n" using k(1) by (metis gr0I not_less zero_less_numeral zero_less_power)
  let ?L = "log 2 (real n)"
  have n1: "real n \<le> 2 ^ Suc k - 1"
  proof -
    have "n + 1 \<le> 2 ^ Suc k" using k(2) by simp
    then have "real (n + 1) \<le> real (2 ^ Suc k)" by (simp only: of_nat_le_iff)
    then show ?thesis by simp
  qed
  have bound: "real n \<le> 2 ^ Suc k * (1 - 1 / 2 ^ 48)"
  proof (cases "Suc k \<le> 48")
    case True
    then have "(2::real) ^ Suc k \<le> 2 ^ 48" by (intro power_increasing) simp_all
    then have "(2::real) ^ Suc k * (1 / 2 ^ 48) \<le> 1" by simp
    then show ?thesis using n1 by (simp add: algebra_simps)
  next
    case False
    then have k48: "k = 48" using rng by simp
    have "n + 2 \<le> 2 ^ 49" using top by simp
    then have "real (n + 2) \<le> real (2 ^ 49)" by (simp only: of_nat_le_iff)
    then show ?thesis unfolding k48 by simp
  qed
  have lo: "real k \<le> ?L" using k(1) by (rule le_log2_of_power)
  have hi: "?L < real (Suc k) - 1 / 2 ^ 48" using log2_upper_48[OF npos bound] .
  have L32: "32 \<le> ?L" using lo rng by simp
  have L64: "?L < 64" using hi rng by simp
  have Lpos: "0 < ?L" using L32 by simp
  have u: "ulp ?L = 1 / 2 ^ 47" using ulp_32_64[OF L32 L64] .
  have d1: "real k \<le> to_double ?L"
    using to_double_ge[OF Lpos, of "int k * 2 ^ 47"] lo unfolding u by simp
  have d2: "to_double ?L \<le> real (Suc k) - 1 / 2 ^ 47"
    using to_double_below_half[OF Lpos, of "int (Suc k) * 2 ^ 47"] hi unfolding u
    by (simp add: field_simps)
  let ?r = "round_even (?L / ulp ?L)"
  have dL: "to_double ?L = of_int ?r * (1 / 2 ^ 47)"
    using Lpos by (simp add: to_double_def u)
  define y where "y = 1 + to_double ?L"
  have y32: "32 \<le> y" using d1 rng by (simp add: y_def)
  have y64: "y < 64" using d2 rng by (simp add: y_def)
  have uy: "ulp y = 1 / 2 ^ 47" using ulp_32_64[OF y32 y64] .
  have "y = of_int (?r + 2 ^ 47) * (1 / 2 ^ 47)" unfolding y_def dL by (simp add: field_simps)
  then have yu: "y = of_int (?r + 2 ^ 47) * ulp y" unfolding uy .
  have ypos: "0 < y" using y32 by simp
  have ex: "to_double y = y" using to_double_exact[OF ypos yu] .
  have fl: "\<lfloor>y\<rfloor> = int (Suc k)"
    using d1 d2 unfolding y_def by (intro floor_unique) simp_all
  have "ToInt32 y = \<lfloor>y\<rfloor>"
    using y32 y64 by (intro ToInt32_floor) simp_all
  then show ?thesis using fl ex unfolding y_def by (simp add: Math_log2_def)
qed

text \<open>The count computed on natural numbers: one more than the number of halvings.\<close>

lemma countMipLevels_floorlog:
  assumes "sizes \<noteq> []" "Max (set sizes) < 2 ^ 49 - 1"
  shows "countMipLevels sizes = int (floorlog 2 (Max (set sizes)))"
proof (cases "Max (set sizes) = 0")
  case True
  then show ?thesis using assms by (simp add: countMipLevels_def floorlog_def)
next
  case False
  define m where "m = Max (set sizes)"
  have pos: "0 < m" using False by (simp add: m_def)
  define k where "k = floorlog 2 m - 1"
  have f1: "1 \<le> floorlog 2 m" using pos floorlog_eq_zero_iff[of 2 m] by simp
  then have sk: "Suc k = floorlog 2 m" by (simp add: k_def)
  have fb: "2 ^ (floorlog 2 m - 1) \<le> m \<and> m < 2 ^ floorlog 2 m"
    using floorlog_bounds[of m 2] pos by simp
  have b: "2 ^ k \<le> m" "m < 2 ^ Suc k"
    unfolding sk using fb by (simp_all add: k_def)
  have m49: "m < 2 ^ 49" using assms(2) by (simp add: m_def)
  have "floorlog 2 m \<le> 49" using m49 by (intro floorlog_leI) simp_all
  then have k48: "k \<le> 48" using sk by simp
  have "ToInt32 (to_double (1 + Math_log2 (real m))) = int (Suc k)"
  proof (cases "Suc k \<le> 32")
    case True
    then show ?thesis using levels_small[OF b] by simp
  next
    case False
    then have "32 \<le> k" by simp
    then show ?thesis using levels_large[OF b _ k48] assms(2) by (simp add: m_def)
  qed
  then show ?thesis using assms(1) pos unfolding sk by (simp add: countMipLevels_def m_def)
qed

lemma countMipLevels_floor:
  assumes "sizes \<noteq> []" "0 < Max (set sizes)" "Max (set sizes) < 2 ^ 49 - 1"
  shows "countMipLevels sizes = \<lfloor>1 + log 2 (real (Max (set sizes)))\<rfloor>"
proof -
  have "0 \<le> log 2 (real (Max (set sizes)))" using assms(2) by simp
  then have "\<lfloor>1 + log 2 (real (Max (set sizes)))\<rfloor> = int (nat \<lfloor>log 2 (real (Max (set sizes)))\<rfloor> + 1)"
    by simp
  then show ?thesis using countMipLevels_floorlog[OF assms(1,3)] assms(2)
    by (simp add: floorlog_def)
qed

text \<open>
  At \<open>2^49 - 1\<close> the logarithm is less than half a unit below 49: it is rounded to 49.
\<close>

lemma ln2_lower: "3 / 5 < ln (2::real)"
proof -
  have "exp (3 / 5 :: real) \<le> 1 + 3 / 5 + (3 / 5)\<^sup>2" by (rule exp_bound) simp_all
  also have "\<dots> < 2" by (simp add: power2_eq_square)
  finally have "exp (3 / 5 :: real) < exp (ln 2)" by simp
  then show ?thesis by (simp only: exp_less_cancel_iff)
qed

lemma log2_one_minus_lower:
  fixes t :: real
  assumes "0 < t" "t \<le> 1 / 10"
  shows "- (2 * t) < log 2 (1 - t)"
proof -
  have l2: "0 < ln (2::real)" by simp
  have "- t - 2 * t\<^sup>2 \<le> ln (1 - t)"
    using assms by (intro ln_one_minus_pos_lower_bound) simp_all
  moreover have "t * t \<le> t * (1 / 10)" using assms by (intro mult_left_mono) simp_all
  moreover have "t * (6 / 5) < t * (2 * ln 2)"
    using assms(1) ln2_lower by (intro mult_strict_left_mono) simp_all
  ultimately have "- (2 * t) * ln 2 < ln (1 - t)"
    by (simp add: power2_eq_square algebra_simps)
  then show ?thesis using l2 by (simp add: log_def pos_less_divide_eq)
qed

lemma count_at_2_49:
  "ToInt32 (to_double (1 + Math_log2 (real (2 ^ 49 - 1 :: nat)))) = 50"
  "\<lfloor>1 + log 2 (real (2 ^ 49 - 1 :: nat))\<rfloor> = 49"
proof -
  let ?n = "2 ^ 49 - 1 :: nat"
  let ?L = "log 2 (real ?n)"
  have rn: "real ?n = 2 ^ 49 * (1 - 1 / 2 ^ 49)" by simp
  have p49: "log 2 ((2::real) ^ 49) = real 49" by (rule log_pow_cancel) simp_all
  have "?L = log 2 (2 ^ 49) + log 2 (1 - 1 / 2 ^ 49)"
    unfolding rn by (subst log_mult) simp_all
  then have Leq: "?L = 49 + log 2 (1 - 1 / 2 ^ 49)" unfolding p49 by simp
  have lo: "49 - 1 / 2 ^ 48 < ?L"
    unfolding Leq using log2_one_minus_lower[of "1 / 2 ^ 49"] by simp
  have hi: "?L < 49"
    unfolding Leq using log2_one_minus[of "1 / 2 ^ 49"] by simp
  have L32: "32 \<le> ?L" using lo by simp
  have L64: "?L < 64" using hi by simp
  have Lpos: "0 < ?L" using L32 by simp
  have u: "ulp ?L = 1 / 2 ^ 47" using ulp_32_64[OF L32 L64] .
  have d1: "49 \<le> to_double ?L"
    using to_double_above_half[OF Lpos, of "49 * 2 ^ 47"] lo unfolding u
    by (simp add: field_simps)
  have d2: "to_double ?L \<le> 49"
    using to_double_le[OF Lpos, of "49 * 2 ^ 47"] hi unfolding u by simp
  have d: "to_double ?L = 49" using d1 d2 by simp
  have u50: "ulp 50 = 1 / 2 ^ 47" by (rule ulp_32_64) simp_all
  have "to_double 50 = 50"
    by (rule to_double_exact[where i = "50 * 2 ^ 47"]) (simp_all add: u50)
  then have "to_double (1 + to_double ?L) = 50" unfolding d by simp
  then have "ToInt32 (to_double (1 + to_double ?L)) = 50" by (simp add: ToInt32_floor)
  then show "ToInt32 (to_double (1 + Math_log2 (real ?n))) = 50"
    unfolding Math_log2_def .
  show "\<lfloor>1 + ?L\<rfloor> = 49"
    using lo hi by (intro floor_unique) simp_all
qed

text \<open>The count does not decrease when the largest size grows.\<close>

lemma to_double_mono0:
  assumes "0 \<le> x" "x \<le> y"
  shows "to_double x \<le> to_double y"
proof (cases "x = 0")
  case True
  show ?thesis
  proof (cases "y = 0")
    case y0: True
    then show ?thesis using True by simp
  next
    case False
    then have y: "0 < y" using assms True by simp
    have "0 \<le> 2 ^ 52 * ulp y" by simp
    then have "0 \<le> to_double y" using to_double_range(1)[OF y] by linarith
    then show ?thesis using True by (simp add: to_double_def)
  qed
next
  case False
  then have "0 < x" using assms(1) by simp
  then show ?thesis using assms(2) by (rule to_double_mono)
qed

lemma to_double_pow2:
  assumes "j \<le> 52"
  shows "to_double (2 ^ j) = 2 ^ j"
proof -
  have u: "2 ^ (52 - j) * ulp (2 ^ j) = 1" by (rule ulp_binade) (use assms in simp_all)
  have "(2::real) ^ 52 = 2 ^ j * 2 ^ (52 - j)"
    using assms by (simp add: power_add[symmetric])
  then have "of_int (2 ^ 52) * ulp (2 ^ j) = 2 ^ j * (2 ^ (52 - j) * ulp (2 ^ j))"
    by simp
  then have e: "2 ^ j = of_int (2 ^ 52) * ulp (2 ^ j)" unfolding u by simp
  have p: "0 < (2::real) ^ j" by simp
  show ?thesis using to_double_exact[OF p e] .
qed

text \<open>The value that \<open>| 0\<close> is applied to lies between 1 and 2048, so that \<open>| 0\<close> is the floor.\<close>

lemma count_value_range:
  assumes "0 < n" "n < 2 ^ 1024"
  shows "1 \<le> to_double (1 + Math_log2 (real n))" "to_double (1 + Math_log2 (real n)) \<le> 2048"
proof -
  let ?L = "log 2 (real n)"
  have L0: "0 \<le> ?L" using assms(1) by simp
  have "?L < real (1024::nat)" by (rule log2_of_power_less) (use assms in simp_all)
  then have L1: "?L \<le> 2 ^ 10" by simp
  have "to_double 0 \<le> to_double ?L" using L0 by (intro to_double_mono0) simp_all
  then have d0: "0 \<le> to_double ?L" by (simp add: to_double_def)
  have "to_double ?L \<le> to_double (2 ^ 10)" using L0 L1 by (rule to_double_mono0)
  then have d1: "to_double ?L \<le> 2 ^ 10" by (simp only: to_double_pow2)
  have "to_double (2 ^ 0) \<le> to_double (1 + to_double ?L)"
    using d0 by (intro to_double_mono0) simp_all
  then show "1 \<le> to_double (1 + Math_log2 (real n))"
    unfolding Math_log2_def by (simp add: to_double_one)
  have "to_double (1 + to_double ?L) \<le> to_double (2 ^ 11)"
    using d0 d1 by (intro to_double_mono0) simp_all
  then have "to_double (1 + to_double ?L) \<le> 2 ^ 11" by (simp only: to_double_pow2)
  then show "to_double (1 + Math_log2 (real n)) \<le> 2048"
    unfolding Math_log2_def by simp
qed

lemma countMipLevels_mono:
  assumes "xs \<noteq> []" "ys \<noteq> []" "0 < Max (set xs)" "Max (set xs) \<le> Max (set ys)"
    "Max (set ys) < 2 ^ 1024"
  shows "countMipLevels xs \<le> countMipLevels ys"
proof -
  define m where "m = Max (set xs)"
  define m' where "m' = Max (set ys)"
  have m: "0 < m" "m \<le> m'" "m' < 2 ^ 1024" "0 < m'" "m < 2 ^ 1024"
    using assms(3,4,5) unfolding m_def m'_def by linarith+
  let ?v = "\<lambda>n. to_double (1 + Math_log2 (real n))"
  have "log 2 (real m) \<le> log 2 (real m')" using m by simp
  moreover have "0 \<le> log 2 (real m)" using m by simp
  ultimately have "Math_log2 (real m) \<le> Math_log2 (real m')"
    unfolding Math_log2_def by (intro to_double_mono0)
  moreover have "0 \<le> Math_log2 (real m)"
    using to_double_mono0[of 0 "log 2 (real m)"] m by (simp add: Math_log2_def to_double_def)
  ultimately have v: "?v m \<le> ?v m'" by (intro to_double_mono0) simp_all
  have "ToInt32 (?v m) = \<lfloor>?v m\<rfloor>"
    using count_value_range[OF m(1,5)] by (intro ToInt32_floor) simp_all
  moreover have "ToInt32 (?v m') = \<lfloor>?v m'\<rfloor>"
    using count_value_range[OF m(4,3)] by (intro ToInt32_floor) simp_all
  moreover have "\<lfloor>?v m\<rfloor> \<le> \<lfloor>?v m'\<rfloor>" using v by (rule floor_mono)
  ultimately have "ToInt32 (?v m) \<le> ToInt32 (?v m')" by simp
  moreover have "countMipLevels xs = ToInt32 (?v m)"
    using assms(1) m(1) unfolding m_def by (simp add: countMipLevels_def)
  moreover have "countMipLevels ys = ToInt32 (?v m')"
    using assms(2) m(4) unfolding m'_def by (simp add: countMipLevels_def)
  ultimately show ?thesis by simp
qed

text \<open>
  Claim C2 says that for all positive dimensions \<^verbatim>\<open>countMipLevels\<close> returns
  \<open>floor(1 + log2(max dims))\<close>. \<^verbatim>\<open>Math.log2\<close> returns a double, and the logarithm of
  \<open>2^49 - 1\<close> is less than half a unit below 49: it is rounded to 49, \<^verbatim>\<open>1 + 49\<close> is 50 and
  the source returns 50, where \<open>floor(1 + log2(2^49 - 1))\<close> is 49.
\<close>

theorem countMipLevels_rounds_up:
  "countMipLevels [2 ^ 49 - 1, 1] = 50
   \<and> \<lfloor>1 + log 2 (real (Max (set [2 ^ 49 - 1, 1])))\<rfloor> = 49"
proof -
  have m: "Max (set [2 ^ 49 - 1, 1 :: nat]) = 2 ^ 49 - 1" by simp
  have "countMipLevels [2 ^ 49 - 1, 1] =
      ToInt32 (to_double (1 + Math_log2 (real (Max (set [2 ^ 49 - 1, 1 :: nat])))))"
    unfolding countMipLevels_def by (simp add: Let_def)
  then show ?thesis unfolding m using count_at_2_49 by simp
qed

text \<open>
  Claim C2, amended. For positive sizes below \<open>2^49 - 1\<close> \<^verbatim>\<open>countMipLevels\<close> returns
  \<open>floor(1 + log2(max sizes))\<close>; it returns 1 on \<open>(1,1)\<close>, 9 on \<open>(256,256)\<close> and 9 on
  \<open>(300,150)\<close>; and for all positive sizes it does not decrease when the largest size grows.
  A size is a finite JavaScript number, so it is below \<open>2^1024\<close>.
\<close>

theorem countMipLevels_spec:
  "(sizes \<noteq> [] \<and> (\<forall>s\<in>set sizes. 0 < s \<and> s < 2 ^ 49 - 1) \<longrightarrow>
      countMipLevels sizes = \<lfloor>1 + log 2 (real (Max (set sizes)))\<rfloor>)
   \<and> countMipLevels [1, 1] = 1
   \<and> countMipLevels [256, 256] = 9
   \<and> countMipLevels [300, 150] = 9
   \<and> (xs \<noteq> [] \<and> ys \<noteq> [] \<and> (\<forall>s\<in>set xs \<union> set ys. 0 < s \<and> s < 2 ^ 1024)
        \<and> Max (set xs) \<le> Max (set ys) \<longrightarrow> countMipLevels xs \<le> countMipLevels ys)"
proof (intro conjI impI)
  assume a: "sizes \<noteq> [] \<and> (\<forall>s\<in>set sizes. 0 < s \<and> s < 2 ^ 49 - 1)"
  then have "Max (set sizes) \<in> set sizes" by simp
  then show "countMipLevels sizes = \<lfloor>1 + log 2 (real (Max (set sizes)))\<rfloor>"
    using a by (intro countMipLevels_floor) auto
next
  show "countMipLevels [1, 1] = 1" by (simp add: countMipLevels_floorlog compute_floorlog)
next
  show "countMipLevels [256, 256] = 9" by (simp add: countMipLevels_floorlog compute_floorlog)
next
  show "countMipLevels [300, 150] = 9" by (simp add: countMipLevels_floorlog compute_floorlog)
next
  assume a: "xs \<noteq> [] \<and> ys \<noteq> [] \<and> (\<forall>s\<in>set xs \<union> set ys. 0 < s \<and> s < 2 ^ 1024)
        \<and> Max (set xs) \<le> Max (set ys)"
  then have "Max (set xs) \<in> set xs" "Max (set ys) \<in> set ys" by simp_all
  then have "0 < Max (set xs)" "Max (set ys) < 2 ^ 1024" using a by auto
  then show "countMipLevels xs \<le> countMipLevels ys"
    using a by (intro countMipLevels_mono) simp_all
qed

theorem countMipLevels_spec_witness:
  "countMipLevels [300, 150] = \<lfloor>1 + log 2 300\<rfloor> \<and> countMipLevels [4, 3] \<le> countMipLevels [5, 2]"
  using countMipLevels_spec [of "[300, 150]" "[4, 3]" "[5, 2]"] by simp

section \<open>The program cache\<close>

lemma getProgram_cached:
  "priv_programMap mg f = Some r \<Longrightarrow> getProgram gpu f (mg, w) = (Inr r, (mg, w))"
  by (simp add: getProgram_def)

lemma Program_init_ok:
  assumes "priv_device gpu = Some dev" "createRenderPipeline dev (pipelineDescriptor desc (GPUShaderModule (shaderDescriptor desc))) = Inr pl"
  shows "Program_init gpu desc (p, calls) =
     (Inr (), (p\<lparr>priv_shaderModule := Some (GPUShaderModule (shaderDescriptor desc)),
                 priv_pipeline := Some pl\<rparr>,
               calls @ [CreateShaderModule (shaderDescriptor desc),
                        CreateRenderPipeline (pipelineDescriptor desc (GPUShaderModule (shaderDescriptor desc)))]))"
  using assms by (simp add: Program_init_def Gpu_device_def Let_def)

lemma Program_init_pipeline_fails:
  assumes "priv_device gpu = Some dev" "createRenderPipeline dev (pipelineDescriptor desc (GPUShaderModule (shaderDescriptor desc))) = Inl e"
  shows "Program_init gpu desc (p, calls) =
     (Inl e, (p\<lparr>priv_shaderModule := Some (GPUShaderModule (shaderDescriptor desc))\<rparr>,
               calls @ [CreateShaderModule (shaderDescriptor desc),
                        CreateRenderPipeline (pipelineDescriptor desc (GPUShaderModule (shaderDescriptor desc)))]))"
  using assms by (simp add: Program_init_def Gpu_device_def Let_def)

lemma Program_init_no_device:
  assumes "priv_device gpu = None"
  shows "Program_init gpu desc (p, calls) =
     (Inl (Error ''Rendering device is not initialized''), (p, calls))"
  using assms by (simp add: Program_init_def Gpu_device_def)

lemma getProgram_new:
  assumes "priv_programMap mg f = None" "priv_device gpu = Some dev"
    "createRenderPipeline dev (mipmapPipeline f) = Inr pl"
  shows "getProgram gpu f (mg, w) =
     (Inr (length (programs w)),
      (mg\<lparr>priv_programMap := (priv_programMap mg)(f \<mapsto> length (programs w))\<rparr>,
       w\<lparr>programs := programs w @
            [\<lparr>priv_shaderModule = Some (GPUShaderModule (shaderDescriptor (mipmapDescriptor f))),
              priv_pipeline = Some pl\<rparr>],
         deviceCalls := deviceCalls w @
            [CreateShaderModule (shaderDescriptor (mipmapDescriptor f)),
             CreateRenderPipeline (mipmapPipeline f)]\<rparr>))"
  using assms
  by (simp add: getProgram_def Let_def Program_init_ok[OF assms(2,3)] new_Program_def)

lemma getProgram_pipeline_fails:
  assumes "priv_programMap mg f = None" "priv_device gpu = Some dev"
    "createRenderPipeline dev (mipmapPipeline f) = Inl e"
  shows "getProgram gpu f (mg, w) =
     (Inl e,
      (mg,
       w\<lparr>programs := programs w @
            [\<lparr>priv_shaderModule = Some (GPUShaderModule (shaderDescriptor (mipmapDescriptor f))),
              priv_pipeline = None\<rparr>],
         deviceCalls := deviceCalls w @
            [CreateShaderModule (shaderDescriptor (mipmapDescriptor f)),
             CreateRenderPipeline (mipmapPipeline f)]\<rparr>))"
  using assms
  by (simp add: getProgram_def Let_def Program_init_pipeline_fails[OF assms(2,3)] new_Program_def)

lemma getProgram_no_device:
  assumes "priv_programMap mg f = None" "priv_device gpu = None"
  shows "getProgram gpu f (mg, w) =
     (Inl (Error ''Rendering device is not initialized''),
      (mg, w\<lparr>programs := programs w @ [new_Program]\<rparr>))"
  using assms
  by (simp add: getProgram_def Let_def Program_init_no_device[OF assms(2)])

section \<open>The loop of generate\<close>

declare generate_loop.simps [simp del]

text \<open>
  With a device, a pipeline and a sampler at hand no accessor throws, and one iteration
  encodes one pass and halves both extents.
\<close>

lemma generate_loop_step:
  assumes "priv_device gpu = Some dev" "priv_pipeline program = Some pl" "priv_sampler mg = Some smp"
  shows "generate_loop mg gpu program texture lc st =
     (if loop_cond lc st then
        generate_loop mg gpu program texture lc
          \<lparr>ls_width = max 1 (ls_width st div 2), ls_height = max 1 (ls_height st div 2),
           ls_baseMipLevel = ls_baseMipLevel st + 1,
           ls_encoder = ls_encoder st @
             [\<lparr>pass_descriptor = getRenderPassDescriptor texture (ls_baseMipLevel st + 1),
               pass_pipeline = pl,
               pass_bindGroup = \<lparr>bg_layout = (pl, 0), bg_sampler = smp,
                                  bg_view = createView texture (ls_baseMipLevel st) 1\<rparr>,
               pass_draw = 6,
               pass_width = max 1 (ls_width st div 2),
               pass_height = max 1 (ls_height st div 2)\<rparr>]\<rparr>
      else Inr st)"
  using assms
  by (subst generate_loop.simps)
     (simp add: getBindGroup_def renderMipmap_def Gpu_device_def Program_pipeline_def
        MipGenerator_sampler_def Let_def)

lemma max_half: "max (max 1 (w div 2)) (max 1 (h div 2)) = max (1::nat) (max w h div 2)"
proof (cases "w \<le> h")
  case True
  then have "w div 2 \<le> h div 2" by (rule div_le_mono)
  then show ?thesis using True by (simp add: max_def)
next
  case False
  then have "h div 2 \<le> w div 2" by (intro div_le_mono) simp
  then show ?thesis using False by (simp add: max_def)
qed

lemma floorlog_half: "2 \<le> m \<Longrightarrow> floorlog 2 m = floorlog 2 (m div 2) + 1"
  by (subst compute_floorlog) simp

lemma floorlog_one: "floorlog 2 (Suc 0) = 1"
  by (subst compute_floorlog) (simp add: floorlog_eq_zero_iff)

lemma floorlog_pos: "1 \<le> m \<Longrightarrow> 1 \<le> floorlog 2 m"
  using floorlog_eq_zero_iff[of 2 m] by simp

lemma floorlog_ge2: "2 \<le> m \<Longrightarrow> 2 \<le> floorlog 2 m"
proof -
  assume a: "2 \<le> m"
  then have "1 \<le> m div 2" by simp
  then have "1 \<le> floorlog 2 (m div 2)" by (rule floorlog_pos)
  then show ?thesis using floorlog_half[OF a] by simp
qed

text \<open>
  The loop returns. It never runs more iterations than there are halvings down to
  \<open>1 \<times> 1\<close>, and it runs exactly that many when the level count does not stop the width
  earlier.
\<close>

lemma generate_loop_collapse:
  assumes env: "priv_device gpu = Some dev" "priv_pipeline program = Some pl"
    "priv_sampler mg = Some smp"
  shows "1 \<le> ls_width st \<Longrightarrow> 1 \<le> ls_height st \<Longrightarrow>
     \<exists>st'. generate_loop mg gpu program texture lc st = Inr st'
       \<and> ls_baseMipLevel st' + 1 \<le> ls_baseMipLevel st + floorlog 2 (max (ls_width st) (ls_height st))
       \<and> (int (ls_baseMipLevel st) + int (floorlog 2 (max (ls_width st) (ls_height st))) - 1 \<le> lc
            \<longrightarrow> ls_width st' = 1 \<and> ls_height st' = 1
              \<and> ls_baseMipLevel st' + 1 =
                  ls_baseMipLevel st + floorlog 2 (max (ls_width st) (ls_height st)))"
proof (induction "ls_width st + ls_height st" arbitrary: st rule: less_induct)
  case less
  let ?m = "max (ls_width st) (ls_height st)"
  show ?case
  proof (cases "loop_cond lc st")
    case False
    have run: "generate_loop mg gpu program texture lc st = Inr st"
      using False by (subst generate_loop_step[OF env]) simp
    have h1: "ls_height st = 1" using False less.prems by (simp add: loop_cond_def)
    have pos: "1 \<le> floorlog 2 ?m"
      using less.prems by (intro floorlog_pos) simp
    have exact: "ls_width st = 1"
      if b: "int (ls_baseMipLevel st) + int (floorlog 2 ?m) - 1 \<le> lc"
    proof (rule ccontr)
      assume "ls_width st \<noteq> 1"
      then have w2: "2 \<le> ls_width st" using less.prems by simp
      then have "2 \<le> ?m" by simp
      then have "2 \<le> floorlog 2 ?m" by (rule floorlog_ge2)
      then have "int (ls_baseMipLevel st) < lc" using b by simp
      then show False using False w2 by (simp add: loop_cond_def)
    qed
    show ?thesis using run h1 pos exact by (auto simp: floorlog_one)
  next
    case True
    let ?st2 = "\<lparr>ls_width = max 1 (ls_width st div 2), ls_height = max 1 (ls_height st div 2),
           ls_baseMipLevel = ls_baseMipLevel st + 1,
           ls_encoder = ls_encoder st @
             [\<lparr>pass_descriptor = getRenderPassDescriptor texture (ls_baseMipLevel st + 1),
               pass_pipeline = pl,
               pass_bindGroup = \<lparr>bg_layout = (pl, 0), bg_sampler = smp,
                                  bg_view = createView texture (ls_baseMipLevel st) 1\<rparr>,
               pass_draw = 6,
               pass_width = max 1 (ls_width st div 2),
               pass_height = max 1 (ls_height st div 2)\<rparr>]\<rparr>"
    have run: "generate_loop mg gpu program texture lc st = generate_loop mg gpu program texture lc ?st2"
      using True by (subst generate_loop_step[OF env]) simp
    have big: "2 \<le> ?m" using True by (auto simp: loop_cond_def)
    have dec: "ls_width ?st2 + ls_height ?st2 < ls_width st + ls_height st"
      using True less.prems by (auto simp: loop_cond_def max_def)
    have m2: "max (ls_width ?st2) (ls_height ?st2) = ?m div 2"
      using big by (simp add: max_half)
    have fl: "floorlog 2 ?m = floorlog 2 (?m div 2) + 1" using big by (rule floorlog_half)
    from less.hyps[OF dec] obtain st' where
      r: "generate_loop mg gpu program texture lc ?st2 = Inr st'"
      and ub: "ls_baseMipLevel st' + 1 \<le> ls_baseMipLevel ?st2 + floorlog 2 (max (ls_width ?st2) (ls_height ?st2))"
      and ex: "int (ls_baseMipLevel ?st2) + int (floorlog 2 (max (ls_width ?st2) (ls_height ?st2))) - 1 \<le> lc
            \<longrightarrow> ls_width st' = 1 \<and> ls_height st' = 1
              \<and> ls_baseMipLevel st' + 1 =
                  ls_baseMipLevel ?st2 + floorlog 2 (max (ls_width ?st2) (ls_height ?st2))"
      by (auto simp del: max.bounded_iff)
    show ?thesis
      using run r ub ex unfolding m2 fl by simp
  qed
qed

lemma halve_pow: "max 1 (max 1 (w div 2) div 2 ^ k) = max (1::nat) (w div 2 ^ Suc k)"
proof (cases "w div 2 = 0")
  case True
  then have z: "w div 2 ^ Suc k = 0"
    by (metis div_mult2_eq div_0 power_Suc)
  have "(1::nat) div 2 ^ k \<le> 1" by (rule div_le_dividend)
  then have "max (1::nat) (1 div 2 ^ k) = 1" by linarith
  then show ?thesis using True z by simp
next
  case False
  then have "max 1 (w div 2) = w div 2" by (simp add: max_def)
  then show ?thesis by (simp add: div_mult2_eq)
qed

lemma halve_pow_simp:
  "max (Suc 0) (max (Suc 0) (w div 2) div (2 * 2 ^ k)) = max (Suc 0) (w div (4 * 2 ^ k))"
  using halve_pow[of w "Suc k"] by simp

text \<open>The passes that the loop encodes, one for each level it has gone through.\<close>

lemma generate_loop_passes:
  assumes env: "priv_device gpu = Some dev" "priv_pipeline program = Some pl"
    "priv_sampler mg = Some smp"
  shows "generate_loop mg gpu program texture lc st = Inr st' \<Longrightarrow>
     ls_baseMipLevel st \<le> ls_baseMipLevel st' \<and>
     ls_encoder st' = ls_encoder st @
       map (\<lambda>i. \<lparr>pass_descriptor = getRenderPassDescriptor texture (ls_baseMipLevel st + i + 1),
               pass_pipeline = pl,
               pass_bindGroup = \<lparr>bg_layout = (pl, 0), bg_sampler = smp,
                                  bg_view = createView texture (ls_baseMipLevel st + i) 1\<rparr>,
               pass_draw = 6,
               pass_width = max 1 (ls_width st div 2 ^ Suc i),
               pass_height = max 1 (ls_height st div 2 ^ Suc i)\<rparr>)
         [0..<ls_baseMipLevel st' - ls_baseMipLevel st]"
proof (induction "(ls_width st - 1) + (ls_height st - 1)" arbitrary: st rule: less_induct)
  case less
  show ?case
  proof (cases "loop_cond lc st")
    case False
    then have "generate_loop mg gpu program texture lc st = Inr st"
      by (subst generate_loop_step[OF env]) simp
    then show ?thesis using less.prems by simp
  next
    case True
    let ?st2 = "\<lparr>ls_width = max 1 (ls_width st div 2), ls_height = max 1 (ls_height st div 2),
           ls_baseMipLevel = ls_baseMipLevel st + 1,
           ls_encoder = ls_encoder st @
             [\<lparr>pass_descriptor = getRenderPassDescriptor texture (ls_baseMipLevel st + 1),
               pass_pipeline = pl,
               pass_bindGroup = \<lparr>bg_layout = (pl, 0), bg_sampler = smp,
                                  bg_view = createView texture (ls_baseMipLevel st) 1\<rparr>,
               pass_draw = 6,
               pass_width = max 1 (ls_width st div 2),
               pass_height = max 1 (ls_height st div 2)\<rparr>]\<rparr>"
    have run: "generate_loop mg gpu program texture lc ?st2 = Inr st'"
      using True less.prems by (subst (asm) generate_loop_step[OF env]) simp
    have dec: "(ls_width ?st2 - 1) + (ls_height ?st2 - 1) < (ls_width st - 1) + (ls_height st - 1)"
      using True by (auto simp: loop_cond_def max_def)
    note ih = less.hyps[OF dec run]
    from ih have le: "ls_baseMipLevel st + 1 \<le> ls_baseMipLevel st'" by simp
    then obtain n where n: "ls_baseMipLevel st' - ls_baseMipLevel st = Suc n"
      "ls_baseMipLevel st' - ls_baseMipLevel ?st2 = n"
      by (cases "ls_baseMipLevel st' - ls_baseMipLevel st") auto
    have split: "[0..<Suc n] = 0 # map Suc [0..<n]"
      by (simp add: upt_conv_Cons map_Suc_upt del: upt_Suc)
    show ?thesis
      using ih le unfolding n split
      by (simp add: halve_pow_simp o_def)
  qed
qed

section \<open>generate\<close>

lemma generate_run:
  assumes gp: "getProgram gpu (tex_format texture) s = (Inr r, (mg1, w1))"
    and dev: "priv_device gpu = Some dev"
  shows "generate gpu texture lc s =
     (case generate_loop mg1 gpu (programs w1 ! r) texture
             (case lc of Some n \<Rightarrow> n
                | None \<Rightarrow> countMipLevels [tex_width texture, tex_height texture])
             \<lparr>ls_width = tex_width texture, ls_height = tex_height texture,
              ls_baseMipLevel = 0, ls_encoder = []\<rparr> of
        Inl e \<Rightarrow>
          (Inl e, (mg1, w1\<lparr>deviceCalls := deviceCalls w1 @
                              [CreateCommandEncoder ''mip gen encoder'']\<rparr>))
      | Inr st \<Rightarrow>
          (Inr (ls_baseMipLevel st),
           (mg1, w1\<lparr>deviceCalls := deviceCalls w1 @
                      [CreateCommandEncoder ''mip gen encoder'', Submit [ls_encoder st]]\<rparr>)))"
  using assms by (simp add: generate_def Gpu_device_def Let_def split: sum.split)

lemma ex_gpu_simps:
  "priv_device ex_gpu = Some (ex_device ''untitled device'')"
  "priv_adapter ex_gpu = Some ex_adapter"
  by (simp_all add: ex_gpu_def Gpu_init_def navigator_requestAdapter_def ex_navigator_def
      ex_adapter_def new_Gpu_def Let_def)

lemma ex_state_eq:
  "ex_state = (\<lparr>priv_sampler = Some (GPUSampler ''linear''), priv_programMap = Map.empty\<rparr>,
               \<lparr>programs = [], deviceCalls = [CreateSampler ''linear''], spawned = []\<rparr>)"
  by (simp add: ex_state_def MipGenerator_init_def Gpu_device_def ex_gpu_simps new_MipGenerator_def
      ex_world_def)

lemma ex_getProgram:
  "getProgram ex_gpu f ex_state =
     (Inr 0,
      (\<lparr>priv_sampler = Some (GPUSampler ''linear''), priv_programMap = [f \<mapsto> 0]\<rparr>,
       \<lparr>programs = [\<lparr>priv_shaderModule = Some (GPUShaderModule (shaderDescriptor (mipmapDescriptor f))),
              priv_pipeline = Some (GPURenderPipeline (mipmapPipeline f))\<rparr>],
         deviceCalls = [CreateSampler ''linear'',
             CreateShaderModule (shaderDescriptor (mipmapDescriptor f)),
             CreateRenderPipeline (mipmapPipeline f)], spawned = []\<rparr>))"
  unfolding ex_state_eq
  by (subst getProgram_new[where dev = "ex_device ''untitled device''"
        and pl = "GPURenderPipeline (mipmapPipeline f)"])
     (simp_all add: ex_gpu_simps ex_device_def)

lemma ex_loop_step:
  "generate_loop \<lparr>priv_sampler = Some (GPUSampler ''linear''), priv_programMap = m\<rparr> ex_gpu
      \<lparr>priv_shaderModule = sm, priv_pipeline = Some pl\<rparr> texture lc st =
     (if loop_cond lc st then
        generate_loop \<lparr>priv_sampler = Some (GPUSampler ''linear''), priv_programMap = m\<rparr> ex_gpu
          \<lparr>priv_shaderModule = sm, priv_pipeline = Some pl\<rparr> texture lc
          \<lparr>ls_width = max 1 (ls_width st div 2), ls_height = max 1 (ls_height st div 2),
           ls_baseMipLevel = ls_baseMipLevel st + 1,
           ls_encoder = ls_encoder st @
             [\<lparr>pass_descriptor = getRenderPassDescriptor texture (ls_baseMipLevel st + 1),
               pass_pipeline = pl,
               pass_bindGroup = \<lparr>bg_layout = (pl, 0), bg_sampler = GPUSampler ''linear'',
                                  bg_view = createView texture (ls_baseMipLevel st) 1\<rparr>,
               pass_draw = 6,
               pass_width = max 1 (ls_width st div 2),
               pass_height = max 1 (ls_height st div 2)\<rparr>]\<rparr>
      else Inr st)"
  by (rule generate_loop_step) (simp_all add: ex_gpu_simps)

lemma submitted_append: "submitted (xs @ ys) = submitted xs @ submitted ys"
  by (induction xs rule: submitted.induct) simp_all

lemma wf_state_cached:
  "wf_state (mg, w) \<Longrightarrow> priv_programMap mg f = Some r \<Longrightarrow>
     r < length (programs w) \<and> (\<exists>pl. priv_pipeline (programs w ! r) = Some pl)"
  by (auto simp: wf_state_def)

lemma getProgram_ready:
  assumes wf: "wf_state (mg, w)" and dev: "priv_device gpu = Some dev"
    and cr: "createRenderPipeline dev (mipmapPipeline f) = Inr pl0"
  shows "\<exists>r mg1 w1 pl. getProgram gpu f (mg, w) = (Inr r, (mg1, w1))
           \<and> priv_pipeline (programs w1 ! r) = Some pl
           \<and> priv_sampler mg1 = priv_sampler mg
           \<and> submitted (deviceCalls w1) = submitted (deviceCalls w)"
proof (cases "priv_programMap mg f")
  case None
  show ?thesis
    by (simp add: getProgram_new[OF None dev cr] submitted_append)
next
  case (Some r)
  then show ?thesis
    using wf_state_cached[OF wf Some] by (auto simp: getProgram_cached)
qed

lemma generate_general:
  assumes wf: "wf_state (mg, w)" and dev: "priv_device gpu = Some dev"
    and smp: "priv_sampler mg = Some smp"
    and cr: "createRenderPipeline dev (mipmapPipeline (tex_format texture)) = Inr pl0"
    and pos: "1 \<le> tex_width texture" "1 \<le> tex_height texture"
  shows "\<exists>n s' passes. generate gpu texture (Some k) (mg, w) = (Inr n, s')
       \<and> submitted (deviceCalls (snd s')) = submitted (deviceCalls w) @ passes
       \<and> length passes = n
       \<and> map (\<lambda>p. (pass_width p, pass_height p)) passes =
           map (\<lambda>i. (max 1 (tex_width texture div 2 ^ i), max 1 (tex_height texture div 2 ^ i)))
             [1..<Suc n]
       \<and> n + 1 \<le> floorlog 2 (max (tex_width texture) (tex_height texture))
       \<and> (int (floorlog 2 (max (tex_width texture) (tex_height texture))) - 1 \<le> k
            \<longrightarrow> n + 1 = floorlog 2 (max (tex_width texture) (tex_height texture)))"
proof -
  from getProgram_ready[OF wf dev cr] obtain r mg1 w1 pl where
    gp: "getProgram gpu (tex_format texture) (mg, w) = (Inr r, (mg1, w1))"
    and pl: "priv_pipeline (programs w1 ! r) = Some pl"
    and s1: "priv_sampler mg1 = Some smp"
    and sub: "submitted (deviceCalls w1) = submitted (deviceCalls w)"
    using smp by auto
  let ?st = "\<lparr>ls_width = tex_width texture, ls_height = tex_height texture,
              ls_baseMipLevel = 0, ls_encoder = []\<rparr>"
  from generate_loop_collapse[OF dev pl s1, of ?st texture k] pos obtain st' where
    run: "generate_loop mg1 gpu (programs w1 ! r) texture k ?st = Inr st'"
    and ub: "ls_baseMipLevel st' + 1 \<le> floorlog 2 (max (tex_width texture) (tex_height texture))"
    and ex: "int (floorlog 2 (max (tex_width texture) (tex_height texture))) - 1 \<le> k
            \<longrightarrow> ls_baseMipLevel st' + 1 = floorlog 2 (max (tex_width texture) (tex_height texture))"
    by auto
  from generate_loop_passes[OF dev pl s1 run]
  have enc: "ls_encoder st' =
       map (\<lambda>i. \<lparr>pass_descriptor = getRenderPassDescriptor texture (i + 1),
               pass_pipeline = pl,
               pass_bindGroup = \<lparr>bg_layout = (pl, 0), bg_sampler = smp,
                                  bg_view = createView texture i 1\<rparr>,
               pass_draw = 6,
               pass_width = max 1 (tex_width texture div 2 ^ Suc i),
               pass_height = max 1 (tex_height texture div 2 ^ Suc i)\<rparr>)
         [0..<ls_baseMipLevel st']"
    by simp
  have dims: "map (\<lambda>p. (pass_width p, pass_height p)) (ls_encoder st') =
           map (\<lambda>i. (max 1 (tex_width texture div 2 ^ i), max 1 (tex_height texture div 2 ^ i)))
             [1..<Suc (ls_baseMipLevel st')]"
    unfolding enc by (simp add: o_def map_Suc_upt[symmetric] del: upt_Suc)
  have len: "length (ls_encoder st') = ls_baseMipLevel st'" unfolding enc by simp
  have g: "generate gpu texture (Some k) (mg, w) =
      (Inr (ls_baseMipLevel st'),
       (mg1, w1\<lparr>deviceCalls := deviceCalls w1 @
                  [CreateCommandEncoder ''mip gen encoder'', Submit [ls_encoder st']]\<rparr>))"
    by (simp add: generate_run[OF gp dev] run)
  show ?thesis
    unfolding g using ub ex dims len sub
    by (intro exI[of _ "ls_baseMipLevel st'"] exI[of _ "ls_encoder st'"]
          exI[of _ "(mg1, w1\<lparr>deviceCalls := deviceCalls w1 @
                  [CreateCommandEncoder ''mip gen encoder'', Submit [ls_encoder st']]\<rparr>)"])
       (simp add: submitted_append del: upt_Suc)
qed


lemma upt_1_9: "[1..<9] = [1, 2, 3, 4, 5, 6, 7, 8::nat]"
  by (simp add: upt_rec)

lemma ex_wf: "wf_state ex_state"
  by (simp add: ex_state_eq wf_state_def)

text \<open>
  Claim C3. On a 256 by 256 texture \<^verbatim>\<open>generate\<close> with the default level count encodes 8 passes,
  so that with the base level there are 9 levels, the level count of the texture, and the
  pass into level \<open>k\<close> goes from level \<open>k - 1\<close> with the extent \<open>max 1 (256 div 2^k)\<close> on
  each axis. On a 256 by 1 texture with 20
  levels requested it stops after 8 passes. In general, for a texture of positive extents
  (in particular one with an axis equal to 1), \<^verbatim>\<open>generate\<close> returns, the extents of its passes
  are the successive halves, it runs no pass after both extents have reached 1, and it runs
  exactly down to \<open>1 \<times> 1\<close> when the requested count allows that many passes or more.
\<close>

theorem generate_mip_chain:
  "fst (generate ex_gpu (ex_texture 256 256) None ex_state) = Inr 8
   \<and> map (\<lambda>p. (view_baseMipLevel (bg_view (pass_bindGroup p)),
                view_baseMipLevel (rp_view (pass_descriptor p)), pass_width p, pass_height p))
        (submitted (deviceCalls (snd (snd (generate ex_gpu (ex_texture 256 256) None ex_state)))))
      = map (\<lambda>k. (k - 1, k, max 1 (256 div 2 ^ k), max 1 (256 div 2 ^ k))) [1..<9]
   \<and> int (length (submitted (deviceCalls (snd (snd (generate ex_gpu (ex_texture 256 256) None
          ex_state)))))) + 1 = tex_mipLevelCount (ex_texture 256 256)
   \<and> fst (generate ex_gpu (ex_texture 256 1) (Some 20) ex_state) = Inr 8
   \<and> (wf_state (mg, w) \<and> priv_device gpu = Some dev \<and> priv_sampler mg = Some smp
       \<and> createRenderPipeline dev (mipmapPipeline (tex_format texture)) = Inr pl
       \<and> 1 \<le> tex_width texture \<and> 1 \<le> tex_height texture \<longrightarrow>
       (\<exists>n s' passes. generate gpu texture (Some k) (mg, w) = (Inr n, s')
          \<and> submitted (deviceCalls (snd s')) = submitted (deviceCalls w) @ passes
          \<and> length passes = n
          \<and> map (\<lambda>p. (pass_width p, pass_height p)) passes =
              map (\<lambda>i. (max 1 (tex_width texture div 2 ^ i), max 1 (tex_height texture div 2 ^ i)))
                [1..<Suc n]
          \<and> n + 1 \<le> floorlog 2 (max (tex_width texture) (tex_height texture))
          \<and> (int (floorlog 2 (max (tex_width texture) (tex_height texture))) - 1 \<le> k
               \<longrightarrow> n + 1 = floorlog 2 (max (tex_width texture) (tex_height texture)))))"
proof (intro conjI impI)
  show "fst (generate ex_gpu (ex_texture 256 256) None ex_state) = Inr 8"
    by (simp add: generate_run[OF ex_getProgram ex_gpu_simps(1)] ex_texture_def
        ex_loop_step loop_cond_def countMipLevels_floorlog compute_floorlog)
next
  show "map (\<lambda>p. (view_baseMipLevel (bg_view (pass_bindGroup p)),
                view_baseMipLevel (rp_view (pass_descriptor p)), pass_width p, pass_height p))
        (submitted (deviceCalls (snd (snd (generate ex_gpu (ex_texture 256 256) None ex_state)))))
      = map (\<lambda>k. (k - 1, k, max 1 (256 div 2 ^ k), max 1 (256 div 2 ^ k))) [1..<9]"
    unfolding upt_1_9
    by (simp add: generate_run[OF ex_getProgram ex_gpu_simps(1)] ex_texture_def
        ex_loop_step loop_cond_def countMipLevels_floorlog compute_floorlog
        getRenderPassDescriptor_def createView_def)
next
  show "int (length (submitted (deviceCalls (snd (snd (generate ex_gpu (ex_texture 256 256) None
          ex_state)))))) + 1 = tex_mipLevelCount (ex_texture 256 256)"
    by (simp add: generate_run[OF ex_getProgram ex_gpu_simps(1)] ex_texture_def
        ex_loop_step loop_cond_def countMipLevels_floorlog compute_floorlog)
next
  show "fst (generate ex_gpu (ex_texture 256 1) (Some 20) ex_state) = Inr 8"
    by (simp add: generate_run[OF ex_getProgram ex_gpu_simps(1)] ex_texture_def
        ex_loop_step loop_cond_def)
next
  assume "wf_state (mg, w) \<and> priv_device gpu = Some dev \<and> priv_sampler mg = Some smp
       \<and> createRenderPipeline dev (mipmapPipeline (tex_format texture)) = Inr pl
       \<and> 1 \<le> tex_width texture \<and> 1 \<le> tex_height texture"
  then show "\<exists>n s' passes. generate gpu texture (Some k) (mg, w) = (Inr n, s')
          \<and> submitted (deviceCalls (snd s')) = submitted (deviceCalls w) @ passes
          \<and> length passes = n
          \<and> map (\<lambda>p. (pass_width p, pass_height p)) passes =
              map (\<lambda>i. (max 1 (tex_width texture div 2 ^ i), max 1 (tex_height texture div 2 ^ i)))
                [1..<Suc n]
          \<and> n + 1 \<le> floorlog 2 (max (tex_width texture) (tex_height texture))
          \<and> (int (floorlog 2 (max (tex_width texture) (tex_height texture))) - 1 \<le> k
               \<longrightarrow> n + 1 = floorlog 2 (max (tex_width texture) (tex_height texture)))"
    using generate_general[of mg w gpu dev smp texture pl k] by blast
qed

theorem generate_mip_chain_witness:
  "\<exists>n s'. generate ex_gpu (ex_texture 1 256) (Some 20) ex_state = (Inr n, s')
      \<and> length (submitted (deviceCalls (snd s'))) = n \<and> n + 1 = 9"
proof -
  have h: "wf_state ex_state \<and> priv_device ex_gpu = Some (ex_device ''untitled device'')
      \<and> priv_sampler (fst ex_state) = Some (GPUSampler ''linear'')
      \<and> createRenderPipeline (ex_device ''untitled device'')
            (mipmapPipeline (tex_format (ex_texture 1 256)))
          = Inr (GPURenderPipeline (mipmapPipeline (tex_format (ex_texture 1 256))))
      \<and> 1 \<le> tex_width (ex_texture 1 256) \<and> 1 \<le> tex_height (ex_texture 1 256)"
    using ex_wf by (simp add: ex_gpu_simps ex_state_eq ex_device_def ex_texture_def)
  have fl: "floorlog 2 (max (tex_width (ex_texture 1 256)) (tex_height (ex_texture 1 256))) = 9"
    by (simp add: ex_texture_def compute_floorlog)
  have sub: "submitted (deviceCalls (snd ex_state)) = []"
    by (simp add: ex_state_eq)
  from generate_mip_chain[of "fst ex_state" "snd ex_state" ex_gpu "ex_device ''untitled device''"
      "GPUSampler ''linear''" "ex_texture 1 256"
      "GPURenderPipeline (mipmapPipeline (tex_format (ex_texture 1 256)))" 20] h
  obtain n s' passes where
    "generate ex_gpu (ex_texture 1 256) (Some 20) ex_state = (Inr n, s')"
    "submitted (deviceCalls (snd s')) = submitted (deviceCalls (snd ex_state)) @ passes"
    "length passes = n"
    "int (floorlog 2 (max (tex_width (ex_texture 1 256)) (tex_height (ex_texture 1 256)))) - 1 \<le> 20
       \<longrightarrow> n + 1 = floorlog 2 (max (tex_width (ex_texture 1 256)) (tex_height (ex_texture 1 256)))"
    by auto
  then show ?thesis unfolding fl sub by auto
qed

text \<open>
  Claim C1 says that the loop runs while \<open>level < levelCount - 1\<close> and one extent is above 1,
  hence never more than \<open>levelCount - 1\<close> passes. The guard of the source is
  \<^verbatim>\<open>(baseMipLevel < mipLevelCount && width > 1) || height > 1\<close>: the level count bounds the
  test of the width only, and by \<open>levelCount\<close>, not \<open>levelCount - 1\<close>. With 3 levels requested
  the source runs 8 passes on a 256 by 256 texture and on a 1 by 256 texture, and 3 passes on
  a 256 by 1 texture.
\<close>

theorem generate_exceeds_level_count:
  "fst (generate ex_gpu (ex_texture 256 256) (Some 3) ex_state) = Inr 8
   \<and> length (submitted (deviceCalls (snd (snd (generate ex_gpu (ex_texture 256 256) (Some 3) ex_state))))) = 8
   \<and> fst (generate ex_gpu (ex_texture 1 256) (Some 3) ex_state) = Inr 8
   \<and> fst (generate ex_gpu (ex_texture 256 1) (Some 3) ex_state) = Inr 3"
  by (simp add: generate_run[OF ex_getProgram ex_gpu_simps(1)] ex_texture_def
        ex_loop_step loop_cond_def)

section \<open>The cache keeps what it holds\<close>

text \<open>The three ways \<^verbatim>\<open>getProgram\<close> can go: a hit, a new entry, an exception.\<close>

lemma getProgram_cases:
  "(\<exists>r. priv_programMap mg f = Some r \<and> getProgram gpu f (mg, w) = (Inr r, (mg, w)))
   \<or> (\<exists>p calls. priv_programMap mg f = None \<and>
         getProgram gpu f (mg, w) =
           (Inr (length (programs w)),
            (mg\<lparr>priv_programMap := (priv_programMap mg)(f \<mapsto> length (programs w))\<rparr>,
             w\<lparr>programs := programs w @ [p], deviceCalls := calls\<rparr>))
         \<and> priv_pipeline p \<noteq> None)
   \<or> (\<exists>e p calls. priv_programMap mg f = None \<and>
         getProgram gpu f (mg, w) =
           (Inl e, (mg, w\<lparr>programs := programs w @ [p], deviceCalls := calls\<rparr>)))"
proof (cases "priv_programMap mg f")
  case (Some r)
  then show ?thesis by (simp add: getProgram_cached)
next
  case None
  show ?thesis
  proof (cases "priv_device gpu")
    case n: None
    have "w\<lparr>programs := programs w @ [new_Program]\<rparr> =
          w\<lparr>programs := programs w @ [new_Program], deviceCalls := deviceCalls w\<rparr>"
      by simp
    then show ?thesis using getProgram_no_device[OF None n, of w] None by metis
  next
    case (Some dev)
    show ?thesis
    proof (cases "createRenderPipeline dev (mipmapPipeline f)")
      case (Inl e)
      show ?thesis using getProgram_pipeline_fails[OF None Some Inl, of w] None by auto
    next
      case (Inr pl)
      show ?thesis using getProgram_new[OF None Some Inr, of w] None by auto
    qed
  qed
qed

lemma wf_state_store:
  assumes wf: "wf_state (mg, w)" and new: "priv_programMap mg f = None"
    and p: "priv_pipeline p \<noteq> None"
  shows "wf_state (mg\<lparr>priv_programMap := (priv_programMap mg)(f \<mapsto> length (programs w))\<rparr>,
                   w\<lparr>programs := programs w @ [p], deviceCalls := calls\<rparr>)"
proof -
  have old: "r < length (programs w) \<and> priv_pipeline (programs w ! r) \<noteq> None"
    if "priv_programMap mg g = Some r" for g r
    using wf that by (auto simp: wf_state_def)
  have inj: "g = g'" if "priv_programMap mg g = Some r" "priv_programMap mg g' = Some r" for g g' r
    using wf that unfolding wf_state_def by (simp only: fst_conv)
  show ?thesis
    unfolding wf_state_def
  proof (intro conjI allI impI)
    fix g r
    assume a: "priv_programMap (fst (mg\<lparr>priv_programMap := (priv_programMap mg)(f \<mapsto> length (programs w))\<rparr>,
                   w\<lparr>programs := programs w @ [p], deviceCalls := calls\<rparr>)) g = Some r"
    show "r < length (programs (snd (mg\<lparr>priv_programMap := (priv_programMap mg)(f \<mapsto> length (programs w))\<rparr>,
                   w\<lparr>programs := programs w @ [p], deviceCalls := calls\<rparr>)))"
      using a old[of g r] by (cases "g = f") auto
    show "priv_pipeline (programs (snd (mg\<lparr>priv_programMap := (priv_programMap mg)(f \<mapsto> length (programs w))\<rparr>,
                   w\<lparr>programs := programs w @ [p], deviceCalls := calls\<rparr>)) ! r) \<noteq> None"
      using a old[of g r] p by (cases "g = f") (auto simp: nth_append)
  next
    fix g g' r
    assume a: "priv_programMap (fst (mg\<lparr>priv_programMap := (priv_programMap mg)(f \<mapsto> length (programs w))\<rparr>,
                   w\<lparr>programs := programs w @ [p], deviceCalls := calls\<rparr>)) g = Some r
        \<and> priv_programMap (fst (mg\<lparr>priv_programMap := (priv_programMap mg)(f \<mapsto> length (programs w))\<rparr>,
                   w\<lparr>programs := programs w @ [p], deviceCalls := calls\<rparr>)) g' = Some r"
    show "g = g'"
      using a old[of g r] old[of g' r] inj[of g r g']
      by (cases "g = f"; cases "g' = f") auto
  qed
qed

lemma wf_state_alloc:
  assumes wf: "wf_state (mg, w)"
  shows "wf_state (mg, w\<lparr>programs := programs w @ [p], deviceCalls := calls\<rparr>)"
  using wf unfolding wf_state_def
  by (simp add: nth_append) (metis less_SucI)

lemma getProgram_wf:
  assumes "wf_state (mg, w)" "getProgram gpu f (mg, w) = (res, s1)"
  shows "wf_state s1"
  using getProgram_cases[of mg f gpu w] assms
  by (elim disjE exE conjE) (auto intro: wf_state_store wf_state_alloc)





lemma generate_keeps_programs:
  "programs (snd (snd (generate gpu texture lc s))) =
   programs (snd (snd (getProgram gpu (tex_format texture) s)))"
  by (simp add: generate_def Let_def split: prod.splits sum.splits)

text \<open>
  The invariant holds for a new MipGenerator and every operation keeps it, so it holds in
  every state that the program can reach.
\<close>

lemma wf_state_new: "wf_state (new_MipGenerator, w)"
  by (simp add: wf_state_def new_MipGenerator_def)

lemma wf_state_calls:
  "wf_state (mg, w\<lparr>deviceCalls := calls\<rparr>) = wf_state (mg, w)"
  by (simp add: wf_state_def)

lemma generate_wf:
  assumes "wf_state (mg, w)"
  shows "wf_state (snd (generate gpu texture lc (mg, w)))"
proof -
  obtain res mg1 w1 where gp: "getProgram gpu (tex_format texture) (mg, w) = (res, (mg1, w1))"
    by (metis prod.exhaust)
  have "wf_state (mg1, w1)" using getProgram_wf[OF assms gp] .
  then show ?thesis
    using gp by (auto simp: generate_def Let_def wf_state_calls split: sum.splits)
qed

lemma MipGenerator_init_wf:
  assumes "wf_state (mg, w)"
  shows "wf_state (snd (MipGenerator_init gpu (mg, w)))"
  using assms by (auto simp: MipGenerator_init_def wf_state_def split: sum.splits)




text \<open>
  Claim C5 says that \<^verbatim>\<open>generate\<close> fails with \<open>UnsupportedFormatError\<close> when no pipeline can be
  built for the format. The source defines no such error and makes no test of the format:
  what \<^verbatim>\<open>generate\<close> fails with is whatever \<^verbatim>\<open>createRenderPipeline\<close> of the device has thrown.
  On a device that throws \<^verbatim>\<open>Error('out of memory')\<close> it is that \<^verbatim>\<open>Error\<close>, for the format
  \<open>rgba8unorm\<close>; on a device that throws a \<^verbatim>\<open>TypeError\<close> for the format \<open>rgb9e5ufloat\<close> it is
  that \<^verbatim>\<open>TypeError\<close>.
\<close>

theorem generate_fails_with_device_exception:
  "fst (generate ex_failing_gpu (ex_texture 256 256) None ex_state)
     = Inl (Error ''out of memory'')
   \<and> fst (generate ex_strict_gpu
          ((ex_texture 256 256)\<lparr>tex_format := ''rgb9e5ufloat''\<rparr>) None ex_state)
     = Inl (TypeError ''unsupported format'')"
proof -
  have m: "priv_programMap (fst ex_state) f = None" for f by (simp add: ex_state_eq)
  have g1: "getProgram ex_failing_gpu (tex_format (ex_texture 256 256)) (fst ex_state, snd ex_state)
      = (Inl (Error ''out of memory''),
         (fst ex_state,
          (snd ex_state)\<lparr>programs := programs (snd ex_state) @
            [\<lparr>priv_shaderModule = Some (GPUShaderModule (shaderDescriptor
                 (mipmapDescriptor (tex_format (ex_texture 256 256))))),
              priv_pipeline = None\<rparr>],
           deviceCalls := deviceCalls (snd ex_state) @
            [CreateShaderModule (shaderDescriptor (mipmapDescriptor (tex_format (ex_texture 256 256)))),
             CreateRenderPipeline (mipmapPipeline (tex_format (ex_texture 256 256)))]\<rparr>))"
    by (rule getProgram_pipeline_fails[where dev = ex_failing_device])
       (simp_all add: m ex_failing_gpu_def ex_failing_device_def)
  let ?t = "(ex_texture 256 256)\<lparr>tex_format := ''rgb9e5ufloat''\<rparr>"
  have g2: "getProgram ex_strict_gpu (tex_format ?t) (fst ex_state, snd ex_state)
      = (Inl (TypeError ''unsupported format''),
         (fst ex_state,
          (snd ex_state)\<lparr>programs := programs (snd ex_state) @
            [\<lparr>priv_shaderModule = Some (GPUShaderModule (shaderDescriptor
                 (mipmapDescriptor (tex_format ?t)))),
              priv_pipeline = None\<rparr>],
           deviceCalls := deviceCalls (snd ex_state) @
            [CreateShaderModule (shaderDescriptor (mipmapDescriptor (tex_format ?t))),
             CreateRenderPipeline (mipmapPipeline (tex_format ?t))]\<rparr>))"
    by (rule getProgram_pipeline_fails[where dev = ex_strict_device])
       (simp_all add: m ex_strict_gpu_def ex_strict_device_def mipmapDescriptor_def)
  have "fst (generate ex_failing_gpu (ex_texture 256 256) None (fst ex_state, snd ex_state))
     = Inl (Error ''out of memory'')"
    unfolding generate_def g1 by simp
  moreover have "fst (generate ex_strict_gpu ?t None (fst ex_state, snd ex_state))
     = Inl (TypeError ''unsupported format'')"
    unfolding generate_def g2 by simp
  ultimately show ?thesis by simp
qed

text \<open>
  Claim C5, amended. When \<^verbatim>\<open>createRenderPipeline\<close> of the device throws for the descriptor of
  a format that is not in the cache, \<^verbatim>\<open>getProgram\<close> and \<^verbatim>\<open>generate\<close> fail with the exception
  that the device has thrown, the MipGenerator and with it the map of Programs is
  as before, the only calls sent to the device are the creation of the shader module and the
  request of the pipeline, and no command encoder exists and no pass is submitted. The cache
  holds only Programs whose \<^verbatim>\<open>init\<close> has returned.
\<close>

theorem generate_unsupported_format:
  "priv_device gpu = Some dev \<and> priv_programMap mg (tex_format texture) = None
   \<and> createRenderPipeline dev (mipmapPipeline (tex_format texture)) = Inl e \<longrightarrow>
     fst (getProgram gpu (tex_format texture) (mg, w)) = Inl e
     \<and> fst (snd (getProgram gpu (tex_format texture) (mg, w))) = mg
     \<and> fst (generate gpu texture lc (mg, w)) = Inl e
     \<and> fst (snd (generate gpu texture lc (mg, w))) = mg
     \<and> priv_programMap (fst (snd (generate gpu texture lc (mg, w)))) (tex_format texture) = None
     \<and> deviceCalls (snd (snd (generate gpu texture lc (mg, w)))) =
         deviceCalls w @ [CreateShaderModule (shaderDescriptor (mipmapDescriptor (tex_format texture))),
                          CreateRenderPipeline (mipmapPipeline (tex_format texture))]
     \<and> submitted (deviceCalls (snd (snd (generate gpu texture lc (mg, w))))) =
         submitted (deviceCalls w)"
proof (intro impI)
  assume a: "priv_device gpu = Some dev \<and> priv_programMap mg (tex_format texture) = None
   \<and> createRenderPipeline dev (mipmapPipeline (tex_format texture)) = Inl e"
  then have gp: "getProgram gpu (tex_format texture) (mg, w) =
     (Inl e,
      (mg,
       w\<lparr>programs := programs w @
            [\<lparr>priv_shaderModule = Some (GPUShaderModule (shaderDescriptor (mipmapDescriptor (tex_format texture)))),
              priv_pipeline = None\<rparr>],
         deviceCalls := deviceCalls w @
            [CreateShaderModule (shaderDescriptor (mipmapDescriptor (tex_format texture))),
             CreateRenderPipeline (mipmapPipeline (tex_format texture))]\<rparr>))"
    using getProgram_pipeline_fails[of mg "tex_format texture" gpu dev e w] by simp
  have g: "generate gpu texture lc (mg, w) = getProgram gpu (tex_format texture) (mg, w)"
    unfolding gp by (simp add: generate_def gp)
  show "fst (getProgram gpu (tex_format texture) (mg, w)) = Inl e
     \<and> fst (snd (getProgram gpu (tex_format texture) (mg, w))) = mg
     \<and> fst (generate gpu texture lc (mg, w)) = Inl e
     \<and> fst (snd (generate gpu texture lc (mg, w))) = mg
     \<and> priv_programMap (fst (snd (generate gpu texture lc (mg, w)))) (tex_format texture) = None
     \<and> deviceCalls (snd (snd (generate gpu texture lc (mg, w)))) =
         deviceCalls w @ [CreateShaderModule (shaderDescriptor (mipmapDescriptor (tex_format texture))),
                          CreateRenderPipeline (mipmapPipeline (tex_format texture))]
     \<and> submitted (deviceCalls (snd (snd (generate gpu texture lc (mg, w))))) =
         submitted (deviceCalls w)"
    unfolding g unfolding gp using a by (simp add: submitted_append)
qed

theorem generate_unsupported_format_witness:
  "fst (generate ex_strict_gpu
          ((ex_texture 256 256)\<lparr>tex_format := ''rgb9e5ufloat''\<rparr>) None ex_state)
     = Inl (TypeError ''unsupported format'')
   \<and> fst (snd (generate ex_strict_gpu
          ((ex_texture 256 256)\<lparr>tex_format := ''rgb9e5ufloat''\<rparr>) None ex_state)) = fst ex_state
   \<and> submitted (deviceCalls (snd (snd (generate ex_strict_gpu
          ((ex_texture 256 256)\<lparr>tex_format := ''rgb9e5ufloat''\<rparr>) None ex_state)))) = []"
proof -
  let ?t = "(ex_texture 256 256)\<lparr>tex_format := ''rgb9e5ufloat''\<rparr>"
  have h: "priv_device ex_strict_gpu = Some ex_strict_device
      \<and> priv_programMap (fst ex_state) (tex_format ?t) = None
      \<and> createRenderPipeline ex_strict_device (mipmapPipeline (tex_format ?t))
          = Inl (TypeError ''unsupported format'')"
    by (simp add: ex_strict_gpu_def ex_strict_device_def ex_state_eq mipmapDescriptor_def)
  have sub: "submitted (deviceCalls (snd ex_state)) = []" by (simp add: ex_state_eq)
  from generate_unsupported_format[of ex_strict_gpu ex_strict_device "fst ex_state" ?t
        "TypeError ''unsupported format''" "snd ex_state" None] h
  have "fst (generate ex_strict_gpu ?t None (fst ex_state, snd ex_state))
          = Inl (TypeError ''unsupported format'')"
    and "fst (snd (generate ex_strict_gpu ?t None (fst ex_state, snd ex_state))) = fst ex_state"
    and "submitted (deviceCalls (snd (snd (generate ex_strict_gpu ?t None (fst ex_state, snd ex_state)))))
          = submitted (deviceCalls (snd ex_state))"
    by blast+
  then show ?thesis unfolding sub by simp
qed

section \<open>Gpu.init\<close>

lemma Gpu_init_no_adapter:
  "navigator_requestAdapter nav = Inr None \<Longrightarrow>
     Gpu_init nav g = (Inl (Error ''browser does not support WebGPU''), g\<lparr>priv_adapter := None\<rparr>)"
  by (simp add: Gpu_init_def Let_def)

lemma Gpu_init_no_device:
  "navigator_requestAdapter nav = Inr (Some a) \<Longrightarrow>
   requestDevice a (gpu_label g @ '' device'') = Inr None \<Longrightarrow>
     Gpu_init nav g = (Inl (Error ''browser does not support WebGPU''),
                       g\<lparr>priv_adapter := Some a, priv_device := None\<rparr>)"
  by (simp add: Gpu_init_def Let_def)

lemma Gpu_init_ok:
  "navigator_requestAdapter nav = Inr (Some a) \<Longrightarrow>
   requestDevice a (gpu_label g @ '' device'') = Inr (Some d) \<Longrightarrow>
     Gpu_init nav g = (Inr (), g\<lparr>priv_adapter := Some a, priv_device := Some d\<rparr>)"
  by (simp add: Gpu_init_def Let_def)

lemma Gpu_init_adapter_rejected:
  "navigator_requestAdapter nav = Inl e \<Longrightarrow> Gpu_init nav g = (Inl e, g)"
  by (simp add: Gpu_init_def)

lemma Gpu_init_device_rejected:
  "navigator_requestAdapter nav = Inr (Some a) \<Longrightarrow>
   requestDevice a (gpu_label g @ '' device'') = Inl e \<Longrightarrow>
     Gpu_init nav g = (Inl e, g\<lparr>priv_adapter := Some a\<rparr>)"
  by (simp add: Gpu_init_def Let_def)

lemma Gpu_init_success_ready:
  "fst (Gpu_init nav g) = Inr () \<Longrightarrow> Gpu_ready (snd (Gpu_init nav g))"
  by (auto simp: Gpu_init_def Gpu_ready_def Let_def split: sum.splits option.splits)

text \<open>A call of \<^verbatim>\<open>init\<close> that throws leaves a missing device missing.\<close>

lemma Gpu_init_failure_device:
  "fst (Gpu_init nav g) \<noteq> Inr () \<Longrightarrow> priv_device g = None \<Longrightarrow>
     priv_device (snd (Gpu_init nav g)) = None"
  by (auto simp: Gpu_init_def Let_def split: sum.splits option.splits)

lemma Gpu_init_calls_device:
  "priv_device g = None \<Longrightarrow> \<not> fst (Gpu_init_calls navs g) \<Longrightarrow>
     priv_device (snd (Gpu_init_calls navs g)) = None"
proof (induction navs arbitrary: g)
  case Nil
  then show ?case by simp
next
  case (Cons nav navs)
  obtain res g1 where r: "Gpu_init nav g = (res, g1)" by (cases "Gpu_init nav g")
  show ?case
  proof (cases res)
    case (Inl e)
    have "priv_device g1 = None"
      using Gpu_init_failure_device[of nav g] Cons.prems(1) r Inl by simp
    then show ?thesis using Cons.IH[of g1] Cons.prems(2) r Inl by simp
  next
    case (Inr u)
    then show ?thesis using Cons.prems(2) r by simp
  qed
qed

lemma ex_navigator_adapter: "navigator_requestAdapter (ex_navigator a) = Inr a"
  by (simp add: navigator_requestAdapter_def ex_navigator_def)

text \<open>
  Claim C10. When the adapter is obtained and the device is not, \<^verbatim>\<open>init\<close> throws and the Gpu
  keeps the adapter: it is not ready, and its accessor \<^verbatim>\<open>adapter\<close> returns the adapter. This
  is so when \<^verbatim>\<open>requestDevice\<close> resolves to \<^verbatim>\<open>null\<close>, and also when it rejects, on a Gpu that
  had no device before.
\<close>

theorem Gpu_init_not_atomic:
  "(navigator_requestAdapter nav = Inr (Some a)
      \<and> requestDevice a (gpu_label g @ '' device'') = Inr None \<longrightarrow>
     fst (Gpu_init nav g) = Inl (Error ''browser does not support WebGPU'')
     \<and> \<not> Gpu_ready (snd (Gpu_init nav g))
     \<and> priv_adapter (snd (Gpu_init nav g)) = Some a
     \<and> priv_device (snd (Gpu_init nav g)) = None
     \<and> Gpu_adapter (snd (Gpu_init nav g)) = Inr a)
   \<and> (navigator_requestAdapter nav = Inr (Some a)
      \<and> requestDevice a (gpu_label g @ '' device'') = Inl e \<and> priv_device g = None \<longrightarrow>
     fst (Gpu_init nav g) = Inl e
     \<and> \<not> Gpu_ready (snd (Gpu_init nav g))
     \<and> priv_adapter (snd (Gpu_init nav g)) = Some a
     \<and> priv_device (snd (Gpu_init nav g)) = None
     \<and> Gpu_adapter (snd (Gpu_init nav g)) = Inr a)"
  by (simp add: Gpu_init_no_device Gpu_init_device_rejected Gpu_ready_def Gpu_adapter_def)

theorem Gpu_init_not_atomic_witness:
  "\<not> Gpu_ready (snd (Gpu_init (ex_navigator (Some ex_adapter_no_device)) (new_Gpu ''engine/gpu'')))
   \<and> Gpu_adapter (snd (Gpu_init (ex_navigator (Some ex_adapter_no_device)) (new_Gpu ''engine/gpu'')))
       = Inr ex_adapter_no_device
   \<and> fst (Gpu_init (ex_navigator (Some ex_adapter_rejecting)) (new_Gpu ''engine/gpu''))
       = Inl (TypeError ''required limit is not supported'')
   \<and> \<not> Gpu_ready (snd (Gpu_init (ex_navigator (Some ex_adapter_rejecting)) (new_Gpu ''engine/gpu'')))
   \<and> Gpu_adapter (snd (Gpu_init (ex_navigator (Some ex_adapter_rejecting)) (new_Gpu ''engine/gpu'')))
       = Inr ex_adapter_rejecting"
proof -
  have h1: "navigator_requestAdapter (ex_navigator (Some ex_adapter_no_device))
        = Inr (Some ex_adapter_no_device)
      \<and> requestDevice ex_adapter_no_device (gpu_label (new_Gpu ''engine/gpu'') @ '' device'')
        = Inr None"
    by (simp add: ex_navigator_adapter ex_adapter_no_device_def)
  have h2: "navigator_requestAdapter (ex_navigator (Some ex_adapter_rejecting))
        = Inr (Some ex_adapter_rejecting)
      \<and> requestDevice ex_adapter_rejecting (gpu_label (new_Gpu ''engine/gpu'') @ '' device'')
        = Inl (TypeError ''required limit is not supported'')
      \<and> priv_device (new_Gpu ''engine/gpu'') = None"
    by (simp add: ex_navigator_adapter ex_adapter_rejecting_def new_Gpu_def)
  from Gpu_init_not_atomic[of "ex_navigator (Some ex_adapter_no_device)" ex_adapter_no_device
      "new_Gpu ''engine/gpu''" "TypeError ''required limit is not supported''"] h1
  have c1: "\<not> Gpu_ready (snd (Gpu_init (ex_navigator (Some ex_adapter_no_device))
                (new_Gpu ''engine/gpu'')))
      \<and> Gpu_adapter (snd (Gpu_init (ex_navigator (Some ex_adapter_no_device))
                (new_Gpu ''engine/gpu''))) = Inr ex_adapter_no_device"
    by blast
  from Gpu_init_not_atomic[of "ex_navigator (Some ex_adapter_rejecting)" ex_adapter_rejecting
      "new_Gpu ''engine/gpu''" "TypeError ''required limit is not supported''"] h2
  have c2: "fst (Gpu_init (ex_navigator (Some ex_adapter_rejecting)) (new_Gpu ''engine/gpu''))
       = Inl (TypeError ''required limit is not supported'')
   \<and> \<not> Gpu_ready (snd (Gpu_init (ex_navigator (Some ex_adapter_rejecting))
                (new_Gpu ''engine/gpu'')))
   \<and> Gpu_adapter (snd (Gpu_init (ex_navigator (Some ex_adapter_rejecting))
                (new_Gpu ''engine/gpu''))) = Inr ex_adapter_rejecting"
    by blast
  show ?thesis using c1 c2 by blast
qed

text \<open>
  Claim C8 says that \<^verbatim>\<open>init\<close> fails with \<open>NoAdapterError\<close> without an adapter and with
  \<open>NoDeviceError\<close> without a device, and that the caller can tell the two apart. The source
  throws \<^verbatim>\<open>new Error('browser does not support WebGPU')\<close> in both places: the two exceptions
  are equal.
\<close>

theorem Gpu_init_same_error:
  "fst (Gpu_init (ex_navigator None) (new_Gpu ''untitled''))
     = Inl (Error ''browser does not support WebGPU'')
   \<and> fst (Gpu_init (ex_navigator (Some ex_adapter_no_device)) (new_Gpu ''untitled''))
     = Inl (Error ''browser does not support WebGPU'')
   \<and> fst (Gpu_init (ex_navigator None) (new_Gpu ''untitled''))
     = fst (Gpu_init (ex_navigator (Some ex_adapter_no_device)) (new_Gpu ''untitled''))"
  by (simp add: Gpu_init_no_adapter Gpu_init_no_device[where a = ex_adapter_no_device]
      ex_navigator_adapter ex_adapter_no_device_def)

text \<open>
  Claim C8, amended. \<^verbatim>\<open>init\<close> asks the platform for an adapter and then that adapter for a
  device, under the label of the Gpu followed by \<open>device\<close>. When there is no adapter
  (\<^verbatim>\<open>navigator.gpu\<close> is missing or \<^verbatim>\<open>requestAdapter\<close> resolves to \<^verbatim>\<open>null\<close>) it throws
  \<^verbatim>\<open>Error('browser does not support WebGPU')\<close>, and when \<^verbatim>\<open>requestDevice\<close> resolves to \<^verbatim>\<open>null\<close>
  it throws the same \<^verbatim>\<open>Error\<close>. When \<^verbatim>\<open>requestAdapter\<close> rejects, \<^verbatim>\<open>init\<close> fails with the
  exception of the platform and the Gpu is as before; when \<^verbatim>\<open>requestDevice\<close> rejects, \<^verbatim>\<open>init\<close>
  fails with the exception of the platform and the Gpu has the adapter and the device it had
  before. With an adapter and a device \<^verbatim>\<open>init\<close> stores both and the Gpu is ready. A new Gpu is
  not ready, after one call of \<^verbatim>\<open>init\<close> it is ready exactly when the call has returned without
  an exception, and after any number of calls it is ready only if one of them has.
\<close>

theorem Gpu_init_contract:
  "(navigator_requestAdapter nav = Inr None \<longrightarrow>
      Gpu_init nav g = (Inl (Error ''browser does not support WebGPU''), g\<lparr>priv_adapter := None\<rparr>))
   \<and> (navigator_requestAdapter nav = Inr (Some a)
        \<and> requestDevice a (gpu_label g @ '' device'') = Inr None \<longrightarrow>
      Gpu_init nav g = (Inl (Error ''browser does not support WebGPU''),
                        g\<lparr>priv_adapter := Some a, priv_device := None\<rparr>))
   \<and> (navigator_requestAdapter nav = Inr (Some a)
        \<and> requestDevice a (gpu_label g @ '' device'') = Inr (Some d) \<longrightarrow>
      Gpu_init nav g = (Inr (), g\<lparr>priv_adapter := Some a, priv_device := Some d\<rparr>))
   \<and> (navigator_requestAdapter nav = Inl e \<longrightarrow> Gpu_init nav g = (Inl e, g))
   \<and> (navigator_requestAdapter nav = Inr (Some a)
        \<and> requestDevice a (gpu_label g @ '' device'') = Inl e \<longrightarrow>
      Gpu_init nav g = (Inl e, g\<lparr>priv_adapter := Some a\<rparr>))
   \<and> (fst (Gpu_init nav g) = Inr () \<longrightarrow> Gpu_ready (snd (Gpu_init nav g)))
   \<and> \<not> Gpu_ready (new_Gpu label)
   \<and> (Gpu_ready (snd (Gpu_init nav (new_Gpu label)))
        \<longleftrightarrow> fst (Gpu_init nav (new_Gpu label)) = Inr ())
   \<and> (Gpu_ready (snd (Gpu_init_calls navs (new_Gpu label)))
        \<longrightarrow> fst (Gpu_init_calls navs (new_Gpu label)))"
proof (intro conjI impI)
  show "\<not> Gpu_ready (new_Gpu label)" by (simp add: Gpu_ready_def new_Gpu_def)
next
  have n: "priv_device (new_Gpu label) = None" by (simp add: new_Gpu_def)
  show "Gpu_ready (snd (Gpu_init nav (new_Gpu label)))
        \<longleftrightarrow> fst (Gpu_init nav (new_Gpu label)) = Inr ()"
  proof
    assume r: "Gpu_ready (snd (Gpu_init nav (new_Gpu label)))"
    show "fst (Gpu_init nav (new_Gpu label)) = Inr ()"
    proof (rule ccontr)
      assume "fst (Gpu_init nav (new_Gpu label)) \<noteq> Inr ()"
      then have "priv_device (snd (Gpu_init nav (new_Gpu label))) = None"
        using n by (rule Gpu_init_failure_device)
      then show False using r by (simp add: Gpu_ready_def)
    qed
  next
    assume "fst (Gpu_init nav (new_Gpu label)) = Inr ()"
    then show "Gpu_ready (snd (Gpu_init nav (new_Gpu label)))"
      by (rule Gpu_init_success_ready)
  qed
next
  assume r: "Gpu_ready (snd (Gpu_init_calls navs (new_Gpu label)))"
  have n: "priv_device (new_Gpu label) = None" by (simp add: new_Gpu_def)
  show "fst (Gpu_init_calls navs (new_Gpu label))"
  proof (rule ccontr)
    assume "\<not> fst (Gpu_init_calls navs (new_Gpu label))"
    then have "priv_device (snd (Gpu_init_calls navs (new_Gpu label))) = None"
      using n by (intro Gpu_init_calls_device)
    then show False using r by (simp add: Gpu_ready_def)
  qed
qed (simp_all add: Gpu_init_no_adapter Gpu_init_no_device Gpu_init_ok
       Gpu_init_adapter_rejected Gpu_init_device_rejected Gpu_init_success_ready)

theorem Gpu_init_contract_witness:
  "fst (Gpu_init (ex_navigator None) (new_Gpu ''untitled''))
     = Inl (Error ''browser does not support WebGPU'')
   \<and> fst (Gpu_init (ex_navigator (Some ex_adapter_no_device)) (new_Gpu ''untitled''))
     = Inl (Error ''browser does not support WebGPU'')
   \<and> Gpu_init (ex_navigator (Some ex_adapter)) (new_Gpu ''untitled'')
     = (Inr (), \<lparr>gpu_label = ''untitled'', priv_adapter = Some ex_adapter,
                 priv_device = Some (ex_device ''untitled device'')\<rparr>)
   \<and> Gpu_ready (snd (Gpu_init (ex_navigator (Some ex_adapter)) (new_Gpu ''untitled'')))
   \<and> Gpu_init ex_navigator_rejecting (new_Gpu ''untitled'')
     = (Inl (TypeError ''invalid power preference''), new_Gpu ''untitled'')
   \<and> Gpu_init (ex_navigator (Some ex_adapter_rejecting)) (new_Gpu ''untitled'')
     = (Inl (TypeError ''required limit is not supported''),
        \<lparr>gpu_label = ''untitled'', priv_adapter = Some ex_adapter_rejecting, priv_device = None\<rparr>)
   \<and> fst (Gpu_init_calls [ex_navigator None, ex_navigator (Some ex_adapter)] (new_Gpu ''untitled''))"
proof -
  let ?d = "ex_device ''untitled device''"
  let ?e1 = "TypeError ''invalid power preference''"
  let ?e2 = "TypeError ''required limit is not supported''"
  let ?navs = "[ex_navigator None, ex_navigator (Some ex_adapter)]"
  have a0: "navigator_requestAdapter (ex_navigator None) = Inr None"
    by (simp add: ex_navigator_adapter)
  have a1: "navigator_requestAdapter (ex_navigator (Some ex_adapter_no_device))
        = Inr (Some ex_adapter_no_device)
      \<and> requestDevice ex_adapter_no_device (gpu_label (new_Gpu ''untitled'') @ '' device'')
        = Inr None"
    by (simp add: ex_navigator_adapter ex_adapter_no_device_def)
  have a2: "navigator_requestAdapter (ex_navigator (Some ex_adapter)) = Inr (Some ex_adapter)
      \<and> requestDevice ex_adapter (gpu_label (new_Gpu ''untitled'') @ '' device'')
          = Inr (Some ?d)"
    by (simp add: ex_navigator_adapter ex_adapter_def new_Gpu_def)
  have a3: "navigator_requestAdapter ex_navigator_rejecting = Inl ?e1"
    by (simp add: navigator_requestAdapter_def ex_navigator_rejecting_def)
  have a4: "navigator_requestAdapter (ex_navigator (Some ex_adapter_rejecting))
        = Inr (Some ex_adapter_rejecting)
      \<and> requestDevice ex_adapter_rejecting (gpu_label (new_Gpu ''untitled'') @ '' device'')
        = Inl ?e2"
    by (simp add: ex_navigator_adapter ex_adapter_rejecting_def)
  have c0: "Gpu_init (ex_navigator None) (new_Gpu ''untitled'')
      = (Inl (Error ''browser does not support WebGPU''), (new_Gpu ''untitled'')\<lparr>priv_adapter := None\<rparr>)"
    using Gpu_init_contract[of "ex_navigator None" "new_Gpu ''untitled''" ex_adapter
          ?d ?e1 "''untitled''" ?navs] a0 by blast
  have c1: "Gpu_init (ex_navigator (Some ex_adapter_no_device)) (new_Gpu ''untitled'')
      = (Inl (Error ''browser does not support WebGPU''),
         (new_Gpu ''untitled'')\<lparr>priv_adapter := Some ex_adapter_no_device, priv_device := None\<rparr>)"
    using Gpu_init_contract[of "ex_navigator (Some ex_adapter_no_device)" "new_Gpu ''untitled''"
          ex_adapter_no_device ?d ?e1 "''untitled''" ?navs] a1 by blast
  have c2: "Gpu_init (ex_navigator (Some ex_adapter)) (new_Gpu ''untitled'')
      = (Inr (), (new_Gpu ''untitled'')\<lparr>priv_adapter := Some ex_adapter,
                    priv_device := Some ?d\<rparr>)"
    and c3: "Gpu_ready (snd (Gpu_init (ex_navigator (Some ex_adapter)) (new_Gpu ''untitled'')))
      \<longleftrightarrow> fst (Gpu_init (ex_navigator (Some ex_adapter)) (new_Gpu ''untitled'')) = Inr ()"
    and c6: "Gpu_ready (snd (Gpu_init_calls ?navs (new_Gpu ''untitled'')))
      \<longrightarrow> fst (Gpu_init_calls ?navs (new_Gpu ''untitled''))"
    using Gpu_init_contract[of "ex_navigator (Some ex_adapter)" "new_Gpu ''untitled''" ex_adapter
          ?d ?e1 "''untitled''" ?navs] a2 by blast+
  have c4: "Gpu_init ex_navigator_rejecting (new_Gpu ''untitled'') = (Inl ?e1, new_Gpu ''untitled'')"
    using Gpu_init_contract[of ex_navigator_rejecting "new_Gpu ''untitled''" ex_adapter
          ?d ?e1 "''untitled''" ?navs] a3 by blast
  have c5: "Gpu_init (ex_navigator (Some ex_adapter_rejecting)) (new_Gpu ''untitled'')
      = (Inl ?e2, (new_Gpu ''untitled'')\<lparr>priv_adapter := Some ex_adapter_rejecting\<rparr>)"
    using Gpu_init_contract[of "ex_navigator (Some ex_adapter_rejecting)" "new_Gpu ''untitled''"
          ex_adapter_rejecting ?d ?e2 "''untitled''" ?navs] a4 by blast
  have n: "(new_Gpu ''untitled'')\<lparr>priv_adapter := None\<rparr> = new_Gpu ''untitled''"
    by (simp add: new_Gpu_def)
  have r: "Gpu_ready (snd (Gpu_init_calls ?navs (new_Gpu ''untitled'')))"
    by (simp add: c0 n c2) (simp add: Gpu_ready_def)
  have c7: "fst (Gpu_init_calls ?navs (new_Gpu ''untitled''))" using c6 r by blast
  show ?thesis
    unfolding c3 unfolding c0 c1 c2 c4 c5 using c7 by (simp add: new_Gpu_def)
qed

section \<open>Accessors\<close>

lemma Surface_init_ok:
  assumes "fst (Surface_init nav gpu s) = Inr ()"
  shows "\<exists>ctx ng dev. canvas_webgpu (canvas s) = Some ctx \<and> nav_gpu nav = Some ng
      \<and> priv_device gpu = Some dev
      \<and> priv_context (snd (Surface_init nav gpu s)) =
           Some (ctx\<lparr>ctx_configuration := Some \<lparr>cfg_device = dev,
                   cfg_format = getPreferredCanvasFormat ng, cfg_alphaMode = ''premultiplied''\<rparr>\<rparr>)
      \<and> priv_format (snd (Surface_init nav gpu s)) = Some (getPreferredCanvasFormat ng)
      \<and> priv_resizeObserver (snd (Surface_init nav gpu s))"
  using assms
  by (auto simp: Surface_init_def Let_def Gpu_device_def split: option.splits)

lemma Program_init_success:
  assumes "fst (Program_init gpu desc (p, calls)) = Inr ()"
  shows "priv_shaderModule (fst (snd (Program_init gpu desc (p, calls)))) \<noteq> None
       \<and> priv_pipeline (fst (snd (Program_init gpu desc (p, calls)))) \<noteq> None"
  using assms
  by (auto simp: Program_init_def Let_def Gpu_device_def split: option.splits sum.splits)

lemma MipGenerator_init_success:
  assumes "fst (MipGenerator_init gpu (mg, w)) = Inr ()"
  shows "priv_sampler (fst (snd (MipGenerator_init gpu (mg, w)))) = Some (GPUSampler ''linear'')"
  using assms
  by (auto simp: MipGenerator_init_def Gpu_device_def split: option.splits)

text \<open>
  A call of \<^verbatim>\<open>Program.init\<close> that throws leaves a missing pipeline missing, and no method
  of the MipGenerator other than an \<^verbatim>\<open>init\<close> that returns sets the sampler.
\<close>

lemma Program_init_failure_pipeline:
  "fst (Program_init gpu desc s) \<noteq> Inr () \<Longrightarrow> priv_pipeline (fst s) = None \<Longrightarrow>
     priv_pipeline (fst (snd (Program_init gpu desc s))) = None"
  by (cases s)
     (auto simp: Program_init_def Let_def Gpu_device_def split: option.splits sum.splits)

lemma Program_init_calls_pipeline:
  "priv_pipeline (fst s) = None \<Longrightarrow> \<not> fst (Program_init_calls cs s) \<Longrightarrow>
     priv_pipeline (fst (snd (Program_init_calls cs s))) = None"
proof (induction cs arbitrary: s)
  case Nil
  then show ?case by simp
next
  case (Cons c cs)
  obtain gpu desc where c: "c = (gpu, desc)" by (cases c)
  obtain res s1 where r: "Program_init gpu desc s = (res, s1)" by (cases "Program_init gpu desc s")
  show ?case
  proof (cases res)
    case (Inl e)
    have "priv_pipeline (fst s1) = None"
      using Program_init_failure_pipeline[of gpu desc s] Cons.prems(1) r Inl by simp
    then show ?thesis using Cons.IH[of s1] Cons.prems(2) r Inl c by simp
  next
    case (Inr u)
    then show ?thesis using Cons.prems(2) r c by simp
  qed
qed

lemma MipGenerator_init_failure_sampler:
  "fst (MipGenerator_init gpu s) \<noteq> Inr () \<Longrightarrow>
     priv_sampler (fst (snd (MipGenerator_init gpu s))) = priv_sampler (fst s)"
  by (cases s) (auto simp: MipGenerator_init_def split: sum.splits)

lemma getProgram_keeps_sampler:
  "priv_sampler (fst (snd (getProgram gpu f s))) = priv_sampler (fst s)"
  by (cases s) (auto simp: getProgram_def Let_def split: option.splits prod.splits sum.splits)

lemma generate_keeps_sampler:
  "priv_sampler (fst (snd (generate gpu texture lc s))) = priv_sampler (fst s)"
proof -
  obtain res mg1 w1 where gp: "getProgram gpu (tex_format texture) s = (res, (mg1, w1))"
    by (metis prod.exhaust)
  have "priv_sampler mg1 = priv_sampler (fst s)"
    using getProgram_keeps_sampler[of gpu "tex_format texture" s] gp by simp
  then show ?thesis
    using gp by (auto simp: generate_def Let_def split: sum.splits)
qed

lemma MipGenerator_calls_sampler:
  "priv_sampler (fst s) = None \<Longrightarrow> \<not> fst (MipGenerator_calls cs s) \<Longrightarrow>
     priv_sampler (fst (snd (MipGenerator_calls cs s))) = None"
proof (induction cs arbitrary: s)
  case Nil
  then show ?case by simp
next
  case (Cons c cs)
  show ?case
  proof (cases c)
    case (Init gpu)
    obtain res s1 where r: "MipGenerator_init gpu s = (res, s1)"
      by (cases "MipGenerator_init gpu s")
    show ?thesis
    proof (cases res)
      case (Inl e)
      have "priv_sampler (fst s1) = None"
        using MipGenerator_init_failure_sampler[of gpu s] Cons.prems(1) r Inl by simp
      then show ?thesis using Cons.IH[of s1] Cons.prems(2) r Inl Init by simp
    next
      case (Inr u)
      then show ?thesis using Cons.prems(2) r Init by simp
    qed
  next
    case (GetProgram gpu format)
    then show ?thesis
      using Cons.IH[of "snd (getProgram gpu format s)"] Cons.prems
      by (simp add: getProgram_keeps_sampler)
  next
    case (Generate gpu texture mipLevelCount)
    then show ?thesis
      using Cons.IH[of "snd (generate gpu texture mipLevelCount s)"] Cons.prems
      by (simp add: generate_keeps_sampler)
  qed
qed

text \<open>
  Claim C7 says that every accessor fails as long as \<^verbatim>\<open>init\<close> of its component has not
  succeeded. Each accessor tests its own field, and \<^verbatim>\<open>init\<close> assigns the fields one by one:
  after \<^verbatim>\<open>Gpu.init\<close> has failed for want of a device, \<^verbatim>\<open>adapter\<close> returns the adapter; after
  \<^verbatim>\<open>Surface.init\<close> has failed on a Gpu without device, \<^verbatim>\<open>context\<close> and \<^verbatim>\<open>format\<close> return
  their values; after \<^verbatim>\<open>Program.init\<close> has failed on the pipeline, \<^verbatim>\<open>shaderModule\<close> returns
  the shader module.
\<close>

theorem accessor_after_failed_init:
  "fst (Gpu_init (ex_navigator (Some ex_adapter_no_device)) (new_Gpu ''untitled''))
     = Inl (Error ''browser does not support WebGPU'')
   \<and> Gpu_adapter (snd (Gpu_init (ex_navigator (Some ex_adapter_no_device)) (new_Gpu ''untitled'')))
     = Inr ex_adapter_no_device
   \<and> fst (Surface_init (ex_navigator (Some ex_adapter)) (new_Gpu ''untitled'') (new_Surface ex_canvas))
     = Inl (Error ''Rendering device is not initialized'')
   \<and> Surface_context (snd (Surface_init (ex_navigator (Some ex_adapter)) (new_Gpu ''untitled'')
        (new_Surface ex_canvas))) = Inr \<lparr>ctx_configuration = None\<rparr>
   \<and> Surface_format (snd (Surface_init (ex_navigator (Some ex_adapter)) (new_Gpu ''untitled'')
        (new_Surface ex_canvas))) = Inr ''bgra8unorm''
   \<and> fst (Program_init ex_strict_gpu (mipmapDescriptor ''rgb9e5ufloat'') (new_Program, []))
     = Inl (TypeError ''unsupported format'')
   \<and> Program_shaderModule (fst (snd (Program_init ex_strict_gpu (mipmapDescriptor ''rgb9e5ufloat'')
        (new_Program, []))))
     = Inr (GPUShaderModule \<lparr>smd_label = ''mipmap shader'', smd_code = MipmapWgsl\<rparr>)"
  by (simp add: Gpu_init_def navigator_requestAdapter_def Gpu_adapter_def
        ex_adapter_no_device_def Surface_init_def ex_navigator_def new_Gpu_def new_Surface_def
        ex_canvas_def Gpu_device_def Surface_context_def Surface_format_def Let_def
        Program_init_def ex_strict_gpu_def ex_strict_device_def mipmapDescriptor_def
        Program_shaderModule_def new_Program_def)

text \<open>
  Claim C7, amended. \<^verbatim>\<open>Gpu.device\<close>, \<^verbatim>\<open>Program.pipeline\<close> and \<^verbatim>\<open>MipGenerator.sampler\<close> throw the
  \<^verbatim>\<open>Error\<close> of their component as long as no call of \<^verbatim>\<open>init\<close> on the component has returned
  without an exception, whatever calls have been made on it. \<^verbatim>\<open>Gpu.adapter\<close>,
  \<^verbatim>\<open>Surface.context\<close>, \<^verbatim>\<open>Surface.format\<close> and \<^verbatim>\<open>Program.shaderModule\<close> throw it on a component
  that was just constructed. After an \<^verbatim>\<open>init\<close> that returned without an exception every
  accessor of the component returns a value; for \<^verbatim>\<open>Surface.format\<close> the preferred format of
  the platform is taken to be a format name, which is not the empty string.
\<close>

theorem accessors_guard:
  "Gpu_adapter (new_Gpu label) = Inl (Error ''Rendering device is not initialized'')
   \<and> Gpu_device (new_Gpu label) = Inl (Error ''Rendering device is not initialized'')
   \<and> Surface_context (new_Surface c) = Inl (Error ''Surface is not initialized'')
   \<and> Surface_format (new_Surface c) = Inl (Error ''Surface is not initialized'')
   \<and> Program_shaderModule new_Program = Inl (Error ''Program is not initialized'')
   \<and> Program_pipeline new_Program = Inl (Error ''Program is not initialized'')
   \<and> MipGenerator_sampler new_MipGenerator = Inl (Error ''MipGenerator is not initialized'')
   \<and> (fst (Gpu_init nav g) = Inr () \<longrightarrow>
        (\<exists>a. Gpu_adapter (snd (Gpu_init nav g)) = Inr a)
        \<and> (\<exists>d. Gpu_device (snd (Gpu_init nav g)) = Inr d))
   \<and> (fst (Surface_init nav gpu s) = Inr ()
        \<and> (\<forall>ng. nav_gpu nav = Some ng \<longrightarrow> getPreferredCanvasFormat ng \<noteq> []) \<longrightarrow>
        (\<exists>ctx. Surface_context (snd (Surface_init nav gpu s)) = Inr ctx)
        \<and> (\<exists>f. Surface_format (snd (Surface_init nav gpu s)) = Inr f))
   \<and> (fst (Program_init gpu desc (p, calls)) = Inr () \<longrightarrow>
        (\<exists>m. Program_shaderModule (fst (snd (Program_init gpu desc (p, calls)))) = Inr m)
        \<and> (\<exists>pl. Program_pipeline (fst (snd (Program_init gpu desc (p, calls)))) = Inr pl))
   \<and> (fst (MipGenerator_init gpu (mg, w)) = Inr () \<longrightarrow>
        (\<exists>smp. MipGenerator_sampler (fst (snd (MipGenerator_init gpu (mg, w)))) = Inr smp))
   \<and> (\<not> fst (Gpu_init_calls navs (new_Gpu label)) \<longrightarrow>
        Gpu_device (snd (Gpu_init_calls navs (new_Gpu label)))
          = Inl (Error ''Rendering device is not initialized''))
   \<and> (\<not> fst (Program_init_calls inits (new_Program, calls)) \<longrightarrow>
        Program_pipeline (fst (snd (Program_init_calls inits (new_Program, calls))))
          = Inl (Error ''Program is not initialized''))
   \<and> (\<not> fst (MipGenerator_calls cs (new_MipGenerator, w)) \<longrightarrow>
        MipGenerator_sampler (fst (snd (MipGenerator_calls cs (new_MipGenerator, w))))
          = Inl (Error ''MipGenerator is not initialized''))"
proof (intro conjI impI)
  show "Gpu_adapter (new_Gpu label) = Inl (Error ''Rendering device is not initialized'')"
    by (simp add: Gpu_adapter_def new_Gpu_def)
  show "Gpu_device (new_Gpu label) = Inl (Error ''Rendering device is not initialized'')"
    by (simp add: Gpu_device_def new_Gpu_def)
  show "Surface_context (new_Surface c) = Inl (Error ''Surface is not initialized'')"
    by (simp add: Surface_context_def new_Surface_def)
  show "Surface_format (new_Surface c) = Inl (Error ''Surface is not initialized'')"
    by (simp add: Surface_format_def new_Surface_def)
  show "Program_shaderModule new_Program = Inl (Error ''Program is not initialized'')"
    by (simp add: Program_shaderModule_def new_Program_def)
  show "Program_pipeline new_Program = Inl (Error ''Program is not initialized'')"
    by (simp add: Program_pipeline_def new_Program_def)
  show "MipGenerator_sampler new_MipGenerator = Inl (Error ''MipGenerator is not initialized'')"
    by (simp add: MipGenerator_sampler_def new_MipGenerator_def)
next
  assume "fst (Gpu_init nav g) = Inr ()"
  then have r: "Gpu_ready (snd (Gpu_init nav g))" by (rule Gpu_init_success_ready)
  show "\<exists>a. Gpu_adapter (snd (Gpu_init nav g)) = Inr a"
    using r by (auto simp: Gpu_ready_def Gpu_adapter_def)
  show "\<exists>d. Gpu_device (snd (Gpu_init nav g)) = Inr d"
    using r by (auto simp: Gpu_ready_def Gpu_device_def)
next
  assume a: "fst (Surface_init nav gpu s) = Inr ()
        \<and> (\<forall>ng. nav_gpu nav = Some ng \<longrightarrow> getPreferredCanvasFormat ng \<noteq> [])"
  then show "\<exists>ctx. Surface_context (snd (Surface_init nav gpu s)) = Inr ctx"
    using Surface_init_ok[of nav gpu s] by (auto simp: Surface_context_def)
  show "\<exists>f. Surface_format (snd (Surface_init nav gpu s)) = Inr f"
    using a Surface_init_ok[of nav gpu s] by (auto simp: Surface_format_def)
next
  assume a: "fst (Program_init gpu desc (p, calls)) = Inr ()"
  show "\<exists>m. Program_shaderModule (fst (snd (Program_init gpu desc (p, calls)))) = Inr m"
    using Program_init_success[OF a] by (auto simp: Program_shaderModule_def)
  show "\<exists>pl. Program_pipeline (fst (snd (Program_init gpu desc (p, calls)))) = Inr pl"
    using Program_init_success[OF a] by (auto simp: Program_pipeline_def)
next
  assume a: "fst (MipGenerator_init gpu (mg, w)) = Inr ()"
  show "\<exists>smp. MipGenerator_sampler (fst (snd (MipGenerator_init gpu (mg, w)))) = Inr smp"
    using MipGenerator_init_success[OF a] by (simp add: MipGenerator_sampler_def)
next
  assume a: "\<not> fst (Gpu_init_calls navs (new_Gpu label))"
  have n: "priv_device (new_Gpu label) = None" by (simp add: new_Gpu_def)
  show "Gpu_device (snd (Gpu_init_calls navs (new_Gpu label)))
          = Inl (Error ''Rendering device is not initialized'')"
    using Gpu_init_calls_device[OF n a] by (simp add: Gpu_device_def)
next
  assume a: "\<not> fst (Program_init_calls inits (new_Program, calls))"
  have n: "priv_pipeline (fst (new_Program, calls)) = None" by (simp add: new_Program_def)
  show "Program_pipeline (fst (snd (Program_init_calls inits (new_Program, calls))))
          = Inl (Error ''Program is not initialized'')"
    using Program_init_calls_pipeline[OF n a] by (simp add: Program_pipeline_def)
next
  assume a: "\<not> fst (MipGenerator_calls cs (new_MipGenerator, w))"
  have n: "priv_sampler (fst (new_MipGenerator, w)) = None" by (simp add: new_MipGenerator_def)
  show "MipGenerator_sampler (fst (snd (MipGenerator_calls cs (new_MipGenerator, w))))
          = Inl (Error ''MipGenerator is not initialized'')"
    using MipGenerator_calls_sampler[OF n a] by (simp add: MipGenerator_sampler_def)
qed

theorem accessors_guard_witness:
  "(\<exists>a. Gpu_adapter ex_gpu = Inr a) \<and> (\<exists>d. Gpu_device ex_gpu = Inr d)
   \<and> (\<exists>ctx. Surface_context (snd (Surface_init (ex_navigator (Some ex_adapter)) ex_gpu
          (new_Surface ex_canvas))) = Inr ctx)
   \<and> (\<exists>f. Surface_format (snd (Surface_init (ex_navigator (Some ex_adapter)) ex_gpu
          (new_Surface ex_canvas))) = Inr f)
   \<and> (\<exists>pl. Program_pipeline (fst (snd (Program_init ex_gpu (mipmapDescriptor ''rgba8unorm'')
          (new_Program, [])))) = Inr pl)
   \<and> (\<exists>smp. MipGenerator_sampler (fst ex_state) = Inr smp)
   \<and> Gpu_device (snd (Gpu_init_calls
          [ex_navigator None, ex_navigator (Some ex_adapter_no_device), ex_navigator_rejecting]
          (new_Gpu ''untitled''))) = Inl (Error ''Rendering device is not initialized'')
   \<and> Program_pipeline (fst (snd (Program_init_calls
          [(new_Gpu ''untitled'', mipmapDescriptor ''rgba8unorm''),
           (ex_strict_gpu, mipmapDescriptor ''rgb9e5ufloat'')] (new_Program, []))))
       = Inl (Error ''Program is not initialized'')
   \<and> MipGenerator_sampler (fst (snd (MipGenerator_calls
          [Init (new_Gpu ''untitled''), GetProgram ex_gpu ''rgba8unorm'']
          (new_MipGenerator, ex_world))))
       = Inl (Error ''MipGenerator is not initialized'')"
proof -
  let ?navs = "[ex_navigator None, ex_navigator (Some ex_adapter_no_device),
                ex_navigator_rejecting]"
  let ?inits = "[(new_Gpu ''untitled'', mipmapDescriptor ''rgba8unorm''),
                 (ex_strict_gpu, mipmapDescriptor ''rgb9e5ufloat'')]"
  let ?cs = "[Init (new_Gpu ''untitled''), GetProgram ex_gpu ''rgba8unorm'']"
  have g: "fst (Gpu_init (ex_navigator (Some ex_adapter)) (new_Gpu ''untitled'')) = Inr ()"
    by (simp add: Gpu_init_ok[where a = ex_adapter and d = "ex_device ''untitled device''"]
        ex_navigator_adapter ex_adapter_def new_Gpu_def)
  have s: "fst (Surface_init (ex_navigator (Some ex_adapter)) ex_gpu (new_Surface ex_canvas)) = Inr ()
        \<and> (\<forall>ng. nav_gpu (ex_navigator (Some ex_adapter)) = Some ng \<longrightarrow> getPreferredCanvasFormat ng \<noteq> [])"
    by (auto simp: Surface_init_def ex_navigator_def new_Surface_def ex_canvas_def Gpu_device_def
        ex_gpu_simps Let_def)
  have p: "fst (Program_init ex_gpu (mipmapDescriptor ''rgba8unorm'') (new_Program, [])) = Inr ()"
    by (simp add: Program_init_def Gpu_device_def ex_gpu_simps ex_device_def Let_def)
  have m: "fst (MipGenerator_init ex_gpu (new_MipGenerator, ex_world)) = Inr ()"
    by (simp add: MipGenerator_init_def Gpu_device_def ex_gpu_simps)
  have gc: "\<not> fst (Gpu_init_calls ?navs (new_Gpu ''untitled''))"
    by (simp add: Gpu_init_def navigator_requestAdapter_def ex_navigator_def
        ex_navigator_rejecting_def ex_adapter_no_device_def new_Gpu_def Let_def)
  have pc: "\<not> fst (Program_init_calls ?inits (new_Program, []))"
    by (simp add: Program_init_def Gpu_device_def new_Gpu_def ex_strict_gpu_def
        ex_strict_device_def mipmapDescriptor_def Let_def)
  have mc: "\<not> fst (MipGenerator_calls ?cs (new_MipGenerator, ex_world))"
    by (simp add: MipGenerator_init_def Gpu_device_def new_Gpu_def)
  note t = accessors_guard[of "''untitled''" ex_canvas "ex_navigator (Some ex_adapter)"
      "new_Gpu ''untitled''" ex_gpu "new_Surface ex_canvas" "mipmapDescriptor ''rgba8unorm''"
      new_Program "[]" new_MipGenerator ex_world ?navs ?inits ?cs]
  from t g have "(\<exists>a. Gpu_adapter ex_gpu = Inr a) \<and> (\<exists>d. Gpu_device ex_gpu = Inr d)"
    unfolding ex_gpu_def by blast
  moreover from t s have "(\<exists>ctx. Surface_context (snd (Surface_init (ex_navigator (Some ex_adapter)) ex_gpu
          (new_Surface ex_canvas))) = Inr ctx)
   \<and> (\<exists>f. Surface_format (snd (Surface_init (ex_navigator (Some ex_adapter)) ex_gpu
          (new_Surface ex_canvas))) = Inr f)"
    by blast
  moreover from t p have "\<exists>pl. Program_pipeline (fst (snd (Program_init ex_gpu (mipmapDescriptor ''rgba8unorm'')
          (new_Program, [])))) = Inr pl"
    by blast
  moreover from t m have "\<exists>smp. MipGenerator_sampler (fst ex_state) = Inr smp"
    unfolding ex_state_def by blast
  moreover from t gc have "Gpu_device (snd (Gpu_init_calls ?navs (new_Gpu ''untitled'')))
      = Inl (Error ''Rendering device is not initialized'')"
    by blast
  moreover from t pc have "Program_pipeline (fst (snd (Program_init_calls ?inits (new_Program, []))))
      = Inl (Error ''Program is not initialized'')"
    by blast
  moreover from t mc have "MipGenerator_sampler (fst (snd (MipGenerator_calls ?cs
      (new_MipGenerator, ex_world)))) = Inl (Error ''MipGenerator is not initialized'')"
    by blast
  ultimately show ?thesis by blast
qed

section \<open>createTexture\<close>

lemma usage_flags:
  "GPUTextureUsage_TEXTURE_BINDING OR GPUTextureUsage_COPY_DST OR GPUTextureUsage_RENDER_ATTACHMENT
     = (22 :: 32 word)"
  by (simp add: GPUTextureUsage_TEXTURE_BINDING_def GPUTextureUsage_COPY_DST_def
      GPUTextureUsage_RENDER_ATTACHMENT_def)

lemma usage_permits:
  "(22 :: 32 word) AND GPUTextureUsage_TEXTURE_BINDING = GPUTextureUsage_TEXTURE_BINDING"
  "(22 :: 32 word) AND GPUTextureUsage_COPY_DST = GPUTextureUsage_COPY_DST"
  "(22 :: 32 word) AND GPUTextureUsage_RENDER_ATTACHMENT = GPUTextureUsage_RENDER_ATTACHMENT"
  "(22 :: 32 word) AND GPUTextureUsage_COPY_SRC = 0"
  "(22 :: 32 word) AND GPUTextureUsage_STORAGE_BINDING = 0"
  by (simp_all add: GPUTextureUsage_TEXTURE_BINDING_def GPUTextureUsage_COPY_DST_def
      GPUTextureUsage_RENDER_ATTACHMENT_def GPUTextureUsage_COPY_SRC_def
      GPUTextureUsage_STORAGE_BINDING_def)

text \<open>
  The two halves of a call, run one after the other with nothing in between, are the call
  run to its end.
\<close>

lemma getProgram_split:
  "getProgram gpu f (mg, w) =
     (case getProgram_begin gpu f (mg, w) of
        (pending, w1) \<Rightarrow> getProgram_resume f pending (mg, w1))"
  by (simp add: getProgram_def getProgram_begin_def getProgram_resume_def Let_def
      split: option.splits prod.splits sum.splits)

lemma generate_split:
  "generate gpu texture lc (mg, w) =
     (case generate_begin gpu texture (mg, w) of
        (pending, w1) \<Rightarrow> generate_resume gpu texture lc pending (mg, w1))"
  by (simp add: generate_def generate_begin_def generate_resume_def getProgram_split
      split: prod.splits)

text \<open>What the first half of \<^verbatim>\<open>generate\<close> does when the device is at hand.\<close>

lemma generate_begin_cached:
  "priv_programMap mg (tex_format texture) = Some r \<Longrightarrow>
     generate_begin gpu texture (mg, w) = (Cached r, w)"
  by (simp add: generate_begin_def getProgram_begin_def)

lemma generate_begin_new:
  assumes "priv_programMap mg (tex_format texture) = None" "priv_device gpu = Some dev"
  shows "generate_begin gpu texture (mg, w) =
     (Awaiting (length (programs w))
        (case createRenderPipeline dev (mipmapPipeline (tex_format texture)) of
           Inl e \<Rightarrow> Inl e | Inr pl \<Rightarrow> Inr ()),
      w\<lparr>programs := programs w @
           [\<lparr>priv_shaderModule =
               Some (GPUShaderModule (shaderDescriptor (mipmapDescriptor (tex_format texture)))),
             priv_pipeline =
               (case createRenderPipeline dev (mipmapPipeline (tex_format texture)) of
                  Inl e \<Rightarrow> None | Inr pl \<Rightarrow> Some pl)\<rparr>],
        deviceCalls := deviceCalls w @
           [CreateShaderModule (shaderDescriptor (mipmapDescriptor (tex_format texture))),
            CreateRenderPipeline (mipmapPipeline (tex_format texture))]\<rparr>)"
proof (cases "createRenderPipeline dev (mipmapPipeline (tex_format texture))")
  case (Inl e)
  show ?thesis
    using assms(1) Inl
    by (simp add: generate_begin_def getProgram_begin_def Let_def new_Program_def
        Program_init_pipeline_fails[OF assms(2) Inl])
next
  case (Inr pl)
  show ?thesis
    using assms(1) Inr
    by (simp add: generate_begin_def getProgram_begin_def Let_def new_Program_def
        Program_init_ok[OF assms(2) Inr])
qed

lemma generate_begin_world:
  assumes "priv_device gpu = Some dev"
  shows "\<exists>pending w1. generate_begin gpu texture (mg, w) = (pending, w1)
      \<and> deviceCalls w1 = deviceCalls w @
          (if priv_programMap mg (tex_format texture) = None
           then [CreateShaderModule (shaderDescriptor (mipmapDescriptor (tex_format texture))),
                 CreateRenderPipeline (mipmapPipeline (tex_format texture))]
           else [])
      \<and> length (programs w1) = length (programs w) +
          (if priv_programMap mg (tex_format texture) = None then 1 else 0)
      \<and> spawned w1 = spawned w"
proof (cases "priv_programMap mg (tex_format texture)")
  case None
  show ?thesis by (simp add: generate_begin_new[OF None assms] None)
next
  case (Some r)
  show ?thesis by (simp add: generate_begin_cached[OF Some] Some)
qed

lemma createTexture_run:
  assumes "priv_device (opt_gpu opts) = Some dev"
  shows "createTexture opts (loader, w) =
     (let texture = \<lparr>tex_label = opt_label opts, tex_format = opt_format opts,
                      tex_width = fst (opt_size opts), tex_height = snd (opt_size opts),
                      tex_mipLevelCount = countMipLevels [fst (opt_size opts), snd (opt_size opts)],
                      tex_usage = 22\<rparr>;
          w2 = w\<lparr>deviceCalls := deviceCalls w @
                    [CreateTexture texture,
                     CopyExternalImageToTexture (opt_source opts) True texture 0
                       (fst (opt_size opts)) (snd (opt_size opts))]\<rparr>
      in (Inr texture,
          (loader,
           if countMipLevels [fst (opt_size opts), snd (opt_size opts)] \<noteq> 0
           then (case generate_begin (opt_gpu opts) texture (priv_mipGenerator loader, w2) of
                   (pending, w') \<Rightarrow>
                     w'\<lparr>spawned := spawned w' @
                          [\<lparr>sg_texture = texture, sg_program = pending\<rparr>]\<rparr>)
           else w2)))"
  using assms by (simp add: createTexture_def Gpu_device_def Let_def usage_flags)

text \<open>
  Claim C4 says that \<^verbatim>\<open>generate\<close> is called if and only if the level count is above 1. The
  test of the source is \<^verbatim>\<open>if (texture.mipLevelCount)\<close>: for a 1 by 1 texture the count is 1
  and \<^verbatim>\<open>generate\<close> is called. Before \<^verbatim>\<open>createTexture\<close> returns, the call has built the
  Program of the format on the device; when the rest of it runs, it stores the Program in the
  map and submits no pass.
\<close>

theorem createTexture_single_level:
  "countMipLevels [1, 1] = 1
   \<and> spawned (snd (snd (createTexture
        \<lparr>opt_gpu = ex_gpu, opt_source = ''image'', opt_label = None, opt_size = (1, 1),
         opt_format = ''rgba8unorm''\<rparr> (new_TextureLoader, ex_world))))
      = [\<lparr>sg_texture = \<lparr>tex_label = None, tex_format = ''rgba8unorm'', tex_width = 1,
                         tex_height = 1, tex_mipLevelCount = 1, tex_usage = 22\<rparr>,
          sg_program = Awaiting 0 (Inr ())\<rparr>]
   \<and> deviceCalls (snd (snd (createTexture
        \<lparr>opt_gpu = ex_gpu, opt_source = ''image'', opt_label = None, opt_size = (1, 1),
         opt_format = ''rgba8unorm''\<rparr> (new_TextureLoader, ex_world))))
      = [CreateTexture \<lparr>tex_label = None, tex_format = ''rgba8unorm'', tex_width = 1,
                         tex_height = 1, tex_mipLevelCount = 1, tex_usage = 22\<rparr>,
         CopyExternalImageToTexture ''image'' True
           \<lparr>tex_label = None, tex_format = ''rgba8unorm'', tex_width = 1,
            tex_height = 1, tex_mipLevelCount = 1, tex_usage = 22\<rparr> 0 1 1,
         CreateShaderModule (shaderDescriptor (mipmapDescriptor ''rgba8unorm'')),
         CreateRenderPipeline (mipmapPipeline ''rgba8unorm'')]
   \<and> submitted (deviceCalls (snd (run_spawned ex_gpu (snd (createTexture
        \<lparr>opt_gpu = ex_gpu, opt_source = ''image'', opt_label = None, opt_size = (1, 1),
         opt_format = ''rgba8unorm''\<rparr> (new_TextureLoader, ex_world)))))) = []
   \<and> priv_programMap (priv_mipGenerator (fst (run_spawned ex_gpu (snd (createTexture
        \<lparr>opt_gpu = ex_gpu, opt_source = ''image'', opt_label = None, opt_size = (1, 1),
         opt_format = ''rgba8unorm''\<rparr> (new_TextureLoader, ex_world)))))) ''rgba8unorm'' = Some 0"
proof -
  have c: "countMipLevels [Suc 0, Suc 0] = 1"
    by (simp add: countMipLevels_floorlog floorlog_one)
  let ?t = "\<lparr>tex_label = None, tex_format = ''rgba8unorm'', tex_width = Suc 0,
             tex_height = Suc 0, tex_mipLevelCount = 1, tex_usage = 22\<rparr>"
  have b: "generate_begin ex_gpu ?t (new_MipGenerator, w) =
     (Awaiting (length (programs w)) (Inr ()),
      w\<lparr>programs := programs w @
           [\<lparr>priv_shaderModule =
               Some (GPUShaderModule (shaderDescriptor (mipmapDescriptor ''rgba8unorm''))),
             priv_pipeline = Some (GPURenderPipeline (mipmapPipeline ''rgba8unorm''))\<rparr>],
        deviceCalls := deviceCalls w @
           [CreateShaderModule (shaderDescriptor (mipmapDescriptor ''rgba8unorm'')),
            CreateRenderPipeline (mipmapPipeline ''rgba8unorm'')]\<rparr>)" for w
    by (subst generate_begin_new[where dev = "ex_device ''untitled device''"])
       (simp_all add: new_MipGenerator_def ex_gpu_simps ex_device_def)
  show ?thesis
    by (simp add: createTexture_run[where dev = "ex_device ''untitled device''"] ex_gpu_simps c b
        ex_world_def Let_def run_spawned_def new_TextureLoader_def generate_resume_def
        getProgram_resume_def Gpu_device_def generate_loop.simps loop_cond_def)
qed

text \<open>
  Claim C4, amended. With the device at hand \<^verbatim>\<open>createTexture\<close> creates a texture of the given
  size and format whose level count is \<^verbatim>\<open>countMipLevels\<close> of the two extents and whose usage
  is \<open>TEXTURE_BINDING | COPY_DST | RENDER_ATTACHMENT\<close>, which permits sampling, copying into
  and rendering into the texture; it copies the source into level 0; and it calls
  \<^verbatim>\<open>generate\<close> on the texture if and only if the level count is not zero. That call runs up
  to its first \<^verbatim>\<open>await\<close>: when the map has no Program for the format, a Program is allocated and
  its shader module and its pipeline are requested from the device. \<^verbatim>\<open>createTexture\<close> then
  returns the texture without waiting, whatever the request of the pipeline has given: at
  its \<^verbatim>\<open>return\<close> the TextureLoader and its map are as before and nothing was submitted. The
  rest of the call, from the entry in the map on, is left to run later; run at once, it
  does what \<^verbatim>\<open>generate\<close> does on the state after the copy.
\<close>

theorem createTexture_contract:
  "priv_device (opt_gpu opts) = Some dev \<longrightarrow>
     (\<exists>texture w'. createTexture opts (loader, w) = (Inr texture, (loader, w'))
        \<and> tex_width texture = fst (opt_size opts) \<and> tex_height texture = snd (opt_size opts)
        \<and> tex_format texture = opt_format opts
        \<and> tex_mipLevelCount texture = countMipLevels [fst (opt_size opts), snd (opt_size opts)]
        \<and> tex_usage texture = GPUTextureUsage_TEXTURE_BINDING OR GPUTextureUsage_COPY_DST
                                  OR GPUTextureUsage_RENDER_ATTACHMENT
        \<and> tex_usage texture AND GPUTextureUsage_TEXTURE_BINDING = GPUTextureUsage_TEXTURE_BINDING
        \<and> tex_usage texture AND GPUTextureUsage_COPY_DST = GPUTextureUsage_COPY_DST
        \<and> tex_usage texture AND GPUTextureUsage_RENDER_ATTACHMENT = GPUTextureUsage_RENDER_ATTACHMENT
        \<and> deviceCalls w' = deviceCalls w @
             [CreateTexture texture,
              CopyExternalImageToTexture (opt_source opts) True texture 0
                (fst (opt_size opts)) (snd (opt_size opts))] @
             (if countMipLevels [fst (opt_size opts), snd (opt_size opts)] \<noteq> 0
                  \<and> priv_programMap (priv_mipGenerator loader) (opt_format opts) = None
              then [CreateShaderModule (shaderDescriptor (mipmapDescriptor (opt_format opts))),
                    CreateRenderPipeline (mipmapPipeline (opt_format opts))]
              else [])
        \<and> length (programs w') = length (programs w) +
             (if countMipLevels [fst (opt_size opts), snd (opt_size opts)] \<noteq> 0
                  \<and> priv_programMap (priv_mipGenerator loader) (opt_format opts) = None
              then 1 else 0)
        \<and> submitted (deviceCalls w') = submitted (deviceCalls w)
        \<and> (if countMipLevels [fst (opt_size opts), snd (opt_size opts)] \<noteq> 0
           then \<exists>pending.
                  spawned w' = spawned w @ [\<lparr>sg_texture = texture, sg_program = pending\<rparr>]
                  \<and> generate_resume (opt_gpu opts) texture None pending
                        (priv_mipGenerator loader, w'\<lparr>spawned := spawned w\<rparr>)
                      = generate (opt_gpu opts) texture None
                          (priv_mipGenerator loader,
                           w\<lparr>deviceCalls := deviceCalls w @
                                [CreateTexture texture,
                                 CopyExternalImageToTexture (opt_source opts) True texture 0
                                   (fst (opt_size opts)) (snd (opt_size opts))]\<rparr>)
           else spawned w' = spawned w))"
proof (intro impI)
  assume dev: "priv_device (opt_gpu opts) = Some dev"
  define texture where "texture =
     \<lparr>tex_label = opt_label opts, tex_format = opt_format opts,
      tex_width = fst (opt_size opts), tex_height = snd (opt_size opts),
      tex_mipLevelCount = countMipLevels [fst (opt_size opts), snd (opt_size opts)],
      tex_usage = (22 :: 32 word)\<rparr>"
  define w2 where "w2 = w\<lparr>deviceCalls := deviceCalls w @
                    [CreateTexture texture,
                     CopyExternalImageToTexture (opt_source opts) True texture 0
                       (fst (opt_size opts)) (snd (opt_size opts))]\<rparr>"
  have fmt: "tex_format texture = opt_format opts" by (simp add: texture_def)
  from generate_begin_world[OF dev, of texture "priv_mipGenerator loader" w2]
  obtain pending w1 where
    gb: "generate_begin (opt_gpu opts) texture (priv_mipGenerator loader, w2) = (pending, w1)"
    and calls: "deviceCalls w1 = deviceCalls w2 @
          (if priv_programMap (priv_mipGenerator loader) (opt_format opts) = None
           then [CreateShaderModule (shaderDescriptor (mipmapDescriptor (opt_format opts))),
                 CreateRenderPipeline (mipmapPipeline (opt_format opts))]
           else [])"
    and len: "length (programs w1) = length (programs w2) +
          (if priv_programMap (priv_mipGenerator loader) (opt_format opts) = None then 1 else 0)"
    and sp: "spawned w1 = spawned w2"
    unfolding fmt by blast
  have whole: "generate (opt_gpu opts) texture None (priv_mipGenerator loader, w2)
      = generate_resume (opt_gpu opts) texture None pending (priv_mipGenerator loader, w1)"
    by (simp add: generate_split gb)
  have undo: "w1\<lparr>spawned := spawned w1 @ [\<lparr>sg_texture = texture, sg_program = pending\<rparr>]\<rparr>
                \<lparr>spawned := spawned w\<rparr> = w1"
    using sp by (simp add: w2_def)
  show "\<exists>texture w'. createTexture opts (loader, w) = (Inr texture, (loader, w'))
        \<and> tex_width texture = fst (opt_size opts) \<and> tex_height texture = snd (opt_size opts)
        \<and> tex_format texture = opt_format opts
        \<and> tex_mipLevelCount texture = countMipLevels [fst (opt_size opts), snd (opt_size opts)]
        \<and> tex_usage texture = GPUTextureUsage_TEXTURE_BINDING OR GPUTextureUsage_COPY_DST
                                  OR GPUTextureUsage_RENDER_ATTACHMENT
        \<and> tex_usage texture AND GPUTextureUsage_TEXTURE_BINDING = GPUTextureUsage_TEXTURE_BINDING
        \<and> tex_usage texture AND GPUTextureUsage_COPY_DST = GPUTextureUsage_COPY_DST
        \<and> tex_usage texture AND GPUTextureUsage_RENDER_ATTACHMENT = GPUTextureUsage_RENDER_ATTACHMENT
        \<and> deviceCalls w' = deviceCalls w @
             [CreateTexture texture,
              CopyExternalImageToTexture (opt_source opts) True texture 0
                (fst (opt_size opts)) (snd (opt_size opts))] @
             (if countMipLevels [fst (opt_size opts), snd (opt_size opts)] \<noteq> 0
                  \<and> priv_programMap (priv_mipGenerator loader) (opt_format opts) = None
              then [CreateShaderModule (shaderDescriptor (mipmapDescriptor (opt_format opts))),
                    CreateRenderPipeline (mipmapPipeline (opt_format opts))]
              else [])
        \<and> length (programs w') = length (programs w) +
             (if countMipLevels [fst (opt_size opts), snd (opt_size opts)] \<noteq> 0
                  \<and> priv_programMap (priv_mipGenerator loader) (opt_format opts) = None
              then 1 else 0)
        \<and> submitted (deviceCalls w') = submitted (deviceCalls w)
        \<and> (if countMipLevels [fst (opt_size opts), snd (opt_size opts)] \<noteq> 0
           then \<exists>pending.
                  spawned w' = spawned w @ [\<lparr>sg_texture = texture, sg_program = pending\<rparr>]
                  \<and> generate_resume (opt_gpu opts) texture None pending
                        (priv_mipGenerator loader, w'\<lparr>spawned := spawned w\<rparr>)
                      = generate (opt_gpu opts) texture None
                          (priv_mipGenerator loader,
                           w\<lparr>deviceCalls := deviceCalls w @
                                [CreateTexture texture,
                                 CopyExternalImageToTexture (opt_source opts) True texture 0
                                   (fst (opt_size opts)) (snd (opt_size opts))]\<rparr>)
           else spawned w' = spawned w)"
  proof (cases "countMipLevels [fst (opt_size opts), snd (opt_size opts)] = 0")
    case True
    have ct: "createTexture opts (loader, w) = (Inr texture, (loader, w2))"
      using True by (simp add: createTexture_run[OF dev] Let_def texture_def w2_def)
    show ?thesis
      unfolding ct using True
      by (intro exI[of _ texture] exI[of _ w2])
         (simp add: texture_def w2_def usage_flags usage_permits submitted_append)
  next
    case False
    let ?w' = "w1\<lparr>spawned := spawned w1 @ [\<lparr>sg_texture = texture, sg_program = pending\<rparr>]\<rparr>"
    have ct: "createTexture opts (loader, w) = (Inr texture, (loader, ?w'))"
      using False gb
      by (simp add: createTexture_run[OF dev] Let_def texture_def[symmetric] w2_def[symmetric])
    have res: "generate_resume (opt_gpu opts) texture None pending
                  (priv_mipGenerator loader, ?w'\<lparr>spawned := spawned w\<rparr>)
        = generate (opt_gpu opts) texture None (priv_mipGenerator loader, w2)"
      unfolding undo whole ..
    have s1: "spawned ?w' = spawned w @ [\<lparr>sg_texture = texture, sg_program = pending\<rparr>]"
      using sp by (simp add: w2_def)
    have c1: "deviceCalls ?w' = deviceCalls w @
             [CreateTexture texture,
              CopyExternalImageToTexture (opt_source opts) True texture 0
                (fst (opt_size opts)) (snd (opt_size opts))] @
             (if priv_programMap (priv_mipGenerator loader) (opt_format opts) = None
              then [CreateShaderModule (shaderDescriptor (mipmapDescriptor (opt_format opts))),
                    CreateRenderPipeline (mipmapPipeline (opt_format opts))]
              else [])"
      using calls by (simp add: w2_def)
    have l1: "length (programs ?w') = length (programs w) +
          (if countMipLevels [fst (opt_size opts), snd (opt_size opts)] \<noteq> 0
                  \<and> priv_programMap (priv_mipGenerator loader) (opt_format opts) = None
           then 1 else 0)"
      using len False by (simp add: w2_def)
    have c2: "deviceCalls ?w' = deviceCalls w @
             [CreateTexture texture,
              CopyExternalImageToTexture (opt_source opts) True texture 0
                (fst (opt_size opts)) (snd (opt_size opts))] @
             (if countMipLevels [fst (opt_size opts), snd (opt_size opts)] \<noteq> 0
                  \<and> priv_programMap (priv_mipGenerator loader) (opt_format opts) = None
              then [CreateShaderModule (shaderDescriptor (mipmapDescriptor (opt_format opts))),
                    CreateRenderPipeline (mipmapPipeline (opt_format opts))]
              else [])"
      using c1 False by simp
    have sub: "submitted (deviceCalls ?w') = submitted (deviceCalls w)"
      unfolding c1 by (simp add: submitted_append)
    have ex: "\<exists>pending.
                  spawned ?w' = spawned w @ [\<lparr>sg_texture = texture, sg_program = pending\<rparr>]
                  \<and> generate_resume (opt_gpu opts) texture None pending
                        (priv_mipGenerator loader, ?w'\<lparr>spawned := spawned w\<rparr>)
                      = generate (opt_gpu opts) texture None
                          (priv_mipGenerator loader,
                           w\<lparr>deviceCalls := deviceCalls w @
                                [CreateTexture texture,
                                 CopyExternalImageToTexture (opt_source opts) True texture 0
                                   (fst (opt_size opts)) (snd (opt_size opts))]\<rparr>)"
      using s1 res unfolding w2_def by blast
    have rest: "if countMipLevels [fst (opt_size opts), snd (opt_size opts)] \<noteq> 0
           then \<exists>pending.
                  spawned ?w' = spawned w @ [\<lparr>sg_texture = texture, sg_program = pending\<rparr>]
                  \<and> generate_resume (opt_gpu opts) texture None pending
                        (priv_mipGenerator loader, ?w'\<lparr>spawned := spawned w\<rparr>)
                      = generate (opt_gpu opts) texture None
                          (priv_mipGenerator loader,
                           w\<lparr>deviceCalls := deviceCalls w @
                                [CreateTexture texture,
                                 CopyExternalImageToTexture (opt_source opts) True texture 0
                                   (fst (opt_size opts)) (snd (opt_size opts))]\<rparr>)
           else spawned ?w' = spawned w"
      by (subst if_P[OF False]) (rule ex)
    have tex: "tex_width texture = fst (opt_size opts)" "tex_height texture = snd (opt_size opts)"
      "tex_mipLevelCount texture = countMipLevels [fst (opt_size opts), snd (opt_size opts)]"
      by (simp_all add: texture_def)
    have use: "tex_usage texture = GPUTextureUsage_TEXTURE_BINDING OR GPUTextureUsage_COPY_DST
                                  OR GPUTextureUsage_RENDER_ATTACHMENT"
      "tex_usage texture AND GPUTextureUsage_TEXTURE_BINDING = GPUTextureUsage_TEXTURE_BINDING"
      "tex_usage texture AND GPUTextureUsage_COPY_DST = GPUTextureUsage_COPY_DST"
      "tex_usage texture AND GPUTextureUsage_RENDER_ATTACHMENT = GPUTextureUsage_RENDER_ATTACHMENT"
      by (simp_all add: texture_def usage_flags usage_permits)
    show ?thesis
      using ct tex fmt use c2 l1 sub rest
      by (intro exI[of _ texture] exI[of _ ?w'] conjI)
  qed
qed

theorem createTexture_contract_witness:
  "\<exists>texture w' pending. createTexture
        \<lparr>opt_gpu = ex_gpu, opt_source = ''image'', opt_label = None, opt_size = (300, 150),
         opt_format = ''rgba8unorm''\<rparr> (new_TextureLoader, ex_world) = (Inr texture, (new_TextureLoader, w'))
      \<and> tex_mipLevelCount texture = 9 \<and> tex_usage texture = 22
      \<and> spawned w' = [\<lparr>sg_texture = texture, sg_program = pending\<rparr>]
      \<and> deviceCalls w' =
          [CreateTexture texture, CopyExternalImageToTexture ''image'' True texture 0 300 150,
           CreateShaderModule (shaderDescriptor (mipmapDescriptor ''rgba8unorm'')),
           CreateRenderPipeline (mipmapPipeline ''rgba8unorm'')]"
proof -
  let ?opts = "\<lparr>opt_gpu = ex_gpu, opt_source = ''image'', opt_label = None, opt_size = (300, 150),
         opt_format = ''rgba8unorm''\<rparr>"
  have h: "priv_device (opt_gpu ?opts) = Some (ex_device ''untitled device'')"
    by (simp add: ex_gpu_simps)
  have c: "countMipLevels [fst (opt_size ?opts), snd (opt_size ?opts)] = 9"
    by (simp add: countMipLevels_floorlog compute_floorlog)
  have m: "priv_programMap (priv_mipGenerator new_TextureLoader) (opt_format ?opts) = None"
    by (simp add: new_TextureLoader_def new_MipGenerator_def)
  from createTexture_contract[of ?opts "ex_device ''untitled device''" new_TextureLoader ex_world] h
  obtain texture w' where r:
    "createTexture ?opts (new_TextureLoader, ex_world) = (Inr texture, (new_TextureLoader, w'))"
    "tex_mipLevelCount texture = countMipLevels [fst (opt_size ?opts), snd (opt_size ?opts)]"
    "tex_usage texture = GPUTextureUsage_TEXTURE_BINDING OR GPUTextureUsage_COPY_DST
                                  OR GPUTextureUsage_RENDER_ATTACHMENT"
    "deviceCalls w' = deviceCalls ex_world @
             [CreateTexture texture,
              CopyExternalImageToTexture (opt_source ?opts) True texture 0
                (fst (opt_size ?opts)) (snd (opt_size ?opts))] @
             (if countMipLevels [fst (opt_size ?opts), snd (opt_size ?opts)] \<noteq> 0
                  \<and> priv_programMap (priv_mipGenerator new_TextureLoader) (opt_format ?opts) = None
              then [CreateShaderModule (shaderDescriptor (mipmapDescriptor (opt_format ?opts))),
                    CreateRenderPipeline (mipmapPipeline (opt_format ?opts))]
              else [])"
    "if countMipLevels [fst (opt_size ?opts), snd (opt_size ?opts)] \<noteq> 0
     then \<exists>pending. spawned w' = spawned ex_world @ [\<lparr>sg_texture = texture, sg_program = pending\<rparr>]
            \<and> generate_resume (opt_gpu ?opts) texture None pending
                        (priv_mipGenerator new_TextureLoader, w'\<lparr>spawned := spawned ex_world\<rparr>)
                      = generate (opt_gpu ?opts) texture None
                          (priv_mipGenerator new_TextureLoader,
                           ex_world\<lparr>deviceCalls := deviceCalls ex_world @
                                [CreateTexture texture,
                                 CopyExternalImageToTexture (opt_source ?opts) True texture 0
                                   (fst (opt_size ?opts)) (snd (opt_size ?opts))]\<rparr>)
     else spawned w' = spawned ex_world"
    by blast
  from r(5) obtain pending where
    sp: "spawned w' = spawned ex_world @ [\<lparr>sg_texture = texture, sg_program = pending\<rparr>]"
    unfolding c by auto
  have dc: "deviceCalls w' =
          [CreateTexture texture, CopyExternalImageToTexture ''image'' True texture 0 300 150,
           CreateShaderModule (shaderDescriptor (mipmapDescriptor ''rgba8unorm'')),
           CreateRenderPipeline (mipmapPipeline ''rgba8unorm'')]"
    using r(4) unfolding c m by (simp add: ex_world_def)
  show ?thesis
    using r(1,2,3) sp dc unfolding c usage_flags by (auto simp: ex_world_def)
qed

section \<open>The resize observer\<close>

lemma to_unsigned_long_clamp:
  assumes "1 \<le> L" "L < 2 ^ 32"
  shows "1 \<le> to_unsigned_long (max 1 (min x (real L)))
       \<and> to_unsigned_long (max 1 (min x (real L))) \<le> L"
proof -
  let ?v = "max 1 (min x (real L))"
  have lo: "1 \<le> ?v" by simp
  have hi: "?v \<le> real L" using assms(1) by simp
  have f1: "1 \<le> \<lfloor>?v\<rfloor>" using lo by (simp add: le_floor_iff)
  have "\<lfloor>?v\<rfloor> \<le> \<lfloor>real L\<rfloor>" using hi by (rule floor_mono)
  then have f2: "\<lfloor>?v\<rfloor> \<le> int L" by simp
  have "int L < 2 ^ 32" using assms(2) by (metis of_nat_less_iff of_nat_numeral of_nat_power)
  then have md: "\<lfloor>?v\<rfloor> mod 2 ^ 32 = \<lfloor>?v\<rfloor>" using f1 f2 by simp
  have nn: "\<not> ?v < 0" using lo by linarith
  have eq: "to_unsigned_long ?v = nat \<lfloor>?v\<rfloor>"
    unfolding to_unsigned_long_def using nn md by simp
  show ?thesis unfolding eq using f1 f2 by linarith
qed

lemma resize_entry_clamp:
  assumes dev: "priv_device gpu = Some dev"
    and lim: "1 \<le> maxTextureDimension2D dev" "maxTextureDimension2D dev < 2 ^ 32"
  shows "\<exists>s'. resize_entry gpu entry s = (Inr (), s')
      \<and> 1 \<le> canvas_width (canvas s') \<and> canvas_width (canvas s') \<le> maxTextureDimension2D dev
      \<and> 1 \<le> canvas_height (canvas s') \<and> canvas_height (canvas s') \<le> maxTextureDimension2D dev"
  using dev to_unsigned_long_clamp[OF lim, of "inlineSize entry"]
    to_unsigned_long_clamp[OF lim, of "blockSize entry"]
  by (simp add: resize_entry_def Gpu_device_def Let_def)

lemma resize_observer_clamp:
  assumes dev: "priv_device gpu = Some dev"
    and lim: "1 \<le> maxTextureDimension2D dev" "maxTextureDimension2D dev < 2 ^ 32"
  shows "entries \<noteq> [] \<Longrightarrow>
     \<exists>s'. resize_observer gpu entries s = (Inr (), s')
      \<and> 1 \<le> canvas_width (canvas s') \<and> canvas_width (canvas s') \<le> maxTextureDimension2D dev
      \<and> 1 \<le> canvas_height (canvas s') \<and> canvas_height (canvas s') \<le> maxTextureDimension2D dev"
proof (induction entries arbitrary: s)
  case Nil
  then show ?case by simp
next
  case (Cons entry entries)
  from resize_entry_clamp[OF dev lim, of entry s] obtain s1 where
    e: "resize_entry gpu entry s = (Inr (), s1)"
    and b: "1 \<le> canvas_width (canvas s1)" "canvas_width (canvas s1) \<le> maxTextureDimension2D dev"
      "1 \<le> canvas_height (canvas s1)" "canvas_height (canvas s1) \<le> maxTextureDimension2D dev"
    by blast
  show ?case
  proof (cases "entries = []")
    case True
    then show ?thesis using e b by simp
  next
    case False
    then show ?thesis using Cons.IH[OF False, of s1] e by simp
  qed
qed

text \<open>
  Claim C9. When the observer has run on a resize event, with the device at hand and its
  limit \<^verbatim>\<open>maxTextureDimension2D\<close> an unsigned long that is at least 1, the width and the height
  of the canvas are between 1 and the limit, and the observer has not thrown. A size of 5000
  by 5000 under a limit of 4096 is stored as 4096 by 4096, and a size of 0 by 0 as 1 by 1.
\<close>

theorem resize_clamps:
  "(priv_device gpu = Some dev \<and> 1 \<le> maxTextureDimension2D dev
      \<and> maxTextureDimension2D dev < 2 ^ 32 \<and> entries \<noteq> [] \<longrightarrow>
      (\<exists>s'. resize_observer gpu entries s = (Inr (), s')
        \<and> 1 \<le> canvas_width (canvas s') \<and> canvas_width (canvas s') \<le> maxTextureDimension2D dev
        \<and> 1 \<le> canvas_height (canvas s') \<and> canvas_height (canvas s') \<le> maxTextureDimension2D dev))
   \<and> maxTextureDimension2D (ex_device ''untitled device'') = 4096
   \<and> fst (resize_observer ex_gpu [\<lparr>inlineSize = 5000, blockSize = 5000\<rparr>] (new_Surface ex_canvas))
       = Inr ()
   \<and> canvas_width (canvas (snd (resize_observer ex_gpu
        [\<lparr>inlineSize = 5000, blockSize = 5000\<rparr>] (new_Surface ex_canvas)))) = 4096
   \<and> canvas_height (canvas (snd (resize_observer ex_gpu
        [\<lparr>inlineSize = 5000, blockSize = 5000\<rparr>] (new_Surface ex_canvas)))) = 4096
   \<and> canvas_width (canvas (snd (resize_observer ex_gpu
        [\<lparr>inlineSize = 0, blockSize = 0\<rparr>] (new_Surface ex_canvas)))) = 1
   \<and> canvas_height (canvas (snd (resize_observer ex_gpu
        [\<lparr>inlineSize = 0, blockSize = 0\<rparr>] (new_Surface ex_canvas)))) = 1"
proof (intro conjI impI)
  assume "priv_device gpu = Some dev \<and> 1 \<le> maxTextureDimension2D dev
      \<and> maxTextureDimension2D dev < 2 ^ 32 \<and> entries \<noteq> []"
  then show "\<exists>s'. resize_observer gpu entries s = (Inr (), s')
        \<and> 1 \<le> canvas_width (canvas s') \<and> canvas_width (canvas s') \<le> maxTextureDimension2D dev
        \<and> 1 \<le> canvas_height (canvas s') \<and> canvas_height (canvas s') \<le> maxTextureDimension2D dev"
    using resize_observer_clamp[of gpu dev entries s] by blast
qed (simp_all add: ex_device_def resize_entry_def Gpu_device_def ex_gpu_simps Let_def
      to_unsigned_long_def new_Surface_def)

theorem resize_clamps_witness:
  "\<exists>s'. resize_observer ex_gpu
       [\<lparr>inlineSize = 1280.5, blockSize = 0.25\<rparr>, \<lparr>inlineSize = 9000, blockSize = 720\<rparr>]
       (new_Surface ex_canvas) = (Inr (), s')
     \<and> 1 \<le> canvas_width (canvas s') \<and> canvas_width (canvas s') \<le> 4096
     \<and> 1 \<le> canvas_height (canvas s') \<and> canvas_height (canvas s') \<le> 4096"
proof -
  have h: "priv_device ex_gpu = Some (ex_device ''untitled device'')
      \<and> 1 \<le> maxTextureDimension2D (ex_device ''untitled device'')
      \<and> maxTextureDimension2D (ex_device ''untitled device'') < 2 ^ 32
      \<and> [\<lparr>inlineSize = 1280.5, blockSize = 0.25\<rparr>, \<lparr>inlineSize = 9000, blockSize = 720\<rparr>] \<noteq> []"
    by (simp add: ex_gpu_simps ex_device_def)
  have l: "maxTextureDimension2D (ex_device ''untitled device'') = 4096"
    by (simp add: ex_device_def)
  show ?thesis
    using resize_clamps[of ex_gpu "ex_device ''untitled device''"
        "[\<lparr>inlineSize = 1280.5, blockSize = 0.25\<rparr>, \<lparr>inlineSize = 9000, blockSize = 720\<rparr>]"
        "new_Surface ex_canvas"] h
    unfolding l by blast
qed

end
